(* ===== verification/Prelude.thy ===== *)
theory Prelude
  imports Complex_Main "HOL-Library.Sublist"
begin

text \<open>
  Shared vocabulary of the development: the Python errors the program can raise,
  the ASCII character functions behind \<open>str.isnumeric\<close>, \<open>str.strip\<close>,
  \<open>str.upper\<close> and \<open>int(str)\<close>, decimal printing of numbers, and the console
  (the lines \<open>input()\<close> reads and the lines \<open>print()\<close> writes) as a record
  threaded through every function of the program. Strings are byte lists: the model
  covers ASCII input only (Python's Unicode digits and spaces are not modelled).
\<close>

named_theorems console_simps "unfolding rules of the console operations"
named_theorems digit_simps "facts about decimal digits and their strings"

section \<open>Errors\<close>

text \<open>The reasons a \<open>ValueError\<close> escapes to the top level (none of them is caught).\<close>

datatype value_error =
    DtypeCastError   \<comment> \<open>\<open>pd.read_csv\<close> cannot cast a column to its declared dtype\<close>
  | DateFormatError  \<comment> \<open>\<open>pd.to_datetime\<close> meets a stored date it cannot parse\<close>
  | DuplicateLabels  \<comment> \<open>\<open>resample(...).asfreq\<close> on an index with a repeated date\<close>
  | OutOfBoundsDatetime  \<comment> \<open>\<open>pd.to_datetime\<close> meets a date outside the \<open>datetime64[ns]\<close> range\<close>

datatype py_error =
    EOFError              \<comment> \<open>\<open>input()\<close> at the end of the input stream\<close>
  | RecursionError        \<comment> \<open>the interpreter's recursion limit is reached\<close>
  | PermissionError       \<comment> \<open>\<open>to_csv\<close> cannot write the file\<close>
  | ValueError value_error

type_synonym ('s, 'a) py = "'s \<Rightarrow> py_error + ('a \<times> 's)"

definition bind_py :: "('s, 'a) py \<Rightarrow> ('a \<Rightarrow> ('s, 'b) py) \<Rightarrow> ('s, 'b) py" where
  "bind_py m f s = (case m s of Inl e \<Rightarrow> Inl e | Inr (a, s') \<Rightarrow> f a s')"

section \<open>Characters and decimal strings\<close>

definition is_ascii_digit :: "char \<Rightarrow> bool" where
  "is_ascii_digit c \<longleftrightarrow> (48::nat) \<le> of_char c \<and> of_char c \<le> (57::nat)"

definition digit_value :: "char \<Rightarrow> nat" where
  "digit_value c = of_char c - 48"

definition digit_char :: "nat \<Rightarrow> char" where
  "digit_char n = char_of (48 + n)"

text \<open>\<open>str.isnumeric()\<close>: non-empty and every character numeric.\<close>

definition py_isnumeric :: "string \<Rightarrow> bool" where
  "py_isnumeric s \<longleftrightarrow> s \<noteq> [] \<and> list_all is_ascii_digit s"

text \<open>\<open>int(s)\<close> on a string of digits (leading zeros allowed, as in Python).\<close>

definition digits_to_nat :: "string \<Rightarrow> nat" where
  "digits_to_nat s = foldl (\<lambda>acc c. 10 * acc + digit_value c) 0 s"

text \<open>\<open>str(n)\<close> and f-string interpolation of a non-negative integer.\<close>

fun show_nat :: "nat \<Rightarrow> string" where
  "show_nat n = (if n < 10 then [digit_char n] else show_nat (n div 10) @ [digit_char (n mod 10)])"

declare show_nat.simps [simp del]

definition show_int :: "int \<Rightarrow> string" where
  "show_int i = (if i < 0 then CHR ''-'' # show_nat (nat (- i)) else show_nat (nat i))"

text \<open>Zero padding to a field width, as \<open>%m\<close>, \<open>%d\<close> and \<open>%Y\<close> print.\<close>

definition zero_pad :: "nat \<Rightarrow> string \<Rightarrow> string" where
  "zero_pad w s = replicate (w - length s) (CHR ''0'') @ s"

text \<open>\<open>str.isspace()\<close> on one ASCII character, \<open>str.strip()\<close>, \<open>str.upper()\<close>.\<close>

definition py_isspace :: "char \<Rightarrow> bool" where
  "py_isspace c \<longleftrightarrow> of_char c \<in> {9, 10, 11, 12, 13, 28, 29, 30, 31, 32::nat}"

definition py_strip :: "string \<Rightarrow> string" where
  "py_strip s = rev (dropWhile py_isspace (rev (dropWhile py_isspace s)))"

definition py_upper_char :: "char \<Rightarrow> char" where
  "py_upper_char c = (if (97::nat) \<le> of_char c \<and> of_char c \<le> (122::nat) then char_of (of_char c - (32::nat)) else c)"

definition py_upper :: "string \<Rightarrow> string" where
  "py_upper s = map py_upper_char s"

text \<open>\<open>s.split(c)\<close> with a one-character separator: \<open>''.split('/') == ['']\<close>.\<close>

fun py_split :: "char \<Rightarrow> string \<Rightarrow> string list" where
  "py_split c [] = [[]]"
| "py_split c (x # xs) =
     (if x = c then [] # py_split c xs
      else (case py_split c xs of w # ws \<Rightarrow> (x # w) # ws | [] \<Rightarrow> [[x]]))"

text \<open>
  Converting a sequence element by element, stopping at the first element that raises:
  the first error is the one that escapes.
\<close>

primrec seq_results :: "('e + 'a) list \<Rightarrow> 'e + 'a list" where
  "seq_results [] = Inr []"
| "seq_results (x # xs) =
     (case x of Inl e \<Rightarrow> Inl e
      | Inr a \<Rightarrow> (case seq_results xs of Inl e \<Rightarrow> Inl e | Inr as \<Rightarrow> Inr (a # as)))"

section \<open>The console\<close>

text \<open>
  \<open>inp\<close> holds the lines still to be typed, \<open>out\<close> the lines printed so far.
  Prompts passed to \<open>input()\<close> are not recorded: they are fixed text.
\<close>

record console =
  inp :: "string list"
  out :: "string list"

definition read_line :: "('c console_scheme, string) py" where
  "read_line c = (case inp c of [] \<Rightarrow> Inl EOFError | l # ls \<Rightarrow> Inr (l, c\<lparr>inp := ls\<rparr>))"

definition print_line :: "string \<Rightarrow> 'c console_scheme \<Rightarrow> 'c console_scheme" where
  "print_line s c = c\<lparr>out := out c @ [s]\<rparr>"

text \<open>
  What a function that only uses the console does to the state: it reads a prefix of the
  input, appends to the output, and leaves every other part of the state as it was.
\<close>

definition console_step :: "'c console_scheme \<Rightarrow> 'c console_scheme \<Rightarrow> bool" where
  "console_step c c' \<longleftrightarrow>
     suffix (inp c') (inp c) \<and> prefix (out c) (out c') \<and> c' = c\<lparr>inp := inp c', out := out c'\<rparr>"

section \<open>Sequencing\<close>

lemma bind_py_Inl [simp]: "m s = Inl e \<Longrightarrow> bind_py m f s = Inl e"
  by (simp add: bind_py_def)

lemma bind_py_Inr [simp]: "m s = Inr (a, s') \<Longrightarrow> bind_py m f s = f a s'"
  by (simp add: bind_py_def)

lemma bind_py_Inr_iff:
  "bind_py m f s = Inr r \<longleftrightarrow> (\<exists>a s'. m s = Inr (a, s') \<and> f a s' = Inr r)"
  by (auto simp: bind_py_def split: sum.splits)

section \<open>Console steps\<close>

lemma read_line_Cons [simp, console_simps]:
  "inp c = l # ls \<Longrightarrow> read_line c = Inr (l, c\<lparr>inp := ls\<rparr>)"
  by (simp add: read_line_def)

lemma read_line_Nil [simp, console_simps]: "inp c = [] \<Longrightarrow> read_line c = Inl EOFError"
  by (simp add: read_line_def)

lemma inp_print_line [simp, console_simps]: "inp (print_line s c) = inp c"
  by (simp add: print_line_def)

lemma out_print_line [simp, console_simps]: "out (print_line s c) = out c @ [s]"
  by (simp add: print_line_def)

lemma read_line_Inr:
  "read_line c = Inr (l, c') \<Longrightarrow> inp c = l # inp c' \<and> c' = c\<lparr>inp := inp c'\<rparr>"
  by (auto simp: read_line_def split: list.splits)

lemma read_line_shorter:
  "read_line c = Inr (l, c') \<Longrightarrow> length (inp c') < length (inp c)"
  by (auto dest: read_line_Inr)

lemma console_step_refl [simp]: "console_step c c"
  by (simp add: console_step_def)

lemma console_step_trans [trans]:
  assumes "console_step a b" and "console_step b c"
  shows "console_step a c"
proof -
  from assms have b: "b = a\<lparr>inp := inp b, out := out b\<rparr>" and c: "c = b\<lparr>inp := inp c, out := out c\<rparr>"
    by (simp_all add: console_step_def)
  from c have "c = (a\<lparr>inp := inp b, out := out b\<rparr>)\<lparr>inp := inp c, out := out c\<rparr>"
    by (subst (asm) b) simp
  then have "c = a\<lparr>inp := inp c, out := out c\<rparr>" by simp
  with assms show ?thesis
    by (auto simp: console_step_def intro: suffix_order.trans prefix_order.trans)
qed

lemma console_step_print [simp]: "console_step c (print_line s c)"
  by (simp add: console_step_def print_line_def)

lemma console_step_drop: "inp c = l # ls \<Longrightarrow> console_step c (c\<lparr>inp := ls\<rparr>)"
  by (simp add: console_step_def suffix_ConsI)

lemma console_step_read: "read_line c = Inr (l, c') \<Longrightarrow> console_step c c'"
  by (metis console_step_drop read_line_Inr)

lemma console_step_length: "console_step c c' \<Longrightarrow> length (inp c') \<le> length (inp c)"
  by (auto simp: console_step_def dest: suffix_length_le)

lemma console_step_print_right: "console_step c c' \<Longrightarrow> console_step c (print_line s c')"
  using console_step_trans console_step_print by blast

section \<open>Decimal digits\<close>

lemma digit_value_digit_char [simp, digit_simps]: "n < 10 \<Longrightarrow> digit_value (digit_char n) = n"
  by (simp add: digit_value_def digit_char_def)

lemma is_ascii_digit_digit_char [simp, digit_simps]: "n < 10 \<Longrightarrow> is_ascii_digit (digit_char n)"
  by (simp add: is_ascii_digit_def digit_char_def)

lemma digit_value_less [digit_simps]: "is_ascii_digit c \<Longrightarrow> digit_value c < 10"
  unfolding is_ascii_digit_def digit_value_def by linarith

lemma is_ascii_digit_zero [simp, digit_simps]: "is_ascii_digit (CHR ''0'')"
  by (simp add: is_ascii_digit_def)

lemma digits_to_nat_Nil [simp, digit_simps]: "digits_to_nat [] = 0"
  by (simp add: digits_to_nat_def)

lemma digits_to_nat_snoc [simp, digit_simps]:
  "digits_to_nat (xs @ [c]) = 10 * digits_to_nat xs + digit_value c"
  by (simp add: digits_to_nat_def)

lemma digits_to_nat_single [simp, digit_simps]: "digits_to_nat [c] = digit_value c"
  by (simp add: digits_to_nat_def)

lemma digits_to_nat_Cons_zero [simp, digit_simps]:
  "digits_to_nat (CHR ''0'' # s) = digits_to_nat s"
proof (induction s rule: rev_induct)
  case Nil
  then show ?case by (simp add: digits_to_nat_def digit_value_def)
next
  case (snoc c s)
  then show ?case using digits_to_nat_snoc [of "CHR ''0'' # s" c] by simp
qed

lemma digits_to_nat_zero_pad [simp, digit_simps]: "digits_to_nat (zero_pad w s) = digits_to_nat s"
proof -
  have "digits_to_nat (replicate k (CHR ''0'') @ s) = digits_to_nat s" for k
    by (induction k) simp_all
  then show ?thesis by (simp add: zero_pad_def)
qed

lemma show_nat_small [simp, digit_simps]: "n < 10 \<Longrightarrow> show_nat n = [digit_char n]"
  by (simp add: show_nat.simps)

lemma show_nat_large: "\<not> n < 10 \<Longrightarrow> show_nat n = show_nat (n div 10) @ [digit_char (n mod 10)]"
  by (simp add: show_nat.simps [of n])

lemma show_nat_not_Nil [simp, digit_simps]: "show_nat n \<noteq> []"
  by (cases "n < 10") (simp_all add: show_nat_large)

lemma digits_show_nat [simp, digit_simps]: "list_all is_ascii_digit (show_nat n)"
proof (induction n rule: show_nat.induct)
  case (1 n)
  then show ?case by (cases "n < 10") (simp_all add: show_nat_large)
qed

lemma digits_to_nat_show_nat [simp, digit_simps]: "digits_to_nat (show_nat n) = n"
proof (induction n rule: show_nat.induct)
  case (1 n)
  then show ?case by (cases "n < 10") (simp_all add: show_nat_large)
qed

lemma length_show_nat: "n < 10 ^ k \<Longrightarrow> length (show_nat n) \<le> max 1 k"
proof (induction n arbitrary: k rule: show_nat.induct)
  case (1 n)
  show ?case
  proof (cases "n < 10")
    case True
    then show ?thesis by simp
  next
    case False
    with "1.prems" obtain j where k: "k = Suc j"
      by (cases k) auto
    with "1.prems" have "n div 10 < 10 ^ j"
      by (simp add: less_mult_imp_div_less mult.commute)
    with "1.IH" False have IH: "length (show_nat (n div 10)) \<le> max 1 j"
      by blast
    have "j \<noteq> 0"
    proof
      assume "j = 0"
      with \<open>n div 10 < 10 ^ j\<close> have "n div 10 = 0" by simp
      with False show False by simp
    qed
    with IH False k show ?thesis by (simp add: show_nat_large)
  qed
qed

lemma length_zero_pad: "length s \<le> w \<Longrightarrow> length (zero_pad w s) = w"
  by (simp add: zero_pad_def)

lemma digits_zero_pad [simp, digit_simps]:
  "list_all is_ascii_digit (zero_pad w s) \<longleftrightarrow> list_all is_ascii_digit s"
  by (simp add: zero_pad_def list_all_iff set_replicate_conv_if)

section \<open>Arithmetic\<close>

lemma int_Suc_div: "int (Suc x) div int k = int x div int k + (if k dvd Suc x then 1 else 0)"
proof -
  have "int (Suc x) div int k = int (Suc x div k)" by (simp only: of_nat_div)
  also have "\<dots> = int (x div k) + (if k dvd Suc x then 1 else 0)"
    by (simp add: div_Suc dvd_eq_mod_eq_0)
  finally show ?thesis by (simp only: of_nat_div)
qed
section \<open>Splitting\<close>

lemma py_split_not_Nil [simp]: "py_split c s \<noteq> []"
  by (induction s) (auto split: list.splits)

lemma py_split_no_sep: "c \<notin> set a \<Longrightarrow> py_split c a = [a]"
  by (induction a) auto

lemma py_split_sep: "c \<notin> set a \<Longrightarrow> py_split c (a @ c # b) = a # py_split c b"
proof (induction a)
  case Nil
  then show ?case by simp
next
  case (Cons x a)
  then show ?case by auto
qed

lemma py_split_has_sep: "length (py_split c s) \<noteq> 1 \<Longrightarrow> c \<in> set s"
  by (cases "c \<in> set s") (simp_all add: py_split_no_sep)

lemma py_split_no_sep_elems: "w \<in> set (py_split c s) \<Longrightarrow> c \<notin> set w"
proof (induction s arbitrary: w)
  case Nil
  then show ?case by simp
next
  case (Cons x s)
  then show ?case
    by (cases "py_split c s") (auto split: if_splits)
qed

section \<open>Element-wise conversion\<close>

lemma seq_results_map_Inr [simp]: "seq_results (map Inr xs) = Inr xs"
  by (induction xs) simp_all

lemma seq_results_Inr_iff: "seq_results xs = Inr ys \<longleftrightarrow> xs = map Inr ys"
proof (induction xs arbitrary: ys)
  case Nil
  then show ?case by auto
next
  case (Cons x xs)
  then show ?case by (cases x) (auto split: sum.splits)
qed

lemma seq_results_Inl_Cons [simp]: "seq_results (Inl e # xs) = Inl e"
  by simp

text \<open>When every element either converts or raises \<open>e\<close>, and one raises, \<open>e\<close> escapes.\<close>

lemma seq_results_only_error:
  assumes "\<forall>x\<in>set xs. x = Inl e \<or> (\<exists>a. x = Inr a)" and "Inl e \<in> set xs"
  shows "seq_results xs = Inl e"
  using assms
proof (induction xs)
  case Nil
  then show ?case by simp
next
  case (Cons x xs)
  then show ?case by (auto split: sum.splits)
qed

end
