(* ===== verification/Dates.thy ===== *)
theory Dates
  imports Prelude
begin

text \<open>
  Calendar dates as the program uses them. Every date the program handles is text in the
  format \<open>"%m/%d/%Y"\<close> (\<open>date_format\<close> in \<open>src/AddData.py\<close>,
  \<open>csv_source.DATE_FORMAT\<close> in \<open>src/main.py\<close>). It is read with
  \<open>datetime.strptime\<close> (\<open>get_date\<close>, \<open>show_range\<close>) or \<open>pd.to_datetime\<close>
  with the same format, printed with \<open>strftime\<close>, and compared and resampled day by
  day in \<open>show_range\<close>. This theory models those library calls as the program uses
  them: the parser follows the regular expressions of CPython's \<open>_strptime\<close> for
  \<open>%m\<close>, \<open>%d\<close> and \<open>%Y\<close>, the calendar and the day count follow
  \<open>datetime\<close>'s proleptic Gregorian \<open>_ymd2ord\<close>. The lemmas show that printing
  then parsing gives the date back, that every parsed date is a real calendar date, and
  that comparing day numbers is comparing dates.
\<close>

record date =
  d_year :: nat
  d_month :: nat
  d_day :: nat

section \<open>The calendar\<close>

definition is_leap :: "nat \<Rightarrow> bool" where
  "is_leap y \<longleftrightarrow> 4 dvd y \<and> (\<not> 100 dvd y \<or> 400 dvd y)"

definition days_in_month :: "nat \<Rightarrow> nat \<Rightarrow> nat" where
  "days_in_month y m =
     (if m = 2 then (if is_leap y then 29 else 28)
      else if m \<in> {4, 6, 9, 11} then 30 else 31)"

definition valid_date :: "date \<Rightarrow> bool" where
  "valid_date dt \<longleftrightarrow>
     1 \<le> d_year dt \<and> d_year dt \<le> 9999 \<and> 1 \<le> d_month dt \<and> d_month dt \<le> 12 \<and>
     1 \<le> d_day dt \<and> d_day dt \<le> days_in_month (d_year dt) (d_month dt)"

definition days_before_year :: "nat \<Rightarrow> int" where
  "days_before_year y = (let z = int y - 1 in 365 * z + z div 4 - z div 100 + z div 400)"

definition days_before_month :: "nat \<Rightarrow> nat \<Rightarrow> nat" where
  "days_before_month y m = sum_list (map (days_in_month y) [1..<m])"

text \<open>The day number of a date: day 1 is 01/01/0001.\<close>

definition date_ordinal :: "date \<Rightarrow> int" where
  "date_ordinal dt =
     days_before_year (d_year dt) + int (days_before_month (d_year dt) (d_month dt)) + int (d_day dt)"

text \<open>Python's \<open>date.__lt__\<close>: the tuples (year, month, day) compared in order.\<close>

definition date_less :: "date \<Rightarrow> date \<Rightarrow> bool" where
  "date_less a b \<longleftrightarrow>
     d_year a < d_year b \<or>
     d_year a = d_year b \<and> (d_month a < d_month b \<or> d_month a = d_month b \<and> d_day a < d_day b)"

section \<open>Parsing with \<open>%m/%d/%Y\<close>\<close>

text \<open>A character class \<open>[a-b]\<close> of a regular expression.\<close>

definition char_in :: "char \<Rightarrow> char \<Rightarrow> char \<Rightarrow> bool" where
  "char_in a b c \<longleftrightarrow> of_char a \<le> (of_char c :: nat) \<and> of_char c \<le> (of_char b :: nat)"

text \<open>\<open>%m\<close> is \<open>1[0-2]|0[1-9]|[1-9]\<close>.\<close>

definition month_re :: "string \<Rightarrow> bool" where
  "month_re s \<longleftrightarrow>
     (case s of
       [a, b] \<Rightarrow> a = CHR ''1'' \<and> char_in CHR ''0'' CHR ''2'' b \<or> a = CHR ''0'' \<and> char_in CHR ''1'' CHR ''9'' b
     | [a] \<Rightarrow> char_in CHR ''1'' CHR ''9'' a
     | _ \<Rightarrow> False)"

text \<open>\<open>%d\<close> is \<open>3[01]|[12]\d|0[1-9]|[1-9]| [1-9]\<close> (a leading space is allowed).\<close>

definition day_re :: "string \<Rightarrow> bool" where
  "day_re s \<longleftrightarrow>
     (case s of
       [a, b] \<Rightarrow> a = CHR ''3'' \<and> char_in CHR ''0'' CHR ''1'' b
              \<or> char_in CHR ''1'' CHR ''2'' a \<and> is_ascii_digit b
              \<or> a = CHR ''0'' \<and> char_in CHR ''1'' CHR ''9'' b
              \<or> a = CHR '' '' \<and> char_in CHR ''1'' CHR ''9'' b
     | [a] \<Rightarrow> char_in CHR ''1'' CHR ''9'' a
     | _ \<Rightarrow> False)"

text \<open>\<open>%Y\<close> is \<open>\d\d\d\d\<close>.\<close>

definition year_re :: "string \<Rightarrow> bool" where
  "year_re s \<longleftrightarrow> length s = 4 \<and> list_all is_ascii_digit s"

text \<open>
  \<open>datetime.strptime(s, "%m/%d/%Y")\<close>. The three fields contain no \<open>/\<close>, so the
  regular expression matches exactly when \<open>s\<close> splits at \<open>/\<close> into three fields
  that match their parts; the match must reach the end of \<open>s\<close> ("unconverted data
  remains" otherwise). The numbers are read with \<open>int\<close>, which skips the leading
  space \<open>%d\<close> allows. A day past the end of its month, or year 0, makes
  \<open>datetime\<close> raise \<open>ValueError\<close>. \<open>None\<close> is the \<open>ValueError\<close>.
\<close>

definition strptime_mdY :: "string \<Rightarrow> date option" where
  "strptime_mdY s =
     (case py_split CHR ''/'' s of
       [ms, ds, ys] \<Rightarrow>
         if month_re ms \<and> day_re ds \<and> year_re ys then
           (let dt = \<lparr>d_year = digits_to_nat ys, d_month = digits_to_nat ms,
                      d_day = digits_to_nat (dropWhile (\<lambda>c. c = CHR '' '') ds)\<rparr>
            in if valid_date dt then Some dt else None)
         else None
     | _ \<Rightarrow> None)"

text \<open>
  \<open>strftime("%m/%d/%Y")\<close>: month and day on two digits, the year on four. CPython
  hands \<open>%Y\<close> to the C library: for years 1000 to 9999 every platform prints four
  digits; below 1000 glibc prints the year unpadded while other C libraries pad it. The
  model pads, so what it says of printing years below 1000 holds on padding platforms.
\<close>

definition strftime_mdY :: "date \<Rightarrow> string" where
  "strftime_mdY dt =
     zero_pad 2 (show_nat (d_month dt)) @ CHR ''/'' # zero_pad 2 (show_nat (d_day dt)) @
     CHR ''/'' # zero_pad 4 (show_nat (d_year dt))"

section \<open>Digits of printed dates\<close>

lemma of_char_digit_char [simp, digit_simps]: "n < 10 \<Longrightarrow> of_char (digit_char n) = 48 + n"
  by (simp add: digit_char_def)

lemma digit_char_eq_iff [digit_simps]:
  "a < 10 \<Longrightarrow> digit_char a = c \<longleftrightarrow> of_char c = 48 + a"
  by (metis of_char_digit_char of_char_eq_iff)

lemma digit_char_0 [simp, digit_simps]: "digit_char 0 = CHR ''0''"
  unfolding digit_char_def by code_simp

lemma date_eta [simp]: "\<lparr>d_year = d_year dt, d_month = d_month dt, d_day = d_day dt\<rparr> = dt"
  by (cases dt) simp

lemma zero_pad_show_nat_2:
  "n < 100 \<Longrightarrow> zero_pad 2 (show_nat n) = [digit_char (n div 10), digit_char (n mod 10)]"
proof (cases "n < 10")
  case True
  then show ?thesis by (simp add: zero_pad_def)
next
  case False
  moreover assume "n < 100"
  ultimately show ?thesis by (simp add: show_nat_large zero_pad_def)
qed

lemma month_re_show: "1 \<le> m \<Longrightarrow> m \<le> 12 \<Longrightarrow> month_re (zero_pad 2 (show_nat m))"
  by (auto simp: zero_pad_show_nat_2 month_re_def char_in_def digit_char_eq_iff) presburger+

lemma day_re_show: "1 \<le> d \<Longrightarrow> d \<le> 31 \<Longrightarrow> day_re (zero_pad 2 (show_nat d))"
  by (auto simp: zero_pad_show_nat_2 day_re_def char_in_def digit_char_eq_iff is_ascii_digit_def) presburger+

lemma year_re_show: "y \<le> 9999 \<Longrightarrow> year_re (zero_pad 4 (show_nat y))"
proof -
  assume "y \<le> 9999"
  then have "y < 10 ^ 4" by simp
  then have "length (show_nat y) \<le> 4" using length_show_nat [of y 4] by simp
  then show ?thesis by (simp add: year_re_def length_zero_pad)
qed

lemma slash_not_digit [simp]: "\<not> is_ascii_digit (CHR ''/'')"
  by (simp add: is_ascii_digit_def)

lemma not_in_digits: "list_all is_ascii_digit s \<Longrightarrow> \<not> is_ascii_digit c \<Longrightarrow> c \<notin> set s"
  by (auto simp: list_all_iff)

lemma dropWhile_space_digits:
  "list_all is_ascii_digit s \<Longrightarrow> dropWhile (\<lambda>c. c = CHR '' '') s = s"
  by (cases s) (auto simp: is_ascii_digit_def)

lemma days_in_month_le_31: "days_in_month y m \<le> 31"
  by (simp add: days_in_month_def)

section \<open>Printing then parsing\<close>

lemma strptime_strftime_eq:
  assumes "valid_date dt"
  shows "strptime_mdY (strftime_mdY dt) = Some dt"
proof -
  let ?M = "zero_pad 2 (show_nat (d_month dt))"
  let ?D = "zero_pad 2 (show_nat (d_day dt))"
  let ?Y = "zero_pad 4 (show_nat (d_year dt))"
  have digits: "list_all is_ascii_digit ?M" "list_all is_ascii_digit ?D" "list_all is_ascii_digit ?Y"
    by simp_all
  then have split: "py_split CHR ''/'' (strftime_mdY dt) = [?M, ?D, ?Y]"
    by (simp add: strftime_mdY_def py_split_sep py_split_no_sep not_in_digits)
  have res: "month_re ?M" "day_re ?D" "year_re ?Y"
    using assms days_in_month_le_31 [of "d_year dt" "d_month dt"]
    by (auto simp: valid_date_def intro: month_re_show day_re_show year_re_show)
  show ?thesis
    using assms split res digits by (simp add: strptime_mdY_def dropWhile_space_digits Let_def)
qed

section \<open>The day count and the calendar order\<close>

lemma dvd400: "400 dvd (y::nat) \<Longrightarrow> 100 dvd y"
  by (erule dvd_trans [rotated]) simp
lemma dvd100: "100 dvd (y::nat) \<Longrightarrow> 4 dvd y"
  by (erule dvd_trans [rotated]) simp
lemma leap_count:
  "365 + (if 4 dvd y then 1 else 0) - (if 100 dvd y then 1 else 0) + (if 400 dvd y then 1 else 0)
   = (if is_leap y then 366 else (365::int))"
  using dvd400 [of y] dvd100 [of y] unfolding is_leap_def
  by (cases "4 dvd y"; cases "100 dvd y"; cases "400 dvd y") simp_all

lemma days_before_year_Suc:
  assumes "1 \<le> y"
  shows "days_before_year (Suc y) = days_before_year y + (if is_leap y then 366 else 365)"
proof -
  obtain x where y: "y = Suc x" using assms by (cases y) auto
  have d4: "int y div 4 = int x div 4 + (if 4 dvd y then 1 else 0)"
    using int_Suc_div [of x 4] y by simp
  have d100: "int y div 100 = int x div 100 + (if 100 dvd y then 1 else 0)"
    using int_Suc_div [of x 100] y by simp
  have d400: "int y div 400 = int x div 400 + (if 400 dvd y then 1 else 0)"
    using int_Suc_div [of x 400] y by simp
  have "days_before_year (Suc y) = 365 * (int x + 1) + int y div 4 - int y div 100 + int y div 400"
    using y by (simp add: days_before_year_def Let_def)
  also have "\<dots> = (365 * int x + int x div 4 - int x div 100 + int x div 400)
      + (365 + (if 4 dvd y then 1 else 0) - (if 100 dvd y then 1 else 0) + (if 400 dvd y then 1 else 0))"
    unfolding d4 d100 d400 by (simp only: algebra_simps)
  also have "365 * int x + int x div 4 - int x div 100 + int x div 400 = days_before_year y"
    using y by (simp add: days_before_year_def Let_def)
  finally show ?thesis by (simp only: leap_count)
qed
lemma days_before_month_Suc:
  "1 \<le> m \<Longrightarrow> days_before_month y (Suc m) = days_before_month y m + days_in_month y m"
  by (simp add: days_before_month_def)

lemma days_before_month_mono:
  assumes "1 \<le> a" and "a \<le> b"
  shows "days_before_month y a \<le> days_before_month y b"
  using assms(2)
proof (induction b rule: dec_induct)
  case base
  then show ?case by simp
next
  case (step n)
  with assms(1) show ?case by (simp add: days_before_month_Suc)
qed

lemma days_before_month_13: "days_before_month y 13 = (if is_leap y then 366 else 365)"
  by (simp add: days_before_month_def days_in_month_def upt_rec)

lemma days_before_year_mono:
  assumes "1 \<le> a" and "a \<le> b"
  shows "days_before_year a \<le> days_before_year b"
  using assms(2)
proof (induction b rule: dec_induct)
  case base
  then show ?case by simp
next
  case (step n)
  with assms(1) show ?case by (simp add: days_before_year_Suc)
qed

lemma date_ordinal_in_year:
  assumes "valid_date dt"
  shows "days_before_year (d_year dt) < date_ordinal dt"
    and "date_ordinal dt \<le> days_before_year (Suc (d_year dt))"
proof -
  show "days_before_year (d_year dt) < date_ordinal dt"
    using assms by (simp add: date_ordinal_def valid_date_def)
  have "days_before_month (d_year dt) (d_month dt) + d_day dt
        \<le> days_before_month (d_year dt) (Suc (d_month dt))"
    using assms by (simp add: valid_date_def days_before_month_Suc)
  also have "\<dots> \<le> days_before_month (d_year dt) 13"
    using assms by (intro days_before_month_mono) (simp_all add: valid_date_def)
  finally have "days_before_month (d_year dt) (d_month dt) + d_day dt
      \<le> (if is_leap (d_year dt) then 366 else 365)"
    by (simp add: days_before_month_13)
  then show "date_ordinal dt \<le> days_before_year (Suc (d_year dt))"
    using assms by (simp add: date_ordinal_def valid_date_def days_before_year_Suc split: if_splits)
qed

lemma date_ordinal_mono: "valid_date a \<Longrightarrow> valid_date b \<Longrightarrow> date_less a b \<Longrightarrow> date_ordinal a < date_ordinal b"
proof -
  assume va: "valid_date a" and vb: "valid_date b" and lt: "date_less a b"
  show ?thesis
  proof (cases "d_year a < d_year b")
    case True
    with va have "days_before_year (Suc (d_year a)) \<le> days_before_year (d_year b)"
      by (intro days_before_year_mono) (simp_all add: valid_date_def)
    with date_ordinal_in_year [OF va] date_ordinal_in_year [OF vb] show ?thesis by linarith
  next
    case False
    with lt have y: "d_year a = d_year b" and md: "d_month a < d_month b \<or> d_month a = d_month b \<and> d_day a < d_day b"
      by (auto simp: date_less_def)
    show ?thesis
    proof (cases "d_month a < d_month b")
      case True
      have "days_before_month (d_year a) (d_month a) + d_day a \<le> days_before_month (d_year a) (Suc (d_month a))"
        using va by (simp add: valid_date_def days_before_month_Suc)
      also have "\<dots> \<le> days_before_month (d_year a) (d_month b)"
        using True va by (intro days_before_month_mono) (simp_all add: valid_date_def)
      finally show ?thesis
        using y vb by (simp add: date_ordinal_def valid_date_def)
    next
      case False
      with md y show ?thesis by (simp add: date_ordinal_def)
    qed
  qed
qed

lemma date_less_trichotomy: "date_less a b \<or> a = b \<or> date_less b a"
  by (cases a, cases b) (auto simp: date_less_def)

text \<open>
  Comparing the day numbers of two calendar dates is comparing the dates as Python does,
  by (year, month, day): \<open>show_range\<close>'s comparisons of \<open>datetime\<close>s are comparisons
  of day numbers in the model.
\<close>

lemma date_ordinal_less_iff:
  assumes "valid_date a" and "valid_date b"
  shows "date_ordinal a < date_ordinal b \<longleftrightarrow> date_less a b"
  using date_ordinal_mono [OF assms] date_ordinal_mono [OF assms(2,1)] date_less_trichotomy [of a b]
  by auto

end
