(* ===== verification/Validator.thy ===== *)
theory Validator
  imports Dates
begin

text \<open>
  The input validators of \<open>src/AddData.py\<close>. Each reads lines from the console until
  one is acceptable: \<open>get_date\<close> and \<open>validate_numeric_input\<close> loop with
  \<open>while True\<close>, \<open>get_bp\<close> calls itself again on a bad line. The loops are
  functions whose termination measure is the number of lines left to read; running out of
  lines is \<open>input()\<close>'s \<open>EOFError\<close>, which no validator catches. The recursion of
  \<open>get_bp\<close> carries the number of stack frames Python still allows, so the model shows
  where it differs from the loop the spec asks for.
\<close>

section \<open>Ranges (\<open>AddData.py\<close> lines 4--8)\<close>

definition BP_SYS_MIN :: int where "BP_SYS_MIN = 50"
definition BP_SYS_MAX :: int where "BP_SYS_MAX = 250"
definition BP_DIA_MIN :: int where "BP_DIA_MIN = 30"
definition BP_DIA_MAX :: int where "BP_DIA_MAX = 150"
definition PULSE_RATE_MIN :: int where "PULSE_RATE_MIN = 45"
definition PULSE_RATE_MAX :: int where "PULSE_RATE_MAX = 250"
definition WEIGHT_MIN :: int where "WEIGHT_MIN = 50"
definition WEIGHT_MAX :: int where "WEIGHT_MAX = 500"
definition TEMP_MIN :: int where "TEMP_MIN = 90"
definition TEMP_MAX :: int where "TEMP_MAX = 115"

lemmas range_defs = BP_SYS_MIN_def BP_SYS_MAX_def BP_DIA_MIN_def BP_DIA_MAX_def
  PULSE_RATE_MIN_def PULSE_RATE_MAX_def WEIGHT_MIN_def WEIGHT_MAX_def TEMP_MIN_def TEMP_MAX_def

section \<open>\<open>get_date\<close>\<close>

text \<open>
  \<open>get_date(which_date, this_df, allow_default)\<close>: the first two arguments only shape
  the prompt and are left out. An empty line, when a default is allowed, asks whether to
  use today's date (\<open>today\<close>: what \<open>datetime.today()\<close> returns); any answer but
  \<open>Y\<close> (after \<open>strip().upper()\<close>) starts over. A line \<open>strptime\<close> rejects prints
  \<open>Invalid date\<close>. The result is the date printed back with \<open>strftime\<close>.
\<close>

function get_date :: "bool \<Rightarrow> date \<Rightarrow> ('c console_scheme, string) py" where
  "get_date allow_default today c =
     (case read_line c of
        Inl e \<Rightarrow> Inl e
      | Inr (my_date, c1) \<Rightarrow>
          (if allow_default \<and> my_date = [] then
             (case read_line c1 of
                Inl e \<Rightarrow> Inl e
              | Inr (use_today, c2) \<Rightarrow>
                  if py_upper (py_strip use_today) = ''Y'' then Inr (strftime_mdY today, c2)
                  else get_date allow_default today c2)
           else
             (case strptime_mdY my_date of
                Some parsed \<Rightarrow> Inr (strftime_mdY parsed, c1)
              | None \<Rightarrow> get_date allow_default today (print_line ''Invalid date'' c1))))"
  by pat_completeness auto
termination
  by (relation "measure (\<lambda>(a, t, c). length (inp c))")
     (auto dest!: read_line_shorter)

declare get_date.simps [simp del]

section \<open>Blood pressure\<close>

text \<open>The five messages of \<open>get_bp\<close> (lines 77--86), one per branch.\<close>

datatype bp_class = Elevated | Stage1 | Stage2 | Crisis | Normal

text \<open>The branches in the source's order: the first condition that holds wins.\<close>

definition classify_bp :: "int \<Rightarrow> int \<Rightarrow> bp_class" where
  "classify_bp bpsys bpdia =
     (if 120 \<le> bpsys \<and> bpsys \<le> 129 \<and> bpdia < 80 then Elevated
      else if (130 \<le> bpsys \<and> bpsys \<le> 139) \<or> (80 \<le> bpdia \<and> bpdia \<le> 90) then Stage1
      else if bpsys \<ge> 140 \<or> bpdia \<ge> 90 then Stage2
      else if bpsys > 180 \<or> bpdia > 120 then Crisis
      else Normal)"

primrec bp_warning :: "bp_class \<Rightarrow> string" where
  "bp_warning Elevated = ''Just saying your BP is slightly elevated''"
| "bp_warning Stage1 = ''High BP. Possibly hypertension stage 1''"
| "bp_warning Stage2 = ''High BP. Possibly hypertension stage 2''"
| "bp_warning Crisis = ''High BP. Possibly hypertensive crisis. Please consult a doctor.''"
| "bp_warning Normal = ''Great. Looks normal.''"

text \<open>
  Lines 64--68: split at \<open>/\<close>, exactly two parts, both \<open>isnumeric()\<close>, then
  \<open>int\<close>. \<open>None\<close> is the \<open>ValueError\<close> raised at line 66.
\<close>

definition parse_bp :: "string \<Rightarrow> (int \<times> int) option" where
  "parse_bp line =
     (let bp = py_split CHR ''/'' line in
      if length bp \<noteq> 2 \<or> \<not> (py_isnumeric (bp ! 0) \<and> py_isnumeric (bp ! 1)) then None
      else Some (int (digits_to_nat (bp ! 0)), int (digits_to_nat (bp ! 1))))"

text \<open>Line 72: the realistic-values check.\<close>

definition bp_realistic :: "int \<Rightarrow> int \<Rightarrow> bool" where
  "bp_realistic bpsys bpdia \<longleftrightarrow>
     BP_SYS_MIN \<le> bpsys \<and> bpsys \<le> BP_SYS_MAX \<and> BP_DIA_MIN \<le> bpdia \<and> bpdia \<le> BP_DIA_MAX \<and>
     bpsys > bpdia"

text \<open>
  \<open>get_bp()\<close> as written: a bad line makes it call itself (lines 74 and 92). The first
  argument is the number of nested calls the interpreter still allows (about 997 under the
  default recursion limit of 1000 when \<open>get_bp\<close> is entered from \<open>new_entry\<close>); a
  call with none left raises \<open>RecursionError\<close>, which \<open>except ValueError\<close> does not
  catch.
\<close>

fun get_bp :: "nat \<Rightarrow> ('c console_scheme, int \<times> int) py" where
  "get_bp 0 c = Inl RecursionError"
| "get_bp (Suc depth) c =
     (case read_line c of
        Inl e \<Rightarrow> Inl e
      | Inr (line, c1) \<Rightarrow>
          (case parse_bp line of
             None \<Rightarrow> get_bp depth c1
           | Some (bpsys, bpdia) \<Rightarrow>
               if \<not> bp_realistic bpsys bpdia
               then get_bp depth (print_line ''Please enter some realistic values'' c1)
               else Inr ((bpsys, bpdia), print_line (bp_warning (classify_bp bpsys bpdia)) c1)))"

text \<open>
  The loop the spec asks for (section 9: "a systems implementation should loop"): the same
  body with no bound on the number of retries.
\<close>

function bp_loop :: "('c console_scheme, int \<times> int) py" where
  "bp_loop c =
     (case read_line c of
        Inl e \<Rightarrow> Inl e
      | Inr (line, c1) \<Rightarrow>
          (case parse_bp line of
             None \<Rightarrow> bp_loop c1
           | Some (bpsys, bpdia) \<Rightarrow>
               if \<not> bp_realistic bpsys bpdia
               then bp_loop (print_line ''Please enter some realistic values'' c1)
               else Inr ((bpsys, bpdia), print_line (bp_warning (classify_bp bpsys bpdia)) c1)))"
  by pat_completeness auto
termination
  by (relation "measure (\<lambda>c. length (inp c))") (auto dest!: read_line_shorter)

declare bp_loop.simps [simp del]

section \<open>Numbers\<close>

text \<open>
  Python's \<open>float\<close> values: finite ones are kept as exact rationals (the rounding to
  the nearest binary64 value is not modelled), the infinities and NaN as constructors.
\<close>

datatype pyfloat = Fin rat | PosInf | NegInf | NaN

text \<open>\<open>min_val <= value <= max_val\<close>: false for NaN and the infinities.\<close>

definition float_in_range :: "int \<Rightarrow> int \<Rightarrow> pyfloat \<Rightarrow> bool" where
  "float_in_range lo hi v = (case v of Fin r \<Rightarrow> of_int lo \<le> r \<and> r \<le> of_int hi | _ \<Rightarrow> False)"

text \<open>The value of a finite float; it is only read where the value is in range.\<close>

primrec fin_value :: "pyfloat \<Rightarrow> rat" where
  "fin_value (Fin r) = r"
| "fin_value PosInf = 0"
| "fin_value NegInf = 0"
| "fin_value NaN = 0"

definition range_msg :: "int \<Rightarrow> int \<Rightarrow> string" where
  "range_msg min_val max_val =
     ''Please enter a value between '' @ show_int min_val @ '' and '' @ show_int max_val @ ''.''"

function validate_numeric_input ::
  "(string \<Rightarrow> pyfloat option) \<Rightarrow> int \<Rightarrow> int \<Rightarrow> ('c console_scheme, rat) py" where
  "validate_numeric_input py_float_of min_val max_val c =
     (case read_line c of
        Inl e \<Rightarrow> Inl e
      | Inr (line, c1) \<Rightarrow>
          (case py_float_of line of
             None \<Rightarrow> validate_numeric_input py_float_of min_val max_val
                       (print_line ''Invalid input. Please enter a number.'' c1)
           | Some value \<Rightarrow>
               if \<not> float_in_range min_val max_val value
               then validate_numeric_input py_float_of min_val max_val
                      (print_line (range_msg min_val max_val) c1)
               else Inr (fin_value value, c1)))"
  by pat_completeness auto
termination
  by (relation "measure (\<lambda>(f, lo, hi, c). length (inp c))") (auto dest!: read_line_shorter)

declare validate_numeric_input.simps [simp del]

text \<open>
  A concrete \<open>float(str)\<close> for the examples: surrounding white space, an optional sign,
  \<open>inf\<close>, \<open>infinity\<close> and \<open>nan\<close> in any case, and decimals with an optional
  fraction and exponent. Digit grouping with \<open>_\<close> is not covered. The lemmas about
  \<open>validate_numeric_input\<close> hold for every parser; this one only instantiates them.
\<close>

definition py_lower :: "string \<Rightarrow> string" where
  "py_lower s = map (\<lambda>c. if (65::nat) \<le> of_char c \<and> of_char c \<le> (90::nat) then char_of (of_char c + (32::nat)) else c) s"

definition parse_mantissa :: "string \<Rightarrow> rat option" where
  "parse_mantissa m =
     (case py_split CHR ''.'' m of
        [ip] \<Rightarrow> if py_isnumeric ip then Some (of_nat (digits_to_nat ip)) else None
      | [ip, fp] \<Rightarrow>
          if py_isnumeric (ip @ fp) then Some (of_nat (digits_to_nat (ip @ fp)) / 10 ^ length fp) else None
      | _ \<Rightarrow> None)"

definition parse_exponent :: "string \<Rightarrow> int option" where
  "parse_exponent e =
     (case e of
        CHR ''+'' # ds \<Rightarrow> if py_isnumeric ds then Some (int (digits_to_nat ds)) else None
      | CHR ''-'' # ds \<Rightarrow> if py_isnumeric ds then Some (- int (digits_to_nat ds)) else None
      | ds \<Rightarrow> if py_isnumeric ds then Some (int (digits_to_nat ds)) else None)"

definition parse_decimal :: "string \<Rightarrow> rat option" where
  "parse_decimal u =
     (case py_split CHR ''e'' (py_lower u) of
        [m] \<Rightarrow> parse_mantissa m
      | [m, e] \<Rightarrow>
          (case (parse_mantissa m, parse_exponent e) of
             (Some r, Some k) \<Rightarrow> Some (if 0 \<le> k then r * 10 ^ nat k else r / 10 ^ nat (- k))
           | _ \<Rightarrow> None)
      | _ \<Rightarrow> None)"

definition py_float :: "string \<Rightarrow> pyfloat option" where
  "py_float s =
     (let t = py_strip s;
          (neg, u) = (case t of CHR ''-'' # r \<Rightarrow> (True, r) | CHR ''+'' # r \<Rightarrow> (False, r) | r \<Rightarrow> (False, r));
          w = py_lower u
      in if w = ''inf'' \<or> w = ''infinity'' then Some (if neg then NegInf else PosInf)
         else if w = ''nan'' then Some NaN
         else map_option (\<lambda>r. Fin (if neg then - r else r)) (parse_decimal u))"

text \<open>\<open>int(x)\<close> of a finite float: truncation towards zero.\<close>

definition py_int_of_float :: "rat \<Rightarrow> int" where
  "py_int_of_float r = (if 0 \<le> r then \<lfloor>r\<rfloor> else \<lceil>r\<rceil>)"

text \<open>The three wrappers (lines 118--127): the float parser is their argument.\<close>

definition get_pulse_rate :: "(string \<Rightarrow> pyfloat option) \<Rightarrow> ('c console_scheme, int) py" where
  "get_pulse_rate py_float_of =
     bind_py (validate_numeric_input py_float_of PULSE_RATE_MIN PULSE_RATE_MAX)
       (\<lambda>v c. Inr (py_int_of_float v, c))"

definition get_weight :: "(string \<Rightarrow> pyfloat option) \<Rightarrow> ('c console_scheme, rat) py" where
  "get_weight py_float_of = validate_numeric_input py_float_of WEIGHT_MIN WEIGHT_MAX"

definition get_temp :: "(string \<Rightarrow> pyfloat option) \<Rightarrow> ('c console_scheme, rat) py" where
  "get_temp py_float_of = validate_numeric_input py_float_of TEMP_MIN TEMP_MAX"

section \<open>Notes\<close>

text \<open>\<open>get_notes()\<close> (lines 130--132): a blank line becomes empty, any other is kept as typed.\<close>

definition get_notes :: "('c console_scheme, string) py" where
  "get_notes c =
     (case read_line c of
        Inl e \<Rightarrow> Inl e
      | Inr (notes, c1) \<Rightarrow> Inr (if py_strip notes \<noteq> [] then notes else [], c1))"

section \<open>Acceptance of one line\<close>

definition bp_accepts :: "string \<Rightarrow> bool" where
  "bp_accepts line \<longleftrightarrow> (case parse_bp line of Some (s, d) \<Rightarrow> bp_realistic s d | None \<Rightarrow> False)"

definition bp_retry_msgs :: "string \<Rightarrow> string list" where
  "bp_retry_msgs line = (case parse_bp line of Some _ \<Rightarrow> [''Please enter some realistic values''] | None \<Rightarrow> [])"

section \<open>Lemmas: dates\<close>

lemma strptime_mdY_valid: "strptime_mdY s = Some dt \<Longrightarrow> valid_date dt"
  by (auto simp: strptime_mdY_def Let_def split: list.splits if_splits)

lemma strftime_not_Nil [simp]: "strftime_mdY dt \<noteq> []"
  by (simp add: strftime_mdY_def)

lemma get_date_Cons_parsed:
  "inp c = line # ls \<Longrightarrow> line \<noteq> [] \<Longrightarrow> strptime_mdY line = Some dt \<Longrightarrow>
     get_date allow_default today c = Inr (strftime_mdY dt, c\<lparr>inp := ls\<rparr>)"
  by (simp add: get_date.simps [of allow_default today c])

lemma get_date_Nil: "inp c = [] \<Longrightarrow> get_date allow_default today c = Inl EOFError"
  by (simp add: get_date.simps [of allow_default today c])

lemma get_date_Cons:
  "inp c = line # ls \<Longrightarrow> get_date allow_default today c =
     (if allow_default \<and> line = [] then
        (case ls of
           [] \<Rightarrow> Inl EOFError
         | use_today # ls' \<Rightarrow>
             if py_upper (py_strip use_today) = ''Y'' then Inr (strftime_mdY today, c\<lparr>inp := ls'\<rparr>)
             else get_date allow_default today (c\<lparr>inp := ls'\<rparr>))
      else
        (case strptime_mdY line of
           Some parsed \<Rightarrow> Inr (strftime_mdY parsed, c\<lparr>inp := ls\<rparr>)
         | None \<Rightarrow> get_date allow_default today (print_line ''Invalid date'' (c\<lparr>inp := ls\<rparr>))))"
  by (simp add: get_date.simps [of allow_default today c] read_line_def split: list.splits)

lemma get_date_valid_result:
  assumes "valid_date today"
  shows "get_date allow_default today c = Inr (s, c') \<Longrightarrow> \<exists>dt. valid_date dt \<and> s = strftime_mdY dt"
proof (induction "length (inp c)" arbitrary: c rule: less_induct)
  case less
  show ?case
  proof (cases "inp c")
    case Nil
    with less.prems show ?thesis by (simp add: get_date_Nil)
  next
    case (Cons line ls)
    show ?thesis
    proof (cases "allow_default \<and> line = []")
      case True
      show ?thesis
      proof (cases ls)
        case Nil
        with True Cons less.prems show ?thesis by (simp add: get_date_Cons)
      next
        case Cons2: (Cons u ls')
        show ?thesis
        proof (cases "py_upper (py_strip u) = ''Y''")
          case yes: True
          with True Cons Cons2 less.prems assms show ?thesis by (auto simp: get_date_Cons)
        next
          case no: False
          with True Cons Cons2 less.prems
          have "get_date allow_default today (c\<lparr>inp := ls'\<rparr>) = Inr (s, c')"
            by (simp add: get_date_Cons)
          then show ?thesis by (rule less.hyps [rotated]) (simp add: Cons Cons2)
        qed
      qed
    next
      case False
      show ?thesis
      proof (cases "strptime_mdY line")
        case None
        from less.prems
        have "get_date allow_default today (print_line ''Invalid date'' (c\<lparr>inp := ls\<rparr>)) = Inr (s, c')"
          by (simp add: get_date_Cons [OF Cons] False None)
        then show ?thesis by (rule less.hyps [rotated]) (simp add: Cons)
      next
        case (Some parsed)
        from less.prems Some have "s = strftime_mdY parsed"
          by (simp add: get_date_Cons [OF Cons] False)
        with Some show ?thesis by (blast dest: strptime_mdY_valid)
      qed
    qed
  qed
qed

text \<open>
  C5. Whatever \<open>get_date\<close> returns is a real calendar date printed in the canonical
  \<open>mm/dd/yyyy\<close> form (when today's date is valid).
\<close>

lemma get_date_canonical:
  assumes "valid_date today"
  shows "get_date allow_default today c = Inr (s, c') \<Longrightarrow> \<exists>dt. valid_date dt \<and> s = strftime_mdY dt"
  by (rule get_date_valid_result [OF assms])

section \<open>Lemmas: blood pressure\<close>

lemma bp_loop_Cons:
  "inp c = line # ls \<Longrightarrow> bp_loop c =
     (case parse_bp line of
        None \<Rightarrow> bp_loop (c\<lparr>inp := ls\<rparr>)
      | Some (bpsys, bpdia) \<Rightarrow>
          if \<not> bp_realistic bpsys bpdia
          then bp_loop (print_line ''Please enter some realistic values'' (c\<lparr>inp := ls\<rparr>))
          else Inr ((bpsys, bpdia), print_line (bp_warning (classify_bp bpsys bpdia)) (c\<lparr>inp := ls\<rparr>)))"
  by (simp add: bp_loop.simps [of c])

lemma bp_loop_Nil: "inp c = [] \<Longrightarrow> bp_loop c = Inl EOFError"
  by (simp add: bp_loop.simps [of c])

lemma get_bp_Cons:
  "inp c = line # ls \<Longrightarrow> get_bp (Suc n) c =
     (case parse_bp line of
        None \<Rightarrow> get_bp n (c\<lparr>inp := ls\<rparr>)
      | Some (bpsys, bpdia) \<Rightarrow>
          if \<not> bp_realistic bpsys bpdia
          then get_bp n (print_line ''Please enter some realistic values'' (c\<lparr>inp := ls\<rparr>))
          else Inr ((bpsys, bpdia), print_line (bp_warning (classify_bp bpsys bpdia)) (c\<lparr>inp := ls\<rparr>)))"
  by simp

lemma bp_reject_step:
  "\<not> bp_accepts line \<Longrightarrow> inp c = line # ls \<Longrightarrow>
     bp_loop c = bp_loop (c\<lparr>inp := ls, out := out c @ bp_retry_msgs line\<rparr>)"
  by (auto simp: bp_loop_Cons bp_accepts_def bp_retry_msgs_def print_line_def split: option.splits)

lemma bp_loop_first_accepted:
  assumes "list_all (\<lambda>l. \<not> bp_accepts l) pre" and "parse_bp line = Some (s, d)" and "bp_realistic s d"
    and "inp c = pre @ line # post"
  shows "bp_loop c = Inr ((s, d), c\<lparr>inp := post,
           out := out c @ concat (map bp_retry_msgs pre) @ [bp_warning (classify_bp s d)]\<rparr>)"
  using assms
proof (induction pre arbitrary: c)
  case Nil
  then show ?case by (simp add: bp_loop_Cons print_line_def)
next
  case (Cons x pre)
  from Cons.prems have "bp_loop c = bp_loop (c\<lparr>inp := pre @ line # post, out := out c @ bp_retry_msgs x\<rparr>)"
    by (intro bp_reject_step) simp_all
  also have "\<dots> = Inr ((s, d), c\<lparr>inp := post,
           out := out c @ concat (map bp_retry_msgs (x # pre)) @ [bp_warning (classify_bp s d)]\<rparr>)"
    using Cons.IH [of "c\<lparr>inp := pre @ line # post, out := out c @ bp_retry_msgs x\<rparr>"] Cons.prems
    by simp
  finally show ?case .
qed

lemma bp_loop_no_accept:
  "list_all (\<lambda>l. \<not> bp_accepts l) (inp c) \<Longrightarrow> bp_loop c = Inl EOFError"
proof (induction "inp c" arbitrary: c)
  case Nil
  then show ?case by (simp add: bp_loop_Nil)
next
  case (Cons x xs)
  from Cons.hyps(2) have xs: "inp c = x # xs" by simp
  with Cons.prems have "bp_loop c = bp_loop (c\<lparr>inp := xs, out := out c @ bp_retry_msgs x\<rparr>)"
    by (intro bp_reject_step) simp_all
  also have "\<dots> = Inl EOFError"
    using Cons.hyps xs Cons.prems by simp
  finally show ?case .
qed

lemma get_bp_enough_depth_eq: "length (inp c) < n \<Longrightarrow> get_bp n c = bp_loop c"
proof (induction n arbitrary: c)
  case 0
  then show ?case by simp
next
  case (Suc n)
  show ?case
  proof (cases "inp c")
    case Nil
    then show ?thesis by (simp add: bp_loop_Nil)
  next
    case (Cons line ls)
    with Suc.prems have "length ls < n" by simp
    with Cons Suc.IH show ?thesis
      by (simp add: bp_loop_Cons split: option.splits)
  qed
qed

text \<open>
  C2. The recursive \<open>get_bp\<close> of the source computes what the loop computes whenever
  the interpreter allows more nested calls than there are lines left to read.
\<close>

lemma get_bp_enough_depth: "length (inp c) < n \<Longrightarrow> get_bp n c = bp_loop c"
  by (rule get_bp_enough_depth_eq)

text \<open>
  C3. Each rejected line costs \<open>get_bp\<close> one stack frame: when as many rejected lines
  come first as there are frames left, it fails with \<open>RecursionError\<close>, whatever
  follows.
\<close>

lemma get_bp_depth_exhausted:
  "list_all (\<lambda>l. \<not> bp_accepts l) pre \<Longrightarrow> length pre = n \<Longrightarrow> inp c = pre @ rest \<Longrightarrow>
     get_bp n c = Inl RecursionError"
proof (induction pre arbitrary: c n)
  case Nil
  then show ?case by simp
next
  case (Cons x pre)
  then obtain m where n: "n = Suc m" by (cases n) auto
  from Cons show ?case
    by (auto simp: n bp_accepts_def split: option.splits)
qed

lemma bp_loop_realistic: "bp_loop c = Inr ((s, d), c') \<Longrightarrow> bp_realistic s d"
proof (induction c rule: bp_loop.induct)
  case (1 c)
  then show ?case
    by (subst (asm) bp_loop.simps) (auto split: sum.splits option.splits if_splits)
qed

text \<open>
  C4. The hypertensive-crisis branch of the classification is dead: no reading, valid or
  not, is classified as a crisis, since the stage-2 test before it already catches it.
\<close>

lemma classify_bp_not_crisis: "classify_bp s d \<noteq> Crisis"
  by (simp add: classify_bp_def)

text \<open>
  C8. A reading is called normal exactly when systolic is below 120 and diastolic below 80.
\<close>

lemma classify_bp_normal_iff: "classify_bp s d = Normal \<longleftrightarrow> s < 120 \<and> d < 80"
  by (auto simp: classify_bp_def)

text \<open>
  C1. Given more stack frames than rejected lines before it, \<open>get_bp\<close> skips every line
  it rejects (printing the realistic-values message for each well-formed but unrealistic
  pair) and returns the pair of the first acceptable line, after printing the warning of
  its classification; the lines after it are left unread.
\<close>

lemma get_bp_first_accepted:
  assumes "list_all (\<lambda>l. \<not> bp_accepts l) pre" and "parse_bp line = Some (s, d)" and "bp_realistic s d"
    and "inp c = pre @ line # post" and "length pre < n"
  shows "get_bp n c = Inr ((s, d), c\<lparr>inp := post,
           out := out c @ concat (map bp_retry_msgs pre) @ [bp_warning (classify_bp s d)]\<rparr>)"
  using assms
proof (induction pre arbitrary: c n)
  case Nil
  then obtain m where "n = Suc m" by (cases n) auto
  with Nil show ?case by (simp add: print_line_def)
next
  case (Cons x pre)
  then obtain m where n: "n = Suc m" and m: "length pre < m" by (cases n) auto
  from Cons.prems n have "get_bp n c = get_bp m (c\<lparr>inp := pre @ line # post, out := out c @ bp_retry_msgs x\<rparr>)"
    by (auto simp: bp_accepts_def bp_retry_msgs_def print_line_def split: option.splits)
  also have "\<dots> = Inr ((s, d), c\<lparr>inp := post,
           out := out c @ concat (map bp_retry_msgs (x # pre)) @ [bp_warning (classify_bp s d)]\<rparr>)"
    using Cons.IH [of "c\<lparr>inp := pre @ line # post, out := out c @ bp_retry_msgs x\<rparr>" m] Cons.prems m
    by simp
  finally show ?case .
qed

text \<open>
  C7. If no line of the input is acceptable and the stack is deep enough, \<open>get_bp\<close>
  never returns a value: it reads to the end of the input and fails with \<open>EOFError\<close>.
\<close>

lemma get_bp_no_accept:
  "list_all (\<lambda>l. \<not> bp_accepts l) (inp c) \<Longrightarrow> length (inp c) < n \<Longrightarrow> get_bp n c = Inl EOFError"
  by (simp add: get_bp_enough_depth_eq bp_loop_no_accept)

text \<open>
  C9. A diastolic value from 80 to 90 makes the reading stage 1 whatever the systolic
  value: an accepted reading such as 250/85 is answered with the stage-1 message, since the
  diastolic band of the stage-1 test comes before the systolic test of stage 2.
\<close>

lemma get_bp_diastolic_band_stage1:
  assumes "inp c = line # rest" and "parse_bp line = Some (s, d)" and "bp_realistic s d"
    and "80 \<le> d" and "d \<le> 90" and "0 < n"
  shows "get_bp n c = Inr ((s, d), print_line ''High BP. Possibly hypertension stage 1'' (c\<lparr>inp := rest\<rparr>))"
proof -
  obtain m where n: "n = Suc m" using assms(6) by (cases n) auto
  have "classify_bp s d = Stage1" using assms(4,5) by (simp add: classify_bp_def)
  with assms(1-3) show ?thesis by (simp add: n)
qed

section \<open>Lemmas: numbers\<close>

lemma validate_numeric_input_Cons:
  "inp c = line # ls \<Longrightarrow> validate_numeric_input f lo hi c =
     (case f line of
        None \<Rightarrow> validate_numeric_input f lo hi
                  (print_line ''Invalid input. Please enter a number.'' (c\<lparr>inp := ls\<rparr>))
      | Some value \<Rightarrow>
          if \<not> float_in_range lo hi value
          then validate_numeric_input f lo hi (print_line (range_msg lo hi) (c\<lparr>inp := ls\<rparr>))
          else Inr (fin_value value, c\<lparr>inp := ls\<rparr>))"
  by (simp add: validate_numeric_input.simps [of f lo hi c])

lemma validate_numeric_input_Nil: "inp c = [] \<Longrightarrow> validate_numeric_input f lo hi c = Inl EOFError"
  by (simp add: validate_numeric_input.simps [of f lo hi c])

lemma float_in_range_fin: "float_in_range lo hi v \<Longrightarrow> v = Fin (fin_value v)"
  by (cases v) (simp_all add: float_in_range_def)

lemma validate_numeric_input_in_range:
  "validate_numeric_input f lo hi c = Inr (r, c') \<Longrightarrow> float_in_range lo hi (Fin r)"
proof (induction "inp c" arbitrary: c)
  case Nil
  then show ?case by (simp add: validate_numeric_input_Nil)
next
  case (Cons x xs)
  from Cons.hyps(2) have c: "inp c = x # xs" by simp
  show ?case
  proof (cases "f x")
    case None
    with Cons.prems c have "validate_numeric_input f lo hi
        (print_line ''Invalid input. Please enter a number.'' (c\<lparr>inp := xs\<rparr>)) = Inr (r, c')"
      by (simp add: validate_numeric_input_Cons)
    then show ?thesis by (rule Cons.hyps(1) [rotated]) simp
  next
    case (Some v)
    show ?thesis
    proof (cases "float_in_range lo hi v")
      case True
      with Some Cons.prems c have "r = fin_value v" by (simp add: validate_numeric_input_Cons)
      with True show ?thesis by (metis float_in_range_fin)
    next
      case False
      with Some Cons.prems c have "validate_numeric_input f lo hi
          (print_line (range_msg lo hi) (c\<lparr>inp := xs\<rparr>)) = Inr (r, c')"
        by (simp add: validate_numeric_input_Cons)
      then show ?thesis by (rule Cons.hyps(1) [rotated]) simp
    qed
  qed
qed

text \<open>
  C6. Whatever float parser is used, a value \<open>validate_numeric_input\<close> returns is a
  finite number within its inclusive bounds.
\<close>

lemma validate_numeric_input_bounds:
  "validate_numeric_input f lo hi c = Inr (r, c') \<Longrightarrow> float_in_range lo hi (Fin r)"
  by (rule validate_numeric_input_in_range)

section \<open>Lemmas: what the prompts do to the state\<close>

text \<open>
  The prompts only use the console: each reads a prefix of the input, prints, and leaves
  the rest of the state (for the application: the file) as it was.
\<close>

lemma console_step_drop2:
  "inp c = l # u # ls' \<Longrightarrow> console_step c (c\<lparr>inp := ls'\<rparr>)"
proof -
  assume c: "inp c = l # u # ls'"
  then have "console_step c (c\<lparr>inp := u # ls'\<rparr>)" by (rule console_step_drop)
  also have "console_step (c\<lparr>inp := u # ls'\<rparr>) ((c\<lparr>inp := u # ls'\<rparr>)\<lparr>inp := ls'\<rparr>)"
    by (rule console_step_drop) simp
  finally show ?thesis by simp
qed

lemma get_date_step:
  "get_date allow_default today c = Inr (s, c') \<Longrightarrow> console_step c c'"
proof (induction "length (inp c)" arbitrary: c rule: less_induct)
  case less
  show ?case
  proof (cases "inp c")
    case Nil
    with less.prems show ?thesis by (simp add: get_date_Nil)
  next
    case (Cons line ls)
    show ?thesis
    proof (cases "allow_default \<and> line = []")
      case True
      show ?thesis
      proof (cases ls)
        case Nil
        with True Cons less.prems show ?thesis by (simp add: get_date_Cons)
      next
        case Cons2: (Cons u ls')
        have drop: "console_step c (c\<lparr>inp := ls'\<rparr>)"
          using Cons Cons2 by (simp add: console_step_drop2)
        show ?thesis
        proof (cases "py_upper (py_strip u) = ''Y''")
          case yes: True
          with True Cons Cons2 less.prems drop show ?thesis by (simp add: get_date_Cons)
        next
          case no: False
          with True Cons Cons2 less.prems
          have "get_date allow_default today (c\<lparr>inp := ls'\<rparr>) = Inr (s, c')"
            by (simp add: get_date_Cons)
          then have "console_step (c\<lparr>inp := ls'\<rparr>) c'"
            by (rule less.hyps [rotated]) (simp add: Cons Cons2)
          with drop show ?thesis by (rule console_step_trans)
        qed
      qed
    next
      case False
      have drop: "console_step c (c\<lparr>inp := ls\<rparr>)" using Cons by (rule console_step_drop)
      show ?thesis
      proof (cases "strptime_mdY line")
        case None
        from less.prems
        have "get_date allow_default today (print_line ''Invalid date'' (c\<lparr>inp := ls\<rparr>)) = Inr (s, c')"
          by (simp add: get_date_Cons [OF Cons] False None)
        then have "console_step (print_line ''Invalid date'' (c\<lparr>inp := ls\<rparr>)) c'"
          by (rule less.hyps [rotated]) (simp add: Cons)
        with console_step_print_right [OF drop] show ?thesis by (rule console_step_trans)
      next
        case (Some parsed)
        with less.prems drop show ?thesis by (simp add: get_date_Cons [OF Cons] False)
      qed
    qed
  qed
qed

lemma get_bp_step: "get_bp n c = Inr (p, c') \<Longrightarrow> console_step c c'"
proof (induction n arbitrary: c)
  case 0
  then show ?case by simp
next
  case (Suc n)
  show ?case
  proof (cases "inp c")
    case Nil
    with Suc.prems show ?thesis by simp
  next
    case (Cons line ls)
    have drop: "console_step c (c\<lparr>inp := ls\<rparr>)" using Cons by (rule console_step_drop)
    show ?thesis
    proof (cases "parse_bp line")
      case None
      with Suc.prems Cons have "get_bp n (c\<lparr>inp := ls\<rparr>) = Inr (p, c')" by simp
      with drop Suc.IH show ?thesis by (blast intro: console_step_trans)
    next
      case (Some sd)
      obtain s d where sd: "sd = (s, d)" by (cases sd)
      show ?thesis
      proof (cases "bp_realistic s d")
        case True
        with Suc.prems Cons Some sd drop show ?thesis by (auto intro: console_step_print_right)
      next
        case False
        with Suc.prems Cons Some sd
        have "get_bp n (print_line ''Please enter some realistic values'' (c\<lparr>inp := ls\<rparr>)) = Inr (p, c')"
          by simp
        with console_step_print_right [OF drop] Suc.IH show ?thesis by (blast intro: console_step_trans)
      qed
    qed
  qed
qed

lemma get_bp_realistic_result: "get_bp n c = Inr ((s, d), c') \<Longrightarrow> bp_realistic s d"
proof (induction n arbitrary: c)
  case 0
  then show ?case by simp
next
  case (Suc n)
  then show ?case
    by (cases "inp c") (auto split: option.splits if_splits)
qed

lemma validate_numeric_input_step:
  "validate_numeric_input f lo hi c = Inr (r, c') \<Longrightarrow> console_step c c'"
proof (induction "inp c" arbitrary: c)
  case Nil
  then show ?case by (simp add: validate_numeric_input_Nil)
next
  case (Cons x xs)
  from Cons.hyps(2) have c: "inp c = x # xs" by simp
  have drop: "console_step c (c\<lparr>inp := xs\<rparr>)" using c by (rule console_step_drop)
  show ?case
  proof (cases "f x")
    case None
    with Cons.prems c have "validate_numeric_input f lo hi
        (print_line ''Invalid input. Please enter a number.'' (c\<lparr>inp := xs\<rparr>)) = Inr (r, c')"
      by (simp add: validate_numeric_input_Cons)
    then have "console_step (print_line ''Invalid input. Please enter a number.'' (c\<lparr>inp := xs\<rparr>)) c'"
      by (rule Cons.hyps(1) [rotated]) simp
    with console_step_print_right [OF drop] show ?thesis by (rule console_step_trans)
  next
    case (Some v)
    show ?thesis
    proof (cases "float_in_range lo hi v")
      case True
      with Some Cons.prems c drop show ?thesis by (simp add: validate_numeric_input_Cons)
    next
      case False
      with Some Cons.prems c have "validate_numeric_input f lo hi
          (print_line (range_msg lo hi) (c\<lparr>inp := xs\<rparr>)) = Inr (r, c')"
        by (simp add: validate_numeric_input_Cons)
      then have "console_step (print_line (range_msg lo hi) (c\<lparr>inp := xs\<rparr>)) c'"
        by (rule Cons.hyps(1) [rotated]) simp
      with console_step_print_right [OF drop] show ?thesis by (rule console_step_trans)
    qed
  qed
qed

lemma get_notes_step: "get_notes c = Inr (n, c') \<Longrightarrow> console_step c c'"
  by (auto simp: get_notes_def split: sum.splits intro: console_step_read)

lemma get_pulse_rate_step: "get_pulse_rate f c = Inr (p, c') \<Longrightarrow> console_step c c'"
  by (auto simp: get_pulse_rate_def bind_py_Inr_iff dest: validate_numeric_input_step)

lemma py_int_of_float_bounds:
  "of_int lo \<le> r \<Longrightarrow> r \<le> of_int hi \<Longrightarrow> lo \<le> py_int_of_float r \<and> py_int_of_float r \<le> hi"
proof -
  assume lo: "of_int lo \<le> r" and hi: "r \<le> of_int hi"
  have "\<lfloor>r\<rfloor> \<le> hi" using floor_mono [OF hi] by simp
  moreover have "lo \<le> \<lceil>r\<rceil>" using ceiling_mono [OF lo] by simp
  moreover have "lo \<le> \<lfloor>r\<rfloor>" and "\<lceil>r\<rceil> \<le> hi"
    using lo hi by (simp_all add: le_floor_iff ceiling_le_iff)
  ultimately show ?thesis by (simp add: py_int_of_float_def)
qed

section \<open>Witnesses\<close>

theorem get_bp_first_accepted_witness:
  "list_all (\<lambda>l. \<not> bp_accepts l) [''120'', ''300/80''] \<and> parse_bp ''125/75'' = Some (125, 75) \<and>
   bp_realistic 125 75 \<and>
   get_bp 3 \<lparr>inp = [''120'', ''300/80'', ''125/75'', ''72''], out = []\<rparr>
     = Inr ((125, 75), \<lparr>inp = [''72''],
         out = [''Please enter some realistic values'', ''Just saying your BP is slightly elevated'']\<rparr>)"
proof -
  have h1: "list_all (\<lambda>l. \<not> bp_accepts l) [''120'', ''300/80'']" by code_simp
  have h2: "parse_bp ''125/75'' = Some (125, 75)" by code_simp
  have h3: "bp_realistic 125 75" by (simp add: bp_realistic_def range_defs)
  have c: "classify_bp 125 75 = Elevated" by (simp add: classify_bp_def)
  have m: "concat (map bp_retry_msgs [''120'', ''300/80'']) = [''Please enter some realistic values'']"
    by code_simp
  show ?thesis
    using get_bp_first_accepted [OF h1 h2 h3, of "\<lparr>inp = [''120'', ''300/80'', ''125/75'', ''72''], out = []\<rparr>" "[''72'']" 3]
      h1 h2 h3 c m by simp
qed

theorem get_bp_no_accept_witness:
  "list_all (\<lambda>l. \<not> bp_accepts l) (inp \<lparr>inp = [''x'', ''300/80''], out = []\<rparr>) \<and>
   length (inp \<lparr>inp = [''x'', ''300/80''], out = []\<rparr>) < 3 \<and>
   get_bp 3 \<lparr>inp = [''x'', ''300/80''], out = []\<rparr> = Inl EOFError"
proof -
  have h: "list_all (\<lambda>l. \<not> bp_accepts l) (inp \<lparr>inp = [''x'', ''300/80''], out = []\<rparr>)"
    by code_simp
  show ?thesis using get_bp_no_accept [OF h, of 3] h by simp
qed

theorem get_bp_enough_depth_witness:
  "length (inp \<lparr>inp = [''120'', ''125/75''], out = []\<rparr>) < 3 \<and>
   get_bp 3 \<lparr>inp = [''120'', ''125/75''], out = []\<rparr> = bp_loop \<lparr>inp = [''120'', ''125/75''], out = []\<rparr>"
  using get_bp_enough_depth [of "\<lparr>inp = [''120'', ''125/75''], out = []\<rparr>" 3] by simp

theorem get_bp_depth_exhausted_witness:
  "list_all (\<lambda>l. \<not> bp_accepts l) [''120'', ''x''] \<and>
   get_bp 2 \<lparr>inp = [''120'', ''x'', ''125/75''], out = []\<rparr> = Inl RecursionError \<and>
   bp_loop \<lparr>inp = [''120'', ''x'', ''125/75''], out = []\<rparr>
     = Inr ((125, 75), \<lparr>inp = [], out = [''Just saying your BP is slightly elevated'']\<rparr>)"
proof -
  have h: "list_all (\<lambda>l. \<not> bp_accepts l) [''120'', ''x'']" by code_simp
  have l: "bp_loop \<lparr>inp = [''120'', ''x'', ''125/75''], out = []\<rparr>
     = Inr ((125, 75), \<lparr>inp = [], out = [''Just saying your BP is slightly elevated'']\<rparr>)"
    by code_simp
  show ?thesis
    using get_bp_depth_exhausted [OF h, of 2 "\<lparr>inp = [''120'', ''x'', ''125/75''], out = []\<rparr>" "[''125/75'']"]
      h l by simp
qed

theorem get_date_canonical_witness:
  "valid_date \<lparr>d_year = 2024, d_month = 3, d_day = 9\<rparr> \<and>
   get_date True \<lparr>d_year = 2024, d_month = 3, d_day = 9\<rparr> \<lparr>inp = [''1/5/2024''], out = []\<rparr>
     = Inr (''01/05/2024'', \<lparr>inp = [], out = []\<rparr>) \<and>
   (\<exists>dt. valid_date dt \<and> ''01/05/2024'' = strftime_mdY dt)"
proof -
  have v: "valid_date \<lparr>d_year = 2024, d_month = 3, d_day = 9\<rparr>"
    by (simp add: valid_date_def days_in_month_def)
  have g: "get_date True \<lparr>d_year = 2024, d_month = 3, d_day = 9\<rparr> \<lparr>inp = [''1/5/2024''], out = []\<rparr>
     = Inr (''01/05/2024'', \<lparr>inp = [], out = []\<rparr>)"
    by code_simp
  show ?thesis using get_date_canonical [OF v g] v g by simp
qed

theorem validate_numeric_input_bounds_witness:
  "validate_numeric_input py_float 45 250 \<lparr>inp = [''abc'', ''300'', '' 72.5 ''], out = []\<rparr>
     = Inr (145 / 2, \<lparr>inp = [], out = [''Invalid input. Please enter a number.'',
                                         ''Please enter a value between 45 and 250.'']\<rparr>) \<and>
   float_in_range 45 250 (Fin (145 / 2))"
proof -
  have g: "validate_numeric_input py_float 45 250 \<lparr>inp = [''abc'', ''300'', '' 72.5 ''], out = []\<rparr>
     = Inr (145 / 2, \<lparr>inp = [], out = [''Invalid input. Please enter a number.'',
                                         ''Please enter a value between 45 and 250.'']\<rparr>)"
    by code_simp
  show ?thesis using validate_numeric_input_bounds [OF g] g by simp
qed

theorem get_bp_diastolic_band_stage1_witness:
  "inp \<lparr>inp = [''250/85''], out = []\<rparr> = ''250/85'' # [] \<and> parse_bp ''250/85'' = Some (250, 85) \<and>
   bp_realistic 250 85 \<and> (80::int) \<le> 85 \<and> (85::int) \<le> 90 \<and> (0::nat) < 3 \<and>
   get_bp 3 \<lparr>inp = [''250/85''], out = []\<rparr> =
     Inr ((250, 85), \<lparr>inp = [], out = [''High BP. Possibly hypertension stage 1'']\<rparr>)"
proof -
  have i: "inp \<lparr>inp = [''250/85''], out = []\<rparr> = ''250/85'' # []" by simp
  have p: "parse_bp ''250/85'' = Some (250, 85)" by code_simp
  have r: "bp_realistic 250 85" by (simp add: bp_realistic_def range_defs)
  have "get_bp 3 \<lparr>inp = [''250/85''], out = []\<rparr> =
     Inr ((250, 85), print_line ''High BP. Possibly hypertension stage 1'' (\<lparr>inp = [''250/85''], out = []\<rparr>\<lparr>inp := []\<rparr>))"
    by (rule get_bp_diastolic_band_stage1 [OF i p r]) simp_all
  with i p r show ?thesis by (simp add: print_line_def)
qed

end
