(* ===== verification/Store.thy ===== *)
theory Store
  imports Validator
begin

text \<open>
  The record store of \<open>src/main.py\<close>: \<open>csv_source.get_data\<close> (load or create
  \<open>vitals.csv\<close>) and \<open>add_or_update_record\<close> (upsert by date, then rewrite the
  whole file). The file is modelled by its rows of text, \<open>None\<close> when it does not
  exist, together with whether it can be written. What pandas (2.x) does between the text
  and the \<open>DataFrame\<close> is modelled explicitly:
  \<^item> \<open>read_csv(..., dtype=DATA_DICT, parse_dates=["date"])\<close> (line 41) rejects a
    non-integral \<open>weight\<close> (declared \<open>int\<close>), reads missing-value markers in the notes
    as missing notes, and converts the date column to datetimes: the format is guessed
    from the first date text, and when every text parses with it to a date of the
    \<open>datetime64[ns]\<close> range the column holds datetimes (\<open>DT\<close>), otherwise it is left
    as the texts (\<open>TXT\<close>);
  \<^item> \<open>to_csv\<close> (lines 46 and 148) writes a column of datetimes as \<open>YYYY-MM-DD\<close>,
    and a datetime inside a mixed column as \<open>str(Timestamp)\<close>, \<open>YYYY-MM-DD 00:00:00\<close>;
  \<^item> \<open>pd.to_datetime(df["date"], format="%m/%d/%Y")\<close> (line 65) keeps datetimes and
    parses texts with the format, raising on a text that does not match or on a date
    outside the \<open>datetime64[ns]\<close> range.
  The date a user enters is the \<open>mm/dd/yyyy\<close> text \<open>get_date\<close> returns. The test
  \<open>date in df['date'].values\<close> (line 134) compares that text with the loaded cells: it
  never equals a datetime, so on a parsed column every entry is appended, and the file it
  writes mixes two date forms, which the next load can no longer parse.
\<close>

section \<open>Rows and the file\<close>

text \<open>A date cell of a loaded table: a datetime, or the text when the column was not parsed.\<close>

datatype dcell = DT date | TXT string

text \<open>
  One row: the columns of \<open>COLUMN_NAMES\<close> (line 19), with the type of the date column as
  a parameter: text in the file, a cell in the loaded table.
\<close>

record 'd vrow =
  r_date :: 'd
  bp_sys :: int
  bp_dia :: int
  pulse_rate :: int
  weight :: rat
  temp :: rat
  r_notes :: string

type_synonym row = "string vrow"
type_synonym frow = "dcell vrow"

text \<open>The program's state beyond the console: the file and whether it can be written.\<close>

record store = console +
  csv_file :: "row list option"
  writable :: bool

definition with_date :: "'e \<Rightarrow> 'd vrow \<Rightarrow> 'e vrow" where
  "with_date x r = \<lparr>r_date = x, bp_sys = bp_sys r, bp_dia = bp_dia r, pulse_rate = pulse_rate r,
                    weight = weight r, temp = temp r, r_notes = r_notes r\<rparr>"

text \<open>The strings \<open>read_csv\<close> reads as a missing value by default.\<close>

definition na_values :: "string list" where
  "na_values = [''-1.#IND'', ''1.#QNAN'', ''1.#IND'', ''-1.#QNAN'', ''#N/A N/A'', ''#N/A'', ''N/A'',
     ''n/a'', ''NA'', ''<NA>'', ''#NA'', ''NULL'', ''null'', ''NaN'', ''-NaN'', ''nan'', ''-nan'',
     ''None'', '''']"

definition is_integral :: "rat \<Rightarrow> bool" where
  "is_integral r \<longleftrightarrow> of_int \<lfloor>r\<rfloor> = r"

definition clean_notes :: "string \<Rightarrow> string" where
  "clean_notes n = (if n \<in> set na_values then [] else n)"

section \<open>Date texts of pandas\<close>

text \<open>\<open>Timestamp.strftime("%Y-%m-%d")\<close>, and \<open>str(Timestamp)\<close> of a date at midnight.\<close>

definition iso_date_text :: "date \<Rightarrow> string" where
  "iso_date_text dt =
     zero_pad 4 (show_nat (d_year dt)) @ CHR ''-'' # zero_pad 2 (show_nat (d_month dt)) @
     CHR ''-'' # zero_pad 2 (show_nat (d_day dt))"

definition timestamp_text :: "date \<Rightarrow> string" where
  "timestamp_text dt = iso_date_text dt @ '' 00:00:00''"

text \<open>Reading \<open>YYYY-MM-DD\<close> and \<open>YYYY-MM-DD 00:00:00\<close> back (pandas' ISO parser).\<close>

definition parse_iso_date :: "string \<Rightarrow> date option" where
  "parse_iso_date s =
     (case py_split CHR ''-'' s of
        [ys, ms, ds] \<Rightarrow>
          if length ys = 4 \<and> length ms = 2 \<and> length ds = 2 \<and> list_all is_ascii_digit (ys @ ms @ ds) then
            (let dt = \<lparr>d_year = digits_to_nat ys, d_month = digits_to_nat ms, d_day = digits_to_nat ds\<rparr>
             in if valid_date dt then Some dt else None)
          else None
      | _ \<Rightarrow> None)"

definition parse_iso_stamp :: "string \<Rightarrow> date option" where
  "parse_iso_stamp s = (if drop 10 s = '' 00:00:00'' then parse_iso_date (take 10 s) else None)"

text \<open>
  The formats \<open>read_csv\<close> can guess for the texts this program writes, in the order
  they are tried: \<open>%m/%d/%Y\<close> (\<open>get_date\<close>), \<open>%Y-%m-%d\<close> and
  \<open>%Y-%m-%d %H:%M:%S\<close> (\<open>to_csv\<close>).
\<close>

datatype date_fmt = FmtMDY | FmtISODate | FmtISOStamp

definition parse_with :: "date_fmt \<Rightarrow> string \<Rightarrow> date option" where
  "parse_with f = (case f of FmtMDY \<Rightarrow> strptime_mdY | FmtISODate \<Rightarrow> parse_iso_date | FmtISOStamp \<Rightarrow> parse_iso_stamp)"

definition guess_format :: "string \<Rightarrow> date_fmt option" where
  "guess_format s = find (\<lambda>f. parse_with f s \<noteq> None) [FmtMDY, FmtISODate, FmtISOStamp]"

text \<open>Without a guessed format each text is parsed on its own, by any known format.\<close>

definition parse_any :: "string \<Rightarrow> date option" where
  "parse_any s = (case guess_format s of Some f \<Rightarrow> parse_with f s | None \<Rightarrow> None)"

text \<open>The dates a \<open>datetime64[ns]\<close> holds at midnight: 1677-09-22 to 2262-04-11.\<close>

definition ns_min :: date where
  "ns_min = \<lparr>d_year = 1677, d_month = 9, d_day = 22\<rparr>"

definition ns_max :: date where
  "ns_max = \<lparr>d_year = 2262, d_month = 4, d_day = 11\<rparr>"

definition in_ns_range :: "date \<Rightarrow> bool" where
  "in_ns_range dt \<longleftrightarrow> \<not> date_less dt ns_min \<and> \<not> date_less ns_max dt"

text \<open>
  \<open>parse_dates=["date"]\<close>: the format is guessed from the first text; a column that
  does not convert as a whole is left as text (the conversion runs with
  \<open>errors="ignore"\<close>).
\<close>

definition parse_date_column :: "string list \<Rightarrow> dcell list" where
  "parse_date_column ts =
     (let parse = (case ts of [] \<Rightarrow> parse_any
                   | t # _ \<Rightarrow> (case guess_format t of Some f \<Rightarrow> parse_with f | None \<Rightarrow> parse_any))
      in case those (map parse ts) of
           Some ds \<Rightarrow> if list_all in_ns_range ds then map DT ds else map TXT ts
         | None \<Rightarrow> map TXT ts)"

section \<open>\<open>csv_source.get_data\<close> (lines 32--48)\<close>

text \<open>
  \<open>pd.read_csv(FILE_NAME, dtype=DATA_DICT, parse_dates=["date"])\<close> (line 41) on the
  rows last written: an \<open>int\<close> column holding a non-integral number cannot be cast
  (\<open>ValueError\<close>); a note that is a missing-value marker comes back missing, which the
  program shows and writes back as empty; the date column is converted as above.
\<close>

definition read_table :: "row list \<Rightarrow> frow list option" where
  "read_table rows =
     (if list_all (\<lambda>r. is_integral (weight r)) rows
      then Some (map2 (\<lambda>c r. with_date c (r\<lparr>r_notes := clean_notes (r_notes r)\<rparr>))
                      (parse_date_column (map r_date rows)) rows)
      else None)"

text \<open>
  An existing file is read; a missing one is created empty (the header only) and reported.
  The write at line 46 is outside any \<open>try\<close>: a \<open>PermissionError\<close> escapes.
\<close>

definition get_data :: "('s store_scheme, frow list) py" where
  "get_data w =
     (case csv_file w of
        Some rows \<Rightarrow>
          (case read_table rows of
             Some df \<Rightarrow> Inr (df, w)
           | None \<Rightarrow> Inl (ValueError DtypeCastError))
      | None \<Rightarrow>
          if writable w then Inr ([], print_line ''Created new file'' (w\<lparr>csv_file := Some []\<rparr>))
          else Inl PermissionError)"

section \<open>Writing the table: \<open>to_csv\<close>\<close>

definition is_dt :: "dcell \<Rightarrow> bool" where
  "is_dt c = (case c of DT _ \<Rightarrow> True | TXT _ \<Rightarrow> False)"

text \<open>
  A column of datetimes only is written \<open>YYYY-MM-DD\<close>; in a column that also holds text
  (after a text date is appended) each datetime is written as \<open>str(Timestamp)\<close>.
\<close>

definition cell_text :: "bool \<Rightarrow> dcell \<Rightarrow> string" where
  "cell_text all_dt c = (case c of DT d \<Rightarrow> if all_dt then iso_date_text d else timestamp_text d | TXT s \<Rightarrow> s)"

definition to_csv :: "frow list \<Rightarrow> row list" where
  "to_csv df = map (\<lambda>r. with_date (cell_text (list_all is_dt (map r_date df)) (r_date r)) r) df"

section \<open>\<open>pd.to_datetime(df["date"], format="%m/%d/%Y")\<close> (line 65)\<close>

text \<open>
  A datetime stays as it is; a text is parsed with the format, and must give a date of the
  \<open>datetime64[ns]\<close> range (\<open>OutOfBoundsDatetime\<close>, a \<open>ValueError\<close>). The first
  element that fails raises.
\<close>

definition cell_to_datetime :: "dcell \<Rightarrow> value_error + date" where
  "cell_to_datetime c =
     (case c of
        DT d \<Rightarrow> Inr d
      | TXT s \<Rightarrow> (case strptime_mdY s of
                   None \<Rightarrow> Inl DateFormatError
                 | Some d \<Rightarrow> if in_ns_range d then Inr d else Inl OutOfBoundsDatetime))"

definition to_datetime_mdY :: "dcell list \<Rightarrow> value_error + date list" where
  "to_datetime_mdY cs = seq_results (map cell_to_datetime cs)"

section \<open>\<open>add_or_update_record\<close> (lines 114--151)\<close>

text \<open>
  Lines 136--137: every row whose date equals the given text gets the new values, cast with
  \<open>int\<close> (the weight is truncated) and \<open>float\<close>. A datetime never equals a text.
\<close>

definition update_rows :: "dcell \<Rightarrow> int \<Rightarrow> int \<Rightarrow> int \<Rightarrow> rat \<Rightarrow> rat \<Rightarrow> string \<Rightarrow> frow list \<Rightarrow> frow list" where
  "update_rows key sys_bp dia_bp pulse w t n df =
     map (\<lambda>r. if r_date r = key
               then r\<lparr>bp_sys := sys_bp, bp_dia := dia_bp, pulse_rate := pulse,
                      weight := of_int (py_int_of_float w), temp := t, r_notes := n\<rparr>
               else r) df"

text \<open>Lines 141--146: the new row as given, its date the text, appended.\<close>

definition new_row :: "'d \<Rightarrow> int \<Rightarrow> int \<Rightarrow> int \<Rightarrow> rat \<Rightarrow> rat \<Rightarrow> string \<Rightarrow> 'd vrow" where
  "new_row date sys_bp dia_bp pulse w t n =
     \<lparr>r_date = date, bp_sys = sys_bp, bp_dia = dia_bp, pulse_rate = pulse, weight = w, temp = t, r_notes = n\<rparr>"

text \<open>
  The whole function: load, update or append, then write the whole table. The test of
  line 134 looks for the date text among the loaded cells. A write that fails with
  \<open>PermissionError\<close> is reported and the file keeps its old content; after either
  branch the code prints \<open>Added new record\<close>, also after an update.
\<close>

definition add_or_update_record ::
  "string \<Rightarrow> int \<Rightarrow> int \<Rightarrow> int \<Rightarrow> rat \<Rightarrow> rat \<Rightarrow> string \<Rightarrow> ('s store_scheme, unit) py" where
  "add_or_update_record date sys_bp dia_bp pulse w t n =
     bind_py get_data (\<lambda>df s.
       (let (df', s') =
          (if TXT date \<in> set (map r_date df)
           then (update_rows (TXT date) sys_bp dia_bp pulse w t n df,
                 print_line (''Updated existing record for '' @ date) s)
           else (df @ [new_row (TXT date) sys_bp dia_bp pulse w t n], s))
        in if writable s'
           then Inr ((), print_line (''Added new record for '' @ date) (s'\<lparr>csv_file := Some (to_csv df')\<rparr>))
           else Inr ((), print_line ''Unable to write to file'' s')))"

section \<open>Sample files\<close>

text \<open>
  The files the examples below start from: one row entered on 01/05/2024 (as
  \<open>get_date\<close> writes it into a new file), its loaded form, and a file that holds a
  \<open>str(Timestamp)\<close> text followed by an \<open>mm/dd/yyyy\<close> text.
\<close>

abbreviation jan5_row :: row where
  "jan5_row \<equiv> \<lparr>r_date = ''01/05/2024'', bp_sys = 120, bp_dia = 80, pulse_rate = 70, weight = 150,
                temp = 98, r_notes = ''ok''\<rparr>"

abbreviation jan5_loaded :: frow where
  "jan5_loaded \<equiv> with_date (DT \<lparr>d_year = 2024, d_month = 1, d_day = 5\<rparr>) jan5_row"

abbreviation one_row_file :: "bool \<Rightarrow> store" where
  "one_row_file wr \<equiv> \<lparr>inp = [], out = [], csv_file = Some [jan5_row], writable = wr\<rparr>"

abbreviation mixed_rows :: "row list" where
  "mixed_rows \<equiv> [with_date ''2024-01-05 00:00:00'' jan5_row, with_date ''01/06/2024'' jan5_row]"

abbreviation mixed_file :: store where
  "mixed_file \<equiv> \<lparr>inp = [], out = [], csv_file = Some mixed_rows, writable = True\<rparr>"

section \<open>Lemmas: rows and date columns\<close>

lemma clean_notes_idem [simp]: "clean_notes (clean_notes n) = clean_notes n"
  by (simp add: clean_notes_def)

lemma clean_notes_Nil [simp]: "clean_notes [] = []"
  by (simp add: clean_notes_def)

lemma with_date_fields [simp]:
  "r_date (with_date x r) = x" "bp_sys (with_date x r) = bp_sys r" "bp_dia (with_date x r) = bp_dia r"
  "pulse_rate (with_date x r) = pulse_rate r" "weight (with_date x r) = weight r"
  "temp (with_date x r) = temp r" "r_notes (with_date x r) = r_notes r"
  by (simp_all add: with_date_def)

lemma is_dt_simps [simp]: "is_dt (DT d)" "\<not> is_dt (TXT s)"
  by (simp_all add: is_dt_def)

lemma those_map_Some_iff: "those (map f xs) = Some ys \<longleftrightarrow> list_all2 (\<lambda>x y. f x = Some y) xs ys"
proof (induction xs arbitrary: ys)
  case Nil
  then show ?case by auto
next
  case (Cons x xs)
  then show ?case by (cases ys) (auto split: option.splits)
qed

lemma length_parse_date_column [simp]: "length (parse_date_column ts) = length ts"
  by (auto simp: parse_date_column_def Let_def those_map_Some_iff list_all2_lengthD
      split: option.split)

lemma parse_iso_date_valid: "parse_iso_date s = Some d \<Longrightarrow> valid_date d"
  by (auto simp: parse_iso_date_def Let_def split: list.splits if_splits)

lemma parse_with_valid: "parse_with f s = Some d \<Longrightarrow> valid_date d"
  by (cases f) (auto simp: parse_with_def parse_iso_stamp_def
      dest: strptime_mdY_valid parse_iso_date_valid split: if_splits)

lemma parse_any_valid: "parse_any s = Some d \<Longrightarrow> valid_date d"
  by (auto simp: parse_any_def split: option.splits dest: parse_with_valid)

text \<open>A datetime of a loaded column is a calendar date of the \<open>datetime64[ns]\<close> range.\<close>

lemma parse_date_column_DT:
  assumes "DT d \<in> set (parse_date_column ts)"
  shows "valid_date d \<and> in_ns_range d"
proof -
  define parse where "parse = (case ts of [] \<Rightarrow> parse_any
     | t # _ \<Rightarrow> (case guess_format t of Some f \<Rightarrow> parse_with f | None \<Rightarrow> parse_any))"
  have pv: "parse s = Some d \<Longrightarrow> valid_date d" for s d
    by (auto simp: parse_def split: list.splits option.splits dest: parse_with_valid parse_any_valid)
  from assms obtain ds where th: "those (map parse ts) = Some ds" and r: "list_all in_ns_range ds"
    and d: "d \<in> set ds"
    by (auto simp: parse_date_column_def parse_def [symmetric] split: option.splits if_splits)
  from th have "list_all2 (\<lambda>x y. parse x = Some y) ts ds" by (simp add: those_map_Some_iff)
  with d obtain s where "parse s = Some d"
    by (auto simp: list_all2_conv_all_nth in_set_conv_nth)
  with pv r d show ?thesis by (auto simp: list_all_iff)
qed

lemma parse_date_column_guess:
  "guess_format t = Some f \<Longrightarrow> parse_date_column (t # ts) =
     (case those (map (parse_with f) (t # ts)) of
        Some ds \<Rightarrow> if list_all in_ns_range ds then map DT ds else map TXT (t # ts)
      | None \<Rightarrow> map TXT (t # ts))"
  by (simp add: parse_date_column_def del: those.simps list.map)

text \<open>A column that does not parse with the format guessed from its first text stays text.\<close>

lemma parse_date_column_mismatch:
  "guess_format t = Some f \<Longrightarrow> s \<in> set ts \<Longrightarrow> parse_with f s = None \<Longrightarrow>
     parse_date_column (t # ts) = map TXT (t # ts)"
  by (auto simp: parse_date_column_guess those_map_Some_iff list_all2_conv_all_nth in_set_conv_nth
      split: option.split)

lemma guess_format_MDY: "strptime_mdY t \<noteq> None \<Longrightarrow> guess_format t = Some FmtMDY"
  by (simp add: guess_format_def parse_with_def)

section \<open>Lemmas: loading\<close>

lemma read_table_Some:
  "read_table rows = Some df \<longleftrightarrow>
     list_all (\<lambda>r. is_integral (weight r)) rows \<and>
     df = map2 (\<lambda>c r. with_date c (r\<lparr>r_notes := clean_notes (r_notes r)\<rparr>))
               (parse_date_column (map r_date rows)) rows"
  by (auto simp: read_table_def)

lemma read_table_dates: "read_table rows = Some df \<Longrightarrow> map r_date df = parse_date_column (map r_date rows)"
proof -
  have "map r_date (map2 (\<lambda>c r. with_date c (r\<lparr>r_notes := clean_notes (r_notes r)\<rparr>)) cs rows) = cs"
    if "length cs = length rows" for cs :: "dcell list"
    using that by (induction cs rows rule: list_induct2) simp_all
  then show "read_table rows = Some df \<Longrightarrow> map r_date df = parse_date_column (map r_date rows)"
    by (simp add: read_table_Some)
qed

lemma read_table_rows:
  "read_table rows = Some df \<Longrightarrow> r \<in> set df \<Longrightarrow>
     \<exists>c r0. r0 \<in> set rows \<and> r = with_date c (r0\<lparr>r_notes := clean_notes (r_notes r0)\<rparr>)"
  by (auto simp: read_table_Some dest!: set_zip_rightD [rotated] elim!: imageE)

lemma read_table_integral: "read_table rows = Some df \<Longrightarrow> list_all (\<lambda>r. is_integral (weight r)) df"
  by (auto simp: read_table_Some list_all_iff dest!: set_zip_rightD)

lemma read_table_DT: "read_table rows = Some df \<Longrightarrow> DT d \<in> set (map r_date df) \<Longrightarrow> valid_date d \<and> in_ns_range d"
  by (simp add: read_table_dates parse_date_column_DT)

lemma get_data_Inr:
  "get_data w = Inr (df, s) \<Longrightarrow>
     csv_file s = Some (case csv_file w of Some rows \<Rightarrow> rows | None \<Rightarrow> []) \<and>
     read_table (case csv_file w of Some rows \<Rightarrow> rows | None \<Rightarrow> []) = Some df \<and>
     writable s = writable w \<and> inp s = inp w"
  by (auto simp: get_data_def read_table_def print_line_def split: option.splits if_splits)

lemma get_data_file: "csv_file w = Some rows \<Longrightarrow> read_table rows = Some df \<Longrightarrow> get_data w = Inr (df, w)"
  by (simp add: get_data_def)

section \<open>Lemmas: the date texts pandas writes and reads\<close>

lemma dash_not_digit [simp]: "\<not> is_ascii_digit (CHR ''-'')"
  by (simp add: is_ascii_digit_def)

lemma date_field_lengths:
  assumes "valid_date dt"
  shows "length (zero_pad 4 (show_nat (d_year dt))) = 4" and "length (zero_pad 2 (show_nat (d_month dt))) = 2"
    and "length (zero_pad 2 (show_nat (d_day dt))) = 2"
proof -
  from assms have "d_year dt < 10 ^ 4" "d_month dt < 10 ^ 2" "d_day dt < 10 ^ 2"
    using days_in_month_le_31 [of "d_year dt" "d_month dt"] by (auto simp: valid_date_def)
  then have "length (show_nat (d_year dt)) \<le> 4" "length (show_nat (d_month dt)) \<le> 2"
    "length (show_nat (d_day dt)) \<le> 2"
    using length_show_nat [of "d_year dt" 4] length_show_nat [of "d_month dt" 2]
      length_show_nat [of "d_day dt" 2] by simp_all
  then show "length (zero_pad 4 (show_nat (d_year dt))) = 4" "length (zero_pad 2 (show_nat (d_month dt))) = 2"
    "length (zero_pad 2 (show_nat (d_day dt))) = 2"
    by (simp_all add: length_zero_pad)
qed

lemma length_iso_date_text: "valid_date dt \<Longrightarrow> length (iso_date_text dt) = 10"
  by (simp add: iso_date_text_def date_field_lengths)

lemma length_strftime_mdY: "valid_date dt \<Longrightarrow> length (strftime_mdY dt) = 10"
  by (simp add: strftime_mdY_def date_field_lengths)

lemma split_iso_date_text:
  "CHR ''-'' \<notin> set rest \<Longrightarrow> py_split CHR ''-'' (iso_date_text dt @ rest) =
     [zero_pad 4 (show_nat (d_year dt)), zero_pad 2 (show_nat (d_month dt)), zero_pad 2 (show_nat (d_day dt)) @ rest]"
  by (simp add: iso_date_text_def py_split_sep py_split_no_sep not_in_digits)

lemma parse_iso_date_iso: "valid_date dt \<Longrightarrow> parse_iso_date (iso_date_text dt) = Some dt"
  using split_iso_date_text [of "[]" dt]
  by (simp add: parse_iso_date_def date_field_lengths)

lemma parse_iso_stamp_timestamp: "valid_date dt \<Longrightarrow> parse_iso_stamp (timestamp_text dt) = Some dt"
  by (simp add: parse_iso_stamp_def timestamp_text_def length_iso_date_text parse_iso_date_iso)

lemma parse_iso_date_timestamp: "valid_date dt \<Longrightarrow> parse_iso_date (timestamp_text dt) = None"
  using split_iso_date_text [of "'' 00:00:00''" dt]
  by (simp add: parse_iso_date_def timestamp_text_def date_field_lengths)

lemma parse_iso_stamp_short: "length s < 19 \<Longrightarrow> parse_iso_stamp s = None"
  by (auto simp: parse_iso_stamp_def dest: arg_cong [where f = length])

lemma strptime_mdY_no_slash: "CHR ''/'' \<notin> set s \<Longrightarrow> strptime_mdY s = None"
  by (simp add: strptime_mdY_def py_split_no_sep)

lemma slash_notin_timestamp_text: "CHR ''/'' \<notin> set (timestamp_text dt)"
  by (simp add: timestamp_text_def iso_date_text_def not_in_digits)

lemma guess_format_timestamp: "valid_date dt \<Longrightarrow> guess_format (timestamp_text dt) = Some FmtISOStamp"
  by (simp add: guess_format_def parse_with_def strptime_mdY_no_slash slash_notin_timestamp_text
      parse_iso_date_timestamp parse_iso_stamp_timestamp)

text \<open>\<open>str(Timestamp)\<close> does not match \<open>%m/%d/%Y\<close>.\<close>

lemma to_datetime_timestamp_text: "to_datetime_mdY (TXT (timestamp_text dt) # cs) = Inl DateFormatError"
  by (simp add: to_datetime_mdY_def cell_to_datetime_def strptime_mdY_no_slash slash_notin_timestamp_text)

text \<open>
  A column of \<open>mm/dd/yyyy\<close> texts one of which lies outside the \<open>datetime64[ns]\<close>
  range is left as text by \<open>read_csv\<close>, and \<open>pd.to_datetime\<close> then raises
  \<open>OutOfBoundsDatetime\<close> on it.
\<close>

lemma parse_date_column_out_of_bounds:
  assumes "those (map strptime_mdY ts) = Some ds" and "\<not> list_all in_ns_range ds"
  shows "parse_date_column ts = map TXT ts"
proof (cases ts)
  case Nil
  with assms show ?thesis by simp
next
  case (Cons t ts')
  with assms(1) have "strptime_mdY t \<noteq> None" by (auto split: option.splits)
  then have "guess_format t = Some FmtMDY" by (rule guess_format_MDY)
  with assms Cons show ?thesis by (simp add: parse_date_column_guess parse_with_def del: those.simps list.map)
qed

lemma to_datetime_out_of_bounds:
  assumes th: "those (map strptime_mdY ts) = Some ds" and nr: "\<not> list_all in_ns_range ds"
  shows "to_datetime_mdY (map TXT ts) = Inl OutOfBoundsDatetime"
proof -
  from th have l2: "list_all2 (\<lambda>t d. strptime_mdY t = Some d) ts ds" by (simp add: those_map_Some_iff)
  then have ex: "\<forall>t\<in>set ts. \<exists>d. strptime_mdY t = Some d"
    by (auto simp: list_all2_conv_all_nth in_set_conv_nth)
  have each: "\<forall>x\<in>set (map cell_to_datetime (map TXT ts)). x = Inl OutOfBoundsDatetime \<or> (\<exists>a. x = Inr a)"
  proof
    fix x assume "x \<in> set (map cell_to_datetime (map TXT ts))"
    then obtain t where t: "t \<in> set ts" and x: "x = cell_to_datetime (TXT t)" by auto
    from ex t obtain d where "strptime_mdY t = Some d" by blast
    with x show "x = Inl OutOfBoundsDatetime \<or> (\<exists>a. x = Inr a)" by (simp add: cell_to_datetime_def)
  qed
  from nr obtain i where i: "i < length ds" "\<not> in_ns_range (ds ! i)"
    by (auto simp: list_all_iff in_set_conv_nth)
  with l2 have c: "cell_to_datetime (TXT (ts ! i)) = Inl OutOfBoundsDatetime" and il: "i < length ts"
    by (auto simp: cell_to_datetime_def list_all2_conv_all_nth)
  from il have "ts ! i \<in> set ts" by (rule nth_mem)
  then have "cell_to_datetime (TXT (ts ! i)) \<in> set (map cell_to_datetime (map TXT ts))" by simp
  with c have "Inl OutOfBoundsDatetime \<in> set (map cell_to_datetime (map TXT ts))" by simp
  with each show ?thesis by (simp add: to_datetime_mdY_def seq_results_only_error)
qed

section \<open>Lemmas: writing and upserting\<close>

lemma to_csv_dates: "map r_date (to_csv df) = map (cell_text (list_all is_dt (map r_date df)) \<circ> r_date) df"
  by (simp add: to_csv_def)

lemma to_csv_weights: "map weight (to_csv df) = map weight df"
  by (simp add: to_csv_def)

lemma to_csv_rows: "r \<in> set (to_csv df) \<Longrightarrow> \<exists>r0\<in>set df. \<exists>x. r = with_date x r0"
  by (auto simp: to_csv_def)

lemma add_or_update_record_loaded:
  assumes "get_data w = Inr (df, s)"
  shows "add_or_update_record date sys_bp dia_bp pulse wt t n w =
    (if TXT date \<in> set (map r_date df)
     then (if writable s
           then Inr ((), print_line (''Added new record for '' @ date)
                   ((print_line (''Updated existing record for '' @ date) s)
                      \<lparr>csv_file := Some (to_csv (update_rows (TXT date) sys_bp dia_bp pulse wt t n df))\<rparr>))
           else Inr ((), print_line ''Unable to write to file''
                   (print_line (''Updated existing record for '' @ date) s)))
     else (if writable s
           then Inr ((), print_line (''Added new record for '' @ date)
                   (s\<lparr>csv_file := Some (to_csv (df @ [new_row (TXT date) sys_bp dia_bp pulse wt t n]))\<rparr>))
           else Inr ((), print_line ''Unable to write to file'' s)))"
  using assms by (simp add: add_or_update_record_def print_line_def)

text \<open>On a column of datetimes the test of line 134 never holds: the entry is appended.\<close>

lemma add_or_update_record_parsed:
  assumes "get_data w = Inr (df, s)" and "list_all is_dt (map r_date df)" and "writable w"
  shows "add_or_update_record date sys_bp dia_bp pulse wt t n w =
           Inr ((), print_line (''Added new record for '' @ date)
                     (s\<lparr>csv_file := Some (to_csv (df @ [new_row (TXT date) sys_bp dia_bp pulse wt t n]))\<rparr>))"
proof -
  from assms(2) have "TXT date \<notin> set (map r_date df)"
    by (auto simp: list_all_iff) (metis is_dt_simps(2))
  with assms(3) get_data_Inr [OF assms(1)] show ?thesis
    by (simp add: add_or_update_record_loaded [OF assms(1)])
qed

lemma add_or_update_record_writable:
  "add_or_update_record date sys_bp dia_bp pulse wt t n w = Inr (u, w') \<Longrightarrow> writable w' = writable w"
  by (auto simp: add_or_update_record_def bind_py_def print_line_def Let_def dest: get_data_Inr
      split: sum.splits if_splits prod.splits)

lemma append_fractional_load_fails:
  assumes "get_data w = Inr (df, s)" and "TXT date \<notin> set (map r_date df)" and "writable w"
    and "\<not> is_integral wt"
  shows "\<exists>w'. add_or_update_record date sys_bp dia_bp pulse wt t n w = Inr ((), w') \<and>
           get_data w' = Inl (ValueError DtypeCastError)"
  using assms get_data_Inr [OF assms(1)]
  by (simp add: add_or_update_record_loaded [OF assms(1)] print_line_def get_data_def
      read_table_def to_csv_def new_row_def)

text \<open>
  After an entry is appended to a non-empty column of datetimes, the file holds
  \<open>str(Timestamp)\<close> texts followed by an \<open>mm/dd/yyyy\<close> text; the next load guesses the
  timestamp format from the first line, fails on the last, and leaves the column as text,
  which \<open>pd.to_datetime(..., format="%m/%d/%Y")\<close> rejects at its first element.
\<close>

lemma append_mixes_date_column:
  assumes g: "get_data w = Inr (df, s)" and ne: "df \<noteq> []" and dt: "list_all is_dt (map r_date df)"
    and wr: "writable w" and v: "valid_date dt" and i: "is_integral wt"
  shows "\<exists>w' df'. add_or_update_record (strftime_mdY dt) sys_bp dia_bp pulse wt t n w = Inr ((), w') \<and>
           get_data w' = Inr (df', w') \<and> to_datetime_mdY (map r_date df') = Inl DateFormatError"
proof -
  let ?new = "new_row (TXT (strftime_mdY dt)) sys_bp dia_bp pulse wt t n"
  let ?rows = "to_csv (df @ [?new])"
  from get_data_Inr [OF g] obtain rows0 where rt: "read_table rows0 = Some df" by blast
  from ne dt obtain r0 d0 rs where df: "df = r0 # rs" and d0: "r_date r0 = DT d0"
    by (cases df; cases "r_date (hd df)") (auto simp: is_dt_def)
  have v0: "valid_date d0" using read_table_DT [OF rt, of d0] df d0 by simp
  have nd: "\<not> list_all is_dt (map r_date (df @ [?new]))" by (simp add: new_row_def)
  have dates: "map r_date ?rows = timestamp_text d0 # (map (cell_text False \<circ> r_date) rs @ [strftime_mdY dt])"
    using nd by (simp only: to_csv_dates) (simp add: df d0 cell_text_def new_row_def)
  have last_none: "parse_with FmtISOStamp (strftime_mdY dt) = None"
    by (simp add: parse_with_def parse_iso_stamp_short length_strftime_mdY v)
  have col: "parse_date_column (map r_date ?rows) = map TXT (map r_date ?rows)"
    unfolding dates by (rule parse_date_column_mismatch [OF guess_format_timestamp [OF v0] _ last_none]) simp
  have "list_all is_integral (map weight (df @ [?new]))"
    using read_table_integral [OF rt] i by (simp add: list.pred_map comp_def new_row_def)
  then have "list_all is_integral (map weight ?rows)" by (simp only: to_csv_weights)
  then have int_rows: "list_all (\<lambda>r. is_integral (weight r)) ?rows" by (simp add: list.pred_map comp_def)
  then obtain df' where rt': "read_table ?rows = Some df'" by (simp add: read_table_def)
  have "map r_date df' = TXT (timestamp_text d0) # map TXT (map (cell_text False \<circ> r_date) rs @ [strftime_mdY dt])"
    using read_table_dates [OF rt'] col dates by simp
  then have conv: "to_datetime_mdY (map r_date df') = Inl DateFormatError"
    by (simp add: to_datetime_timestamp_text)
  show ?thesis
    using add_or_update_record_parsed [OF g dt wr] rt' conv
    by (simp add: get_data_def print_line_def)
qed

section \<open>Properties of the store\<close>

text \<open>
  C10. On a file whose date column pandas parsed, \<open>add_or_update_record\<close> always
  appends: the test \<open>date in df['date'].values\<close> compares the entered text with
  datetimes and never holds, so the update branch is not taken even when the date is
  already on file, and the whole table with the new row is written back.
\<close>

theorem upsert_appends_on_parsed_file:
  assumes "get_data w = Inr (df, s)" and "list_all is_dt (map r_date df)" and "writable w"
  shows "add_or_update_record date sys_bp dia_bp pulse wt t n w =
           Inr ((), print_line (''Added new record for '' @ date)
                     (s\<lparr>csv_file := Some (to_csv (df @ [new_row (TXT date) sys_bp dia_bp pulse wt t n]))\<rparr>))"
  using add_or_update_record_parsed [OF assms] .

text \<open>
  C11. An entry appended to a non-empty parsed file leaves a file whose date column the
  next \<open>get_data\<close> cannot parse: the load succeeds (with an integral weight) but the
  column stays text, and converting it with \<open>pd.to_datetime(..., format="%m/%d/%Y")\<close>
  raises \<open>ValueError\<close> at its first date.
\<close>

theorem upsert_breaks_date_column:
  assumes "get_data w = Inr (df, s)" and "df \<noteq> []" and "list_all is_dt (map r_date df)"
    and "writable w" and "valid_date dt" and "is_integral wt"
  shows "\<exists>w' df'. add_or_update_record (strftime_mdY dt) sys_bp dia_bp pulse wt t n w = Inr ((), w') \<and>
           get_data w' = Inr (df', w') \<and> to_datetime_mdY (map r_date df') = Inl DateFormatError"
  using append_mixes_date_column [OF assms] .

text \<open>
  C12. A failed write is reported, not raised: \<open>add_or_update_record\<close> returns
  normally, the file keeps what \<open>get_data\<close> loaded, and the last line printed is
  \<open>Unable to write to file\<close>.
\<close>

theorem upsert_write_failure:
  assumes "get_data w = Inr (df, s)" and "\<not> writable w"
  shows "\<exists>w'. add_or_update_record date sys_bp dia_bp pulse wt t n w = Inr ((), w') \<and>
           csv_file w' = csv_file s \<and> last (out w') = ''Unable to write to file''"
  using assms get_data_Inr [OF assms(1)]
  by (simp add: add_or_update_record_loaded [OF assms(1)] print_line_def)

text \<open>
  C13. Appending a new date with a weight that is not a whole number (which
  \<open>get_weight\<close> accepts, e.g. 150.5) writes a file that the next \<open>get_data\<close>
  cannot read: \<open>read_csv\<close> rejects the \<open>int\<close> weight column with a
  \<open>ValueError\<close>.
\<close>

theorem append_fractional_weight_breaks_load:
  assumes "get_data w = Inr (df, s)" and "TXT date \<notin> set (map r_date df)" and "writable w"
    and "\<not> is_integral wt"
  shows "\<exists>w'. add_or_update_record date sys_bp dia_bp pulse wt t n w = Inr ((), w') \<and>
           get_data w' = Inl (ValueError DtypeCastError)"
  using append_fractional_load_fails [OF assms] .

text \<open>
  C14. The update branch runs when the date text is among the loaded cells, which happens
  once the column was left as text: it prints both \<open>Updated existing record\<close> and,
  after the write, \<open>Added new record\<close> for the same date.
\<close>

theorem update_prints_added_too:
  assumes "get_data w = Inr (df, s)" and "TXT date \<in> set (map r_date df)" and "writable w"
  shows "\<exists>w'. add_or_update_record date sys_bp dia_bp pulse wt t n w = Inr ((), w') \<and>
           out w' = out s @ [''Updated existing record for '' @ date, ''Added new record for '' @ date]"
  using assms get_data_Inr [OF assms(1)]
  by (simp add: add_or_update_record_loaded [OF assms(1)] print_line_def)

section \<open>Witnesses\<close>

lemma get_one_row_file: "get_data (one_row_file wr) = Inr ([jan5_loaded], one_row_file wr)"
  by (cases wr) code_simp+

lemma get_mixed_file:
  "get_data mixed_file = Inr ([with_date (TXT ''2024-01-05 00:00:00'') jan5_row, with_date (TXT ''01/06/2024'') jan5_row], mixed_file)"
  by code_simp

theorem upsert_appends_on_parsed_file_witness:
  "get_data (one_row_file True) = Inr ([jan5_loaded], one_row_file True) \<and>
   list_all is_dt (map r_date [jan5_loaded]) \<and> writable (one_row_file True) \<and>
   add_or_update_record ''01/05/2024'' 130 85 72 151 98 '''' (one_row_file True) =
     Inr ((), \<lparr>inp = [], out = [''Added new record for 01/05/2024''],
               csv_file = Some [with_date ''2024-01-05 00:00:00'' jan5_row,
                                \<lparr>r_date = ''01/05/2024'', bp_sys = 130, bp_dia = 85, pulse_rate = 72,
                                 weight = 151, temp = 98, r_notes = ''''\<rparr>],
               writable = True\<rparr>)"
proof -
  have d: "list_all is_dt (map r_date [jan5_loaded])" by simp
  have w: "writable (one_row_file True)" by simp
  have e: "print_line (''Added new record for '' @ ''01/05/2024'')
      ((one_row_file True)\<lparr>csv_file := Some (to_csv ([jan5_loaded] @ [new_row (TXT ''01/05/2024'') 130 85 72 151 98 '''']))\<rparr>)
    = \<lparr>inp = [], out = [''Added new record for 01/05/2024''],
               csv_file = Some [with_date ''2024-01-05 00:00:00'' jan5_row,
                                \<lparr>r_date = ''01/05/2024'', bp_sys = 130, bp_dia = 85, pulse_rate = 72,
                                 weight = 151, temp = 98, r_notes = ''''\<rparr>],
               writable = True\<rparr>"
    by code_simp
  show ?thesis
    using upsert_appends_on_parsed_file [OF get_one_row_file d w, of "''01/05/2024''" 130 85 72 151 98 "''''"]
      get_one_row_file d w e by simp
qed

theorem upsert_breaks_date_column_witness:
  "get_data (one_row_file True) = Inr ([jan5_loaded], one_row_file True) \<and> [jan5_loaded] \<noteq> [] \<and>
   list_all is_dt (map r_date [jan5_loaded]) \<and> writable (one_row_file True) \<and>
   valid_date \<lparr>d_year = 2024, d_month = 1, d_day = 6\<rparr> \<and> is_integral 151 \<and>
   (\<exists>w' df'. add_or_update_record (strftime_mdY \<lparr>d_year = 2024, d_month = 1, d_day = 6\<rparr>) 130 85 72 151 98 ''''
                (one_row_file True) = Inr ((), w') \<and>
             get_data w' = Inr (df', w') \<and> to_datetime_mdY (map r_date df') = Inl DateFormatError)"
proof -
  have d: "list_all is_dt (map r_date [jan5_loaded])" by simp
  have w: "writable (one_row_file True)" by simp
  have v: "valid_date \<lparr>d_year = 2024, d_month = 1, d_day = 6\<rparr>" by code_simp
  have i: "is_integral 151" by (simp add: is_integral_def)
  show ?thesis
    using upsert_breaks_date_column [OF get_one_row_file _ d w v i, of 130 85 72 98 "''''"]
      get_one_row_file d w v i by simp
qed

theorem upsert_write_failure_witness:
  "get_data (one_row_file False) = Inr ([jan5_loaded], one_row_file False) \<and> \<not> writable (one_row_file False) \<and>
   (\<exists>w'. add_or_update_record ''01/06/2024'' 130 85 72 151 98 '''' (one_row_file False) = Inr ((), w') \<and>
      csv_file w' = Some [jan5_row] \<and> last (out w') = ''Unable to write to file'')"
proof -
  have n: "\<not> writable (one_row_file False)" by simp
  show ?thesis
    using upsert_write_failure [OF get_one_row_file n, of "''01/06/2024''" 130 85 72 151 98 "''''"]
      get_one_row_file n by simp
qed

theorem append_fractional_weight_breaks_load_witness:
  "get_data (one_row_file True) = Inr ([jan5_loaded], one_row_file True) \<and>
   TXT ''01/06/2024'' \<notin> set (map r_date [jan5_loaded]) \<and> writable (one_row_file True) \<and>
   \<not> is_integral (301/2) \<and>
   (\<exists>w'. add_or_update_record ''01/06/2024'' 130 85 72 (301/2) 98 '''' (one_row_file True) = Inr ((), w') \<and>
      get_data w' = Inl (ValueError DtypeCastError))"
proof -
  have d: "TXT ''01/06/2024'' \<notin> set (map r_date [jan5_loaded])" by simp
  have w: "writable (one_row_file True)" by simp
  have i: "\<not> is_integral (301/2)" by code_simp
  show ?thesis
    using append_fractional_weight_breaks_load [OF get_one_row_file d w i] get_one_row_file d w i by simp
qed

theorem update_prints_added_too_witness:
  "get_data mixed_file = Inr ([with_date (TXT ''2024-01-05 00:00:00'') jan5_row, with_date (TXT ''01/06/2024'') jan5_row], mixed_file) \<and>
   TXT ''01/06/2024'' \<in> set (map r_date [with_date (TXT ''2024-01-05 00:00:00'') jan5_row, with_date (TXT ''01/06/2024'') jan5_row]) \<and>
   writable mixed_file \<and>
   (\<exists>w'. add_or_update_record ''01/06/2024'' 130 85 72 151 98 '''' mixed_file = Inr ((), w') \<and>
      out w' = [''Updated existing record for 01/06/2024'', ''Added new record for 01/06/2024''])"
proof -
  have d: "TXT ''01/06/2024'' \<in> set (map r_date [with_date (TXT ''2024-01-05 00:00:00'') jan5_row, with_date (TXT ''01/06/2024'') jan5_row])"
    by simp
  have w: "writable mixed_file" by simp
  show ?thesis
    using update_prints_added_too [OF get_mixed_file d w, of 130 85 72 151 98 "''''"] get_mixed_file d w by simp
qed

end
