(* ===== verification/Entry.thy ===== *)
theory Entry
  imports Store
begin

text \<open>
  \<open>new_entry()\<close> (\<open>src/main.py\<close> lines 156--175): load the table, ask for the date,
  the blood pressure, the pulse rate, the weight, the temperature and the notes, in this
  order, then upsert the row. The date prompt is given today's date (\<open>datetime.today()\<close>),
  the pressure prompt the number of stack frames left to it, the numeric prompts Python's
  \<open>float\<close>. The theory also states the data invariant the prompts establish on the
  whole file: every stored value lies within the ranges they enforce (spec section 3),
  and shows that an entry keeps it.
\<close>

section \<open>The entry flow\<close>

definition new_entry :: "date \<Rightarrow> nat \<Rightarrow> (string \<Rightarrow> pyfloat option) \<Rightarrow> ('s store_scheme, unit) py" where
  "new_entry today depth py_float_of =
     bind_py get_data (\<lambda>this_df.
     bind_py (get_date True today) (\<lambda>date.
     bind_py (get_bp depth) (\<lambda>(bp_sys, bp_dia).
     bind_py (get_pulse_rate py_float_of) (\<lambda>pulse_rate.
     bind_py (get_weight py_float_of) (\<lambda>weight.
     bind_py (get_temp py_float_of) (\<lambda>temp.
     bind_py get_notes (\<lambda>notes.
       add_or_update_record date bp_sys bp_dia pulse_rate weight temp notes)))))))"

section \<open>The data invariant\<close>

text \<open>The ranges the prompts of \<open>src/AddData.py\<close> enforce (lines 4--8).\<close>

definition row_in_range :: "'d vrow \<Rightarrow> bool" where
  "row_in_range r \<longleftrightarrow>
     bp_realistic (bp_sys r) (bp_dia r) \<and>
     PULSE_RATE_MIN \<le> pulse_rate r \<and> pulse_rate r \<le> PULSE_RATE_MAX \<and>
     of_int WEIGHT_MIN \<le> weight r \<and> weight r \<le> of_int WEIGHT_MAX \<and>
     of_int TEMP_MIN \<le> temp r \<and> temp r \<le> of_int TEMP_MAX"

definition vitals_inv :: "'s store_scheme \<Rightarrow> bool" where
  "vitals_inv w \<longleftrightarrow> (case csv_file w of None \<Rightarrow> True | Some rows \<Rightarrow> list_all row_in_range rows)"

section \<open>Lemmas: the invariant\<close>

lemma store_console_step: "console_step w w' \<Longrightarrow> csv_file w' = csv_file w \<and> writable w' = writable w"
  unfolding console_step_def by (metis store.select_convs(1,2) store.surjective console.update_convs(1,2))

lemma vitals_inv_console_step: "console_step w w' \<Longrightarrow> vitals_inv w' = vitals_inv w"
  by (simp add: vitals_inv_def store_console_step)

text \<open>A loaded non-empty file is loaded again, unchanged, after prompts that only use the console.\<close>

lemma get_data_console_step:
  assumes "get_data w = Inr (df, s)" and "df \<noteq> []" and "console_step s s'"
  shows "get_data s' = Inr (df, s')"
proof -
  from assms(1,2) obtain rows where f: "csv_file w = Some rows" and rt: "read_table rows = Some df" and s: "s = w"
    by (auto simp: get_data_def split: option.splits if_splits)
  from store_console_step [OF assms(3)] f s have "csv_file s' = Some rows" by simp
  then show ?thesis using rt by (rule get_data_file)
qed

lemma row_in_range_notes [simp]: "row_in_range (r\<lparr>r_notes := n\<rparr>) = row_in_range r"
  by (simp add: row_in_range_def)

lemma row_in_range_with_date [simp]: "row_in_range (with_date x r) = row_in_range r"
  by (simp add: row_in_range_def)

lemma get_data_vitals_inv:
  assumes "vitals_inv w" and "get_data w = Inr (df, s)"
  shows "vitals_inv s \<and> list_all row_in_range df"
proof -
  define rows where "rows = (case csv_file w of Some rows \<Rightarrow> rows | None \<Rightarrow> [])"
  from get_data_Inr [OF assms(2)] have f: "csv_file s = Some rows" and rt: "read_table rows = Some df"
    by (simp_all add: rows_def)
  from assms(1) have inv: "list_all row_in_range rows"
    by (cases "csv_file w") (simp_all add: rows_def vitals_inv_def)
  have "list_all row_in_range df"
    using inv by (auto simp: list_all_iff dest!: read_table_rows [OF rt])
  with f inv show ?thesis by (simp add: vitals_inv_def)
qed

lemma to_csv_in_range: "list_all row_in_range df \<Longrightarrow> list_all row_in_range (to_csv df)"
  by (auto simp: list_all_iff dest!: to_csv_rows)

lemma update_rows_in_range:
  assumes "list_all row_in_range df" and "row_in_range (new_row key s d p wt t n)"
  shows "list_all row_in_range (update_rows key s d p wt t n df)"
proof -
  from assms(2) have "of_int WEIGHT_MIN \<le> wt" and "wt \<le> of_int WEIGHT_MAX"
    by (simp_all add: row_in_range_def new_row_def)
  then have "WEIGHT_MIN \<le> py_int_of_float wt \<and> py_int_of_float wt \<le> WEIGHT_MAX"
    by (rule py_int_of_float_bounds)
  with assms show ?thesis
    by (auto simp: update_rows_def list_all_iff row_in_range_def new_row_def)
qed

lemma add_or_update_record_vitals_inv:
  assumes "vitals_inv w" and "row_in_range (new_row date s d p wt t n)"
    and "add_or_update_record date s d p wt t n w = Inr (u, w')"
  shows "vitals_inv w'"
proof -
  from assms(3) obtain df s0 where g: "get_data w = Inr (df, s0)"
    by (cases "get_data w") (auto simp: add_or_update_record_def)
  from get_data_vitals_inv [OF assms(1) g] have inv0: "vitals_inv s0" and l: "list_all row_in_range df"
    by simp_all
  have r: "row_in_range (new_row (TXT date) s d p wt t n)"
    using assms(2) by (simp add: row_in_range_def new_row_def)
  have upd: "list_all row_in_range (to_csv (update_rows (TXT date) s d p wt t n df))"
    using update_rows_in_range [OF l r] by (rule to_csv_in_range)
  have app: "list_all row_in_range (to_csv (df @ [new_row (TXT date) s d p wt t n]))"
    using l r by (simp add: to_csv_in_range)
  show ?thesis
    using assms(3) inv0 upd app
    by (auto simp: add_or_update_record_loaded [OF g] vitals_inv_def print_line_def split: if_splits)
qed

section \<open>Lemmas: the entry flow\<close>

lemma get_pulse_rate_range:
  "get_pulse_rate f c = Inr (p, c') \<Longrightarrow> PULSE_RATE_MIN \<le> p \<and> p \<le> PULSE_RATE_MAX"
proof -
  assume "get_pulse_rate f c = Inr (p, c')"
  then obtain v c1 where v: "validate_numeric_input f PULSE_RATE_MIN PULSE_RATE_MAX c = Inr (v, c1)"
    and p: "p = py_int_of_float v"
    by (auto simp: get_pulse_rate_def bind_py_Inr_iff)
  from validate_numeric_input_in_range [OF v]
  have "of_int PULSE_RATE_MIN \<le> v" and "v \<le> of_int PULSE_RATE_MAX" by (simp_all add: float_in_range_def)
  then show ?thesis unfolding p by (rule py_int_of_float_bounds)
qed

lemma new_entry_Inr:
  assumes "new_entry today n f w = Inr (u, w')"
  shows "\<exists>df w1 date w2 s d w3 p w4 wt w5 t w6 nt w7.
     get_data w = Inr (df, w1) \<and> get_date True today w1 = Inr (date, w2) \<and>
     get_bp n w2 = Inr ((s, d), w3) \<and> get_pulse_rate f w3 = Inr (p, w4) \<and>
     get_weight f w4 = Inr (wt, w5) \<and> get_temp f w5 = Inr (t, w6) \<and>
     get_notes w6 = Inr (nt, w7) \<and> add_or_update_record date s d p wt t nt w7 = Inr (u, w')"
  using assms by (fastforce simp: new_entry_def bind_py_Inr_iff)

lemma new_entry_steps:
  assumes "new_entry today n f w = Inr (u, w')"
  shows "\<exists>df w1 date w2 s d p wt t nt w7.
     get_data w = Inr (df, w1) \<and> get_date True today w1 = Inr (date, w2) \<and> console_step w1 w7 \<and>
     row_in_range (new_row date s d p wt t nt) \<and> add_or_update_record date s d p wt t nt w7 = Inr (u, w')"
proof -
  obtain df w1 date w2 s d w3 p w4 wt w5 t w6 nt w7 where
    g: "get_data w = Inr (df, w1)" and gd: "get_date True today w1 = Inr (date, w2)" and
    gb: "get_bp n w2 = Inr ((s, d), w3)" and gp: "get_pulse_rate f w3 = Inr (p, w4)" and
    gw: "get_weight f w4 = Inr (wt, w5)" and gt: "get_temp f w5 = Inr (t, w6)" and
    gn: "get_notes w6 = Inr (nt, w7)" and up: "add_or_update_record date s d p wt t nt w7 = Inr (u, w')"
    using new_entry_Inr [OF assms] by blast
  have "console_step w1 w2" using gd by (rule get_date_step)
  also have "console_step w2 w3" using gb by (rule get_bp_step)
  also have "console_step w3 w4" using gp by (rule get_pulse_rate_step)
  also have "console_step w4 w5" using gw unfolding get_weight_def by (rule validate_numeric_input_step)
  also have "console_step w5 w6" using gt unfolding get_temp_def by (rule validate_numeric_input_step)
  also have "console_step w6 w7" using gn by (rule get_notes_step)
  finally have "console_step w1 w7" .
  moreover have "row_in_range (new_row date s d p wt t nt)"
    using get_bp_realistic_result [OF gb] get_pulse_rate_range [OF gp]
      validate_numeric_input_in_range [OF gw [unfolded get_weight_def]]
      validate_numeric_input_in_range [OF gt [unfolded get_temp_def]]
    by (simp add: row_in_range_def new_row_def float_in_range_def)
  ultimately show ?thesis using g gd up by blast
qed

lemma new_entry_vitals_inv:
  assumes "vitals_inv w" and "new_entry today n f w = Inr (u, w')"
  shows "vitals_inv w'"
proof -
  obtain df w1 date w2 s d p wt t nt w7 where
    g: "get_data w = Inr (df, w1)" and st: "console_step w1 w7" and r: "row_in_range (new_row date s d p wt t nt)" and
    up: "add_or_update_record date s d p wt t nt w7 = Inr (u, w')"
    using new_entry_steps [OF assms(2)] by blast
  have "vitals_inv w7"
    using get_data_vitals_inv [OF assms(1) g] st by (simp add: vitals_inv_console_step)
  then show ?thesis using r up by (rule add_or_update_record_vitals_inv)
qed

lemma add_or_update_record_inp:
  "add_or_update_record date s d p wt t n w = Inr (u, w') \<Longrightarrow> inp w' = inp w"
  by (auto simp: add_or_update_record_def bind_py_def print_line_def Let_def dest: get_data_Inr
      split: sum.splits if_splits prod.splits)

lemma new_entry_suffix: "new_entry today n f w = Inr (u, w') \<Longrightarrow> suffix (inp w') (inp w)"
proof -
  assume "new_entry today n f w = Inr (u, w')"
  from new_entry_steps [OF this] obtain df w1 date w2 s d p wt t nt w7 where
    g: "get_data w = Inr (df, w1)" and st: "console_step w1 w7" and
    up: "add_or_update_record date s d p wt t nt w7 = Inr (u, w')"
    by blast
  from st have "suffix (inp w7) (inp w1)" by (simp add: console_step_def)
  with get_data_Inr [OF g] add_or_update_record_inp [OF up] show ?thesis by simp
qed

section \<open>Properties of the entry flow\<close>

text \<open>
  C25. A completed entry keeps the data invariant of the whole file: every stored value
  lies within the ranges the prompts enforce (the weight of an updated row, truncated to an
  integer, stays in range), whichever branch the upsert takes and whether or not the write
  succeeds.
\<close>

theorem new_entry_keeps_inv:
  assumes "vitals_inv w" and "new_entry today n f w = Inr (u, w')"
  shows "vitals_inv w'"
  by (rule new_entry_vitals_inv [OF assms])

text \<open>
  C24. When every answer is valid at the first asking, an entry is exactly: read the date,
  the pressure (printing its classification), pulse, weight, temperature and notes from
  six lines, in this order, then upsert them; the pulse is truncated to an integer, a blank
  note becomes empty, and nothing after the six lines is read.
\<close>

theorem new_entry_first_try:
  assumes "get_data w = Inr (df, w1)"
    and "date_line \<noteq> []" and "strptime_mdY date_line = Some dt"
    and "parse_bp bp_line = Some (s, d)" and "bp_realistic s d" and "0 < n"
    and "f p_line = Some (Fin p)" and "float_in_range PULSE_RATE_MIN PULSE_RATE_MAX (Fin p)"
    and "f wt_line = Some (Fin wt)" and "float_in_range WEIGHT_MIN WEIGHT_MAX (Fin wt)"
    and "f t_line = Some (Fin t)" and "float_in_range TEMP_MIN TEMP_MAX (Fin t)"
    and "inp w = [date_line, bp_line, p_line, wt_line, t_line, nt_line] @ rest"
  shows "new_entry today n f w =
           add_or_update_record (strftime_mdY dt) s d (py_int_of_float p) wt t
             (if py_strip nt_line \<noteq> [] then nt_line else [])
             (w1\<lparr>inp := rest, out := out w1 @ [bp_warning (classify_bp s d)]\<rparr>)"
proof -
  from assms(13) get_data_Inr [OF assms(1)]
  have i1: "inp w1 = date_line # bp_line # p_line # wt_line # t_line # nt_line # rest" by simp
  obtain m where n: "n = Suc m" using assms(6) by (cases n) auto
  let ?w2 = "w1\<lparr>inp := bp_line # p_line # wt_line # t_line # nt_line # rest\<rparr>"
  let ?w3 = "print_line (bp_warning (classify_bp s d)) (w1\<lparr>inp := p_line # wt_line # t_line # nt_line # rest\<rparr>)"
  have s1: "get_date True today w1 = Inr (strftime_mdY dt, ?w2)"
    using i1 assms(2,3) by (rule get_date_Cons_parsed)
  have s2: "get_bp n ?w2 = Inr ((s, d), ?w3)"
    using assms(4,5) by (simp add: n)
  have s3: "get_pulse_rate f ?w3 = Inr (py_int_of_float p, ?w3\<lparr>inp := wt_line # t_line # nt_line # rest\<rparr>)"
    using assms(7,8) by (simp add: get_pulse_rate_def validate_numeric_input_Cons)
  have s4: "get_weight f (?w3\<lparr>inp := wt_line # t_line # nt_line # rest\<rparr>)
      = Inr (wt, ?w3\<lparr>inp := t_line # nt_line # rest\<rparr>)"
    using assms(9,10) by (simp add: get_weight_def validate_numeric_input_Cons)
  have s5: "get_temp f (?w3\<lparr>inp := t_line # nt_line # rest\<rparr>) = Inr (t, ?w3\<lparr>inp := nt_line # rest\<rparr>)"
    using assms(11,12) by (simp add: get_temp_def validate_numeric_input_Cons)
  have s6: "get_notes (?w3\<lparr>inp := nt_line # rest\<rparr>)
      = Inr (if py_strip nt_line \<noteq> [] then nt_line else [], ?w3\<lparr>inp := rest\<rparr>)"
    by (simp add: get_notes_def)
  have w: "?w3\<lparr>inp := rest\<rparr> = w1\<lparr>inp := rest, out := out w1 @ [bp_warning (classify_bp s d)]\<rparr>"
    by (simp add: print_line_def)
  show ?thesis
    unfolding new_entry_def by (simp add: bind_py_def assms(1) s1 s2 s3 s4 s5 s6 w del: get_bp.simps)
qed

section \<open>Witnesses\<close>

theorem new_entry_keeps_inv_witness:
  "vitals_inv \<lparr>inp = [[], ''Y'', ''130/85'', ''72'', ''180'', ''98.6'', ''felt fine''], out = [], csv_file = Some [jan5_row], writable = True\<rparr> \<and>
   new_entry \<lparr>d_year = 2024, d_month = 3, d_day = 9\<rparr> 5 py_float \<lparr>inp = [[], ''Y'', ''130/85'', ''72'', ''180'', ''98.6'', ''felt fine''], out = [], csv_file = Some [jan5_row], writable = True\<rparr>
     = Inr ((), \<lparr>inp = [], out = [''High BP. Possibly hypertension stage 1'', ''Added new record for 03/09/2024''],
                 csv_file = Some [with_date ''2024-01-05 00:00:00'' jan5_row, \<lparr>r_date = ''03/09/2024'', bp_sys = 130, bp_dia = 85, pulse_rate = 72, weight = 180, temp = 493 / 5, r_notes = ''felt fine''\<rparr>],
                 writable = True\<rparr>) \<and>
   vitals_inv \<lparr>inp = [], out = [''High BP. Possibly hypertension stage 1'', ''Added new record for 03/09/2024''],
                 csv_file = Some [with_date ''2024-01-05 00:00:00'' jan5_row, \<lparr>r_date = ''03/09/2024'', bp_sys = 130, bp_dia = 85, pulse_rate = 72, weight = 180, temp = 493 / 5, r_notes = ''felt fine''\<rparr>],
                 writable = True\<rparr>"
proof -
  have i: "vitals_inv \<lparr>inp = [[], ''Y'', ''130/85'', ''72'', ''180'', ''98.6'', ''felt fine''], out = [], csv_file = Some [jan5_row], writable = True\<rparr>"
    by code_simp
  have r: "new_entry \<lparr>d_year = 2024, d_month = 3, d_day = 9\<rparr> 5 py_float \<lparr>inp = [[], ''Y'', ''130/85'', ''72'', ''180'', ''98.6'', ''felt fine''], out = [], csv_file = Some [jan5_row], writable = True\<rparr>
     = Inr ((), \<lparr>inp = [], out = [''High BP. Possibly hypertension stage 1'', ''Added new record for 03/09/2024''],
                 csv_file = Some [with_date ''2024-01-05 00:00:00'' jan5_row, \<lparr>r_date = ''03/09/2024'', bp_sys = 130, bp_dia = 85, pulse_rate = 72, weight = 180, temp = 493 / 5, r_notes = ''felt fine''\<rparr>],
                 writable = True\<rparr>)"
    by code_simp
  show ?thesis using new_entry_keeps_inv [OF i r] i r by simp
qed

theorem new_entry_first_try_witness:
  "get_data \<lparr>inp = [''3/9/2024'', ''130/85'', ''72'', ''180'', ''98.6'', ''felt fine''], out = [], csv_file = Some [jan5_row], writable = True\<rparr> = Inr ([jan5_loaded], \<lparr>inp = [''3/9/2024'', ''130/85'', ''72'', ''180'', ''98.6'', ''felt fine''], out = [], csv_file = Some [jan5_row], writable = True\<rparr>) \<and> strptime_mdY ''3/9/2024'' = Some \<lparr>d_year = 2024, d_month = 3, d_day = 9\<rparr> \<and>
   parse_bp ''130/85'' = Some (130, 85) \<and> bp_realistic 130 85 \<and>
   py_float ''72'' = Some (Fin 72) \<and> py_float ''180'' = Some (Fin 180) \<and>
   py_float ''98.6'' = Some (Fin (493 / 5)) \<and>
   new_entry \<lparr>d_year = 2024, d_month = 3, d_day = 9\<rparr> 5 py_float \<lparr>inp = [''3/9/2024'', ''130/85'', ''72'', ''180'', ''98.6'', ''felt fine''], out = [], csv_file = Some [jan5_row], writable = True\<rparr> =
     add_or_update_record ''03/09/2024'' 130 85 72 180 (493 / 5) ''felt fine''
       (\<lparr>inp = [''3/9/2024'', ''130/85'', ''72'', ''180'', ''98.6'', ''felt fine''], out = [], csv_file = Some [jan5_row], writable = True\<rparr>\<lparr>inp := [], out := [''High BP. Possibly hypertension stage 1'']\<rparr>)"
proof -
  have g: "get_data \<lparr>inp = [''3/9/2024'', ''130/85'', ''72'', ''180'', ''98.6'', ''felt fine''], out = [], csv_file = Some [jan5_row], writable = True\<rparr> = Inr ([jan5_loaded], \<lparr>inp = [''3/9/2024'', ''130/85'', ''72'', ''180'', ''98.6'', ''felt fine''], out = [], csv_file = Some [jan5_row], writable = True\<rparr>)" by code_simp
  have d: "strptime_mdY ''3/9/2024'' = Some \<lparr>d_year = 2024, d_month = 3, d_day = 9\<rparr>" by code_simp
  have b: "parse_bp ''130/85'' = Some (130, 85)" by code_simp
  have br: "bp_realistic 130 85" by (simp add: bp_realistic_def range_defs)
  have p: "py_float ''72'' = Some (Fin 72)" by code_simp
  have pr: "float_in_range PULSE_RATE_MIN PULSE_RATE_MAX (Fin 72)" by (simp add: float_in_range_def range_defs)
  have wt: "py_float ''180'' = Some (Fin 180)" by code_simp
  have wr: "float_in_range WEIGHT_MIN WEIGHT_MAX (Fin 180)" by (simp add: float_in_range_def range_defs)
  have t: "py_float ''98.6'' = Some (Fin (493 / 5))" by code_simp
  have tr: "float_in_range TEMP_MIN TEMP_MAX (Fin (493 / 5))" by (simp add: float_in_range_def range_defs)
  have i: "inp \<lparr>inp = [''3/9/2024'', ''130/85'', ''72'', ''180'', ''98.6'', ''felt fine''], out = [], csv_file = Some [jan5_row], writable = True\<rparr> = [''3/9/2024'', ''130/85'', ''72'', ''180'', ''98.6'', ''felt fine''] @ []" by simp
  have e: "new_entry \<lparr>d_year = 2024, d_month = 3, d_day = 9\<rparr> 5 py_float \<lparr>inp = [''3/9/2024'', ''130/85'', ''72'', ''180'', ''98.6'', ''felt fine''], out = [], csv_file = Some [jan5_row], writable = True\<rparr> =
     add_or_update_record (strftime_mdY \<lparr>d_year = 2024, d_month = 3, d_day = 9\<rparr>) 130 85 (py_int_of_float 72) 180 (493 / 5)
       (if py_strip ''felt fine'' \<noteq> [] then ''felt fine'' else [])
       (\<lparr>inp = [''3/9/2024'', ''130/85'', ''72'', ''180'', ''98.6'', ''felt fine''], out = [], csv_file = Some [jan5_row], writable = True\<rparr>\<lparr>inp := [], out := out \<lparr>inp = [''3/9/2024'', ''130/85'', ''72'', ''180'', ''98.6'', ''felt fine''], out = [], csv_file = Some [jan5_row], writable = True\<rparr> @ [bp_warning (classify_bp 130 85)]\<rparr>)"
    by (rule new_entry_first_try [OF g _ d b br _ p pr wt wr t tr i]) simp_all
  have c: "strftime_mdY \<lparr>d_year = 2024, d_month = 3, d_day = 9\<rparr> = ''03/09/2024''" by code_simp
  have n: "(if py_strip ''felt fine'' \<noteq> [] then ''felt fine'' else []) = ''felt fine''" by code_simp
  have k: "bp_warning (classify_bp 130 85) = ''High BP. Possibly hypertension stage 1''"
    by (simp add: classify_bp_def)
  have q: "py_int_of_float 72 = 72" by (simp add: py_int_of_float_def)
  show ?thesis using e g d b br p wt t by (simp only: c n k q) simp
qed

end
