(* ===== verification/Frame.thy ===== *)
theory Frame
  imports Store
begin

text \<open>
  The frame \<open>csv_source.show_range\<close> builds (\<open>src/main.py\<close> lines 69--90): the
  rows kept by the window, resampled to one slot per calendar day between the first and
  the last kept row (\<open>resample('D').asfreq\<close> with \<open>fill_value = 0\<close>), and the
  rows whose five vitals are all zero marked \<open>missing day\<close>. Days are the day numbers
  of \<open>Dates\<close> (\<open>date_ordinal\<close>), which order as the dates do; a slot's day is the
  \<open>date_index\<close> column of the frame.
\<close>

section \<open>Daily slots\<close>

text \<open>One row of the resampled frame: its day and the columns the chart and the table use.\<close>

record slot =
  s_day :: int
  s_sys :: int
  s_dia :: int
  s_pulse :: int
  s_weight :: rat
  s_temp :: rat
  s_notes :: string

text \<open>A stored row on its day (line 70: missing notes were already read as empty).\<close>

definition slot_of_row :: "int \<Rightarrow> 'd vrow \<Rightarrow> slot" where
  "slot_of_row k r =
     \<lparr>s_day = k, s_sys = bp_sys r, s_dia = bp_dia r, s_pulse = pulse_rate r,
      s_weight = weight r, s_temp = temp r, s_notes = r_notes r\<rparr>"

text \<open>A day with no row: every column filled with 0 (line 77).\<close>

definition zero_slot :: "int \<Rightarrow> slot" where
  "zero_slot k = \<lparr>s_day = k, s_sys = 0, s_dia = 0, s_pulse = 0, s_weight = 0, s_temp = 0, s_notes = []\<rparr>"

text \<open>Lines 84--87: the five vital columns all equal to zero.\<close>

definition all_vitals_zero :: "slot \<Rightarrow> bool" where
  "all_vitals_zero s \<longleftrightarrow> s_sys s = 0 \<and> s_dia s = 0 \<and> s_pulse s = 0 \<and> s_weight s = 0 \<and> s_temp s = 0"

definition mark_missing :: "slot \<Rightarrow> slot" where
  "mark_missing s = (if all_vitals_zero s then s\<lparr>s_notes := ''missing day''\<rparr> else s)"

text \<open>
  Line 77: \<open>resample('D').asfreq(fill_value = 0)\<close> on the kept rows, given with their
  day numbers: one slot per day from the first kept day to the last; no rows, no slots.
\<close>

definition resample_daily :: "(int \<times> 'd vrow) list \<Rightarrow> slot list" where
  "resample_daily kept =
     (if kept = [] then []
      else
        (let lo = Min (set (map fst kept)); hi = Max (set (map fst kept))
         in map (\<lambda>k. case map_of kept k of Some r \<Rightarrow> slot_of_row k r | None \<Rightarrow> zero_slot k) [lo..hi]))"

text \<open>Lines 77--90: the resampled frame with missing days marked.\<close>

definition materialize :: "(int \<times> 'd vrow) list \<Rightarrow> slot list" where
  "materialize kept = map mark_missing (resample_daily kept)"

text \<open>Line 69: the rows whose day lies between the two dates, inclusive.\<close>

definition filter_range :: "int \<Rightarrow> int \<Rightarrow> (int \<times> 'd vrow) list \<Rightarrow> (int \<times> 'd vrow) list" where
  "filter_range b e rows = filter (\<lambda>(k, r). b \<le> k \<and> k \<le> e) rows"

text \<open>Line 105: \<open>tail(10)\<close>, the rows the table prints.\<close>

definition tail10 :: "slot list \<Rightarrow> slot list" where
  "tail10 slots = drop (length slots - 10) slots"

section \<open>Lemmas: the resampled frame\<close>

lemma s_day_mark_missing [simp]: "s_day (mark_missing s) = s_day s"
  by (simp add: mark_missing_def)

lemma s_day_cell [simp]:
  "s_day (case map_of kept k of Some r \<Rightarrow> slot_of_row k r | None \<Rightarrow> zero_slot k) = k"
  by (simp add: slot_of_row_def zero_slot_def split: option.splits)

lemma materialize_days:
  "map s_day (materialize kept) =
     (if kept = [] then [] else [Min (set (map fst kept))..Max (set (map fst kept))])"
  by (simp add: materialize_def resample_daily_def Let_def comp_def)

lemma materialize_Nil [simp]: "materialize [] = []"
  by (simp add: materialize_def resample_daily_def)

lemma materialize_eq_Nil: "materialize kept = [] \<longleftrightarrow> kept = []"
proof -
  have ne: "kept \<noteq> [] \<Longrightarrow> [Min (set (map fst kept))..Max (set (map fst kept))] \<noteq> []"
  proof -
    assume "kept \<noteq> []"
    then obtain x where "x \<in> set (map fst kept)" by (cases kept) auto
    then have "Min (set (map fst kept)) \<le> x" and "x \<le> Max (set (map fst kept))" by simp_all
    then show ?thesis by simp
  qed
  show ?thesis
  proof (cases "kept = []")
    case True
    then show ?thesis by simp
  next
    case False
    with materialize_days [of kept] ne
    have "map s_day (materialize kept) \<noteq> []" by simp
    with False show ?thesis by auto
  qed
qed

lemma materialize_cells:
  "kept \<noteq> [] \<Longrightarrow> materialize kept =
     map (\<lambda>k. mark_missing (case map_of kept k of Some r \<Rightarrow> slot_of_row k r | None \<Rightarrow> zero_slot k))
       [Min (set (map fst kept))..Max (set (map fst kept))]"
  by (simp add: materialize_def resample_daily_def Let_def)

lemma kept_day_in_span:
  "(k, r) \<in> set kept \<Longrightarrow> k \<in> set [Min (set (map fst kept))..Max (set (map fst kept))]"
proof -
  assume kr: "(k, r) \<in> set kept"
  then have k: "k \<in> set (map fst kept)" by force
  then have "Min (set (map fst kept)) \<le> k" and "k \<le> Max (set (map fst kept))"
    by simp_all
  then show ?thesis by simp
qed

lemma materialize_row:
  assumes "distinct (map fst kept)" and "(k, r) \<in> set kept"
  shows "mark_missing (slot_of_row k r) \<in> set (materialize kept)"
proof -
  from assms have m: "map_of kept k = Some r" by (rule map_of_is_SomeI)
  from assms(2) have "kept \<noteq> []" by auto
  with kept_day_in_span [OF assms(2)] m show ?thesis
    by (force simp: materialize_cells)
qed


lemma filter_range_days:
  "k \<in> fst ` set (filter_range b e rows) \<Longrightarrow> b \<le> k \<and> k \<le> e"
  by (auto simp: filter_range_def)

lemma materialize_window:
  assumes "\<And>k. k \<in> fst ` set kept \<Longrightarrow> b \<le> k \<and> k \<le> e" and "s \<in> set (materialize kept)"
  shows "b \<le> s_day s \<and> s_day s \<le> e"
proof -
  from assms(2) have ne: "kept \<noteq> []" by auto
  have "s_day s \<in> set (map s_day (materialize kept))" using assms(2) by simp
  with ne have in_span: "s_day s \<in> set [Min (set (map fst kept))..Max (set (map fst kept))]"
    by (simp only: materialize_days) simp
  from ne have "Min (set (map fst kept)) \<in> fst ` set kept" and "Max (set (map fst kept)) \<in> fst ` set kept"
    using Min_in [of "set (map fst kept)"] Max_in [of "set (map fst kept)"] by auto
  with assms(1) in_span show ?thesis by force
qed

lemma hd_last_upto: "lo \<le> hi \<Longrightarrow> hd [lo..hi] = lo \<and> last [lo..hi] = hi"
proof -
  assume "lo \<le> hi"
  then have "hd [lo..hi] = lo" by (simp add: upto_rec1)
  moreover from \<open>lo \<le> hi\<close> have "[lo..hi] = [lo..hi - 1] @ [hi]" by (rule upto_rec2)
  then have "last [lo..hi] = hi" by simp
  ultimately show ?thesis by simp
qed

lemma materialize_span:
  assumes "kept \<noteq> []"
  shows "map s_day (materialize kept) = [s_day (hd (materialize kept))..s_day (last (materialize kept))]"
proof -
  let ?lo = "Min (set (map fst kept))" and ?hi = "Max (set (map fst kept))"
  have ne: "materialize kept \<noteq> []" using assms materialize_eq_Nil by blast
  have days: "map s_day (materialize kept) = [?lo..?hi]" using assms by (simp add: materialize_days)
  with ne have le: "?lo \<le> ?hi" by (cases "?lo \<le> ?hi") auto
  have "s_day (hd (materialize kept)) = hd (map s_day (materialize kept))"
    and "s_day (last (materialize kept)) = last (map s_day (materialize kept))"
    using ne by (simp_all add: hd_map last_map)
  with days hd_last_upto [OF le] show ?thesis by simp
qed

lemma materialize_vitals_zero_iff:
  assumes "\<forall>(k, r)\<in>set kept. bp_sys r \<noteq> 0" and "s \<in> set (materialize kept)"
  shows "all_vitals_zero s \<longleftrightarrow> s_day s \<notin> fst ` set kept"
proof -
  from assms(2) have ne: "kept \<noteq> []" by auto
  with assms(2) obtain k where s: "s = mark_missing (case map_of kept k of Some r \<Rightarrow> slot_of_row k r | None \<Rightarrow> zero_slot k)"
    by (auto simp: materialize_cells)
  then have day: "s_day s = k" by simp
  show ?thesis
  proof (cases "map_of kept k")
    case None
    with s day show ?thesis
      by (simp add: mark_missing_def all_vitals_zero_def zero_slot_def map_of_eq_None_iff)
  next
    case (Some r)
    then have "(k, r) \<in> set kept" by (rule map_of_SomeD)
    with assms(1) have "bp_sys r \<noteq> 0" by auto
    with s Some day \<open>(k, r) \<in> set kept\<close> show ?thesis
      by (force simp: mark_missing_def all_vitals_zero_def slot_of_row_def)
  qed
qed

section \<open>Properties of the resampled frame\<close>

text \<open>
  C16. Every kept row appears in the frame on its own day with its own values (its notes
  replaced by \<open>missing day\<close> only if its five vitals are all zero).
\<close>

theorem materialize_keeps_rows:
  "distinct (map fst kept) \<Longrightarrow> (k, r) \<in> set kept \<Longrightarrow> mark_missing (slot_of_row k r) \<in> set (materialize kept)"
  by (rule materialize_row)


text \<open>
  C19. When every kept row has a non-zero systolic value (as every row \<open>get_bp\<close>
  accepts has), a slot's vitals are all zero exactly on the days with no row: a stored
  reading is never shown as a missing day.
\<close>

theorem materialize_missing_iff_no_row:
  "\<forall>(k, r)\<in>set kept. bp_sys r \<noteq> 0 \<Longrightarrow> s \<in> set (materialize kept) \<Longrightarrow>
     all_vitals_zero s \<longleftrightarrow> s_day s \<notin> fst ` set kept"
  by (rule materialize_vitals_zero_iff)

section \<open>Witnesses\<close>

theorem materialize_keeps_rows_witness:
  "distinct (map fst [(1::int, \<lparr>r_date = DT \<lparr>d_year = 2024, d_month = 1, d_day = 1\<rparr>, bp_sys = 120, bp_dia = 80, pulse_rate = 70, weight = 150, temp = 98, r_notes = ''a''\<rparr>), (3, \<lparr>r_date = DT \<lparr>d_year = 2024, d_month = 1, d_day = 3\<rparr>, bp_sys = 125, bp_dia = 75, pulse_rate = 71, weight = 151, temp = 99, r_notes = ''b''\<rparr>)]) \<and> (3, \<lparr>r_date = DT \<lparr>d_year = 2024, d_month = 1, d_day = 3\<rparr>, bp_sys = 125, bp_dia = 75, pulse_rate = 71, weight = 151, temp = 99, r_notes = ''b''\<rparr>) \<in> set [(1::int, \<lparr>r_date = DT \<lparr>d_year = 2024, d_month = 1, d_day = 1\<rparr>, bp_sys = 120, bp_dia = 80, pulse_rate = 70, weight = 150, temp = 98, r_notes = ''a''\<rparr>), (3, \<lparr>r_date = DT \<lparr>d_year = 2024, d_month = 1, d_day = 3\<rparr>, bp_sys = 125, bp_dia = 75, pulse_rate = 71, weight = 151, temp = 99, r_notes = ''b''\<rparr>)] \<and>
   mark_missing (slot_of_row 3 \<lparr>r_date = DT \<lparr>d_year = 2024, d_month = 1, d_day = 3\<rparr>, bp_sys = 125, bp_dia = 75, pulse_rate = 71, weight = 151, temp = 99, r_notes = ''b''\<rparr>) \<in> set (materialize [(1::int, \<lparr>r_date = DT \<lparr>d_year = 2024, d_month = 1, d_day = 1\<rparr>, bp_sys = 120, bp_dia = 80, pulse_rate = 70, weight = 150, temp = 98, r_notes = ''a''\<rparr>), (3, \<lparr>r_date = DT \<lparr>d_year = 2024, d_month = 1, d_day = 3\<rparr>, bp_sys = 125, bp_dia = 75, pulse_rate = 71, weight = 151, temp = 99, r_notes = ''b''\<rparr>)])"
proof -
  have d: "distinct (map fst [(1::int, \<lparr>r_date = DT \<lparr>d_year = 2024, d_month = 1, d_day = 1\<rparr>, bp_sys = 120, bp_dia = 80, pulse_rate = 70, weight = 150, temp = 98, r_notes = ''a''\<rparr>), (3, \<lparr>r_date = DT \<lparr>d_year = 2024, d_month = 1, d_day = 3\<rparr>, bp_sys = 125, bp_dia = 75, pulse_rate = 71, weight = 151, temp = 99, r_notes = ''b''\<rparr>)])" by simp
  have m: "(3::int, \<lparr>r_date = DT \<lparr>d_year = 2024, d_month = 1, d_day = 3\<rparr>, bp_sys = 125, bp_dia = 75, pulse_rate = 71, weight = 151, temp = 99, r_notes = ''b''\<rparr>) \<in> set [(1, \<lparr>r_date = DT \<lparr>d_year = 2024, d_month = 1, d_day = 1\<rparr>, bp_sys = 120, bp_dia = 80, pulse_rate = 70, weight = 150, temp = 98, r_notes = ''a''\<rparr>), (3, \<lparr>r_date = DT \<lparr>d_year = 2024, d_month = 1, d_day = 3\<rparr>, bp_sys = 125, bp_dia = 75, pulse_rate = 71, weight = 151, temp = 99, r_notes = ''b''\<rparr>)]" by simp
  from d m materialize_keeps_rows [OF d m] show ?thesis by (intro conjI)
qed


theorem materialize_missing_iff_no_row_witness:
  "(zero_slot 2)\<lparr>s_notes := ''missing day''\<rparr> \<in> set (materialize [(1::int, \<lparr>r_date = DT \<lparr>d_year = 2024, d_month = 1, d_day = 1\<rparr>, bp_sys = 120, bp_dia = 80, pulse_rate = 70, weight = 150, temp = 98, r_notes = ''a''\<rparr>), (3, \<lparr>r_date = DT \<lparr>d_year = 2024, d_month = 1, d_day = 3\<rparr>, bp_sys = 125, bp_dia = 75, pulse_rate = 71, weight = 151, temp = 99, r_notes = ''b''\<rparr>)]) \<and>
   all_vitals_zero ((zero_slot 2)\<lparr>s_notes := ''missing day''\<rparr>)"
proof -
  have h: "\<forall>(k, r)\<in>set [(1::int, \<lparr>r_date = DT \<lparr>d_year = 2024, d_month = 1, d_day = 1\<rparr>, bp_sys = 120, bp_dia = 80, pulse_rate = 70, weight = 150, temp = 98, r_notes = ''a''\<rparr>), (3, \<lparr>r_date = DT \<lparr>d_year = 2024, d_month = 1, d_day = 3\<rparr>, bp_sys = 125, bp_dia = 75, pulse_rate = 71, weight = 151, temp = 99, r_notes = ''b''\<rparr>)]. bp_sys r \<noteq> 0" by simp
  have s: "(zero_slot 2)\<lparr>s_notes := ''missing day''\<rparr> \<in> set (materialize [(1, \<lparr>r_date = DT \<lparr>d_year = 2024, d_month = 1, d_day = 1\<rparr>, bp_sys = 120, bp_dia = 80, pulse_rate = 70, weight = 150, temp = 98, r_notes = ''a''\<rparr>), (3, \<lparr>r_date = DT \<lparr>d_year = 2024, d_month = 1, d_day = 3\<rparr>, bp_sys = 125, bp_dia = 75, pulse_rate = 71, weight = 151, temp = 99, r_notes = ''b''\<rparr>)])"
    by code_simp
  have "all_vitals_zero ((zero_slot 2)\<lparr>s_notes := ''missing day''\<rparr>)
        \<longleftrightarrow> s_day ((zero_slot (2::int))\<lparr>s_notes := ''missing day''\<rparr>) \<notin> fst ` set [(1::int, \<lparr>r_date = DT \<lparr>d_year = 2024, d_month = 1, d_day = 1\<rparr>, bp_sys = 120, bp_dia = 80, pulse_rate = 70, weight = 150, temp = 98, r_notes = ''a''\<rparr>), (3, \<lparr>r_date = DT \<lparr>d_year = 2024, d_month = 1, d_day = 3\<rparr>, bp_sys = 125, bp_dia = 75, pulse_rate = 71, weight = 151, temp = 99, r_notes = ''b''\<rparr>)]"
    by (rule materialize_missing_iff_no_row [OF h s])
  then show ?thesis using s by (simp add: zero_slot_def)
qed

end
