(* ===== verification/Chart.thy ===== *)
theory Chart
  imports Frame
begin

text \<open>
  \<open>vitals_display(df, begin_date, end_date)\<close> (\<open>src/main.py\<close> lines 178--242) as the
  description of the chart it draws: a title, the axis labels of the four panels, and
  one series per \<open>plot\<close> call with its panel, its points (the \<open>date_index\<close> and the
  column of every row of the frame), its style, its colour and its final label (the
  \<open>set_label\<close> calls of lines 231--235 override the labels given to \<open>plot\<close>). Tick
  locators, rotation, layout and \<open>plt.show()\<close> change nothing that is drawn from the
  data and are not modelled.
\<close>

section \<open>The chart\<close>

text \<open>Line 211: one row is drawn as markers (\<open>'o'\<close>), more rows as connected lines.\<close>

datatype mark_style = Markers | Lines

record series =
  sr_panel :: nat
  sr_xs :: "int list"
  sr_ys :: "rat list"
  sr_style :: mark_style
  sr_color :: "string option"
  sr_label :: string

record chart =
  c_title :: string
  c_xlabel :: string
  c_ylabels :: "string list"
  c_series :: "series list"
  c_legend_panel :: nat

text \<open>
  The five \<open>plot\<close> calls of either branch (lines 211--222): the one-row branch gives all
  five a colour, the other branch only temperature (green) and pulse (red).
\<close>

definition vitals_display :: "slot list \<Rightarrow> string \<Rightarrow> string \<Rightarrow> chart" where
  "vitals_display df begin_date end_date =
     (let xs = map s_day df;
          one = (length df = 1);
          st = (if one then Markers else Lines);
          col = (\<lambda>c. if one then Some c else None)
      in \<lparr>c_title = ''Vital signs from '' @ begin_date @ '' to '' @ end_date @ ''.'',
          c_xlabel = ''Date'',
          c_ylabels = [''Pressure'', ''Weight lbs'', ''Temperature F.'', ''Pulse Rate''],
          c_series =
            [\<lparr>sr_panel = 0, sr_xs = xs, sr_ys = map (\<lambda>s. of_int (s_sys s)) df, sr_style = st,
              sr_color = col ''blue'', sr_label = ''Systolic''\<rparr>,
             \<lparr>sr_panel = 0, sr_xs = xs, sr_ys = map (\<lambda>s. of_int (s_dia s)) df, sr_style = st,
              sr_color = col ''cyan'', sr_label = ''Diastolic''\<rparr>,
             \<lparr>sr_panel = 1, sr_xs = xs, sr_ys = map s_weight df, sr_style = st,
              sr_color = col ''orange'', sr_label = ''Weight''\<rparr>,
             \<lparr>sr_panel = 2, sr_xs = xs, sr_ys = map s_temp df, sr_style = st,
              sr_color = Some ''green'', sr_label = ''Temperaure F''\<rparr>,
             \<lparr>sr_panel = 3, sr_xs = xs, sr_ys = map (\<lambda>s. of_int (s_pulse s)) df, sr_style = st,
              sr_color = Some ''red'', sr_label = ''Pulse rate''\<rparr>],
          c_legend_panel = 0\<rparr>)"

section \<open>Lemmas: the chart\<close>

lemma vitals_display_series:
  "sr \<in> set (c_series (vitals_display df b e)) \<longleftrightarrow>
     (let xs = map s_day df; st = (if length df = 1 then Markers else Lines);
          col = (\<lambda>c. if length df = 1 then Some c else None) in
      sr = \<lparr>sr_panel = 0, sr_xs = xs, sr_ys = map (\<lambda>s. of_int (s_sys s)) df, sr_style = st,
              sr_color = col ''blue'', sr_label = ''Systolic''\<rparr> \<or>
      sr = \<lparr>sr_panel = 0, sr_xs = xs, sr_ys = map (\<lambda>s. of_int (s_dia s)) df, sr_style = st,
              sr_color = col ''cyan'', sr_label = ''Diastolic''\<rparr> \<or>
      sr = \<lparr>sr_panel = 1, sr_xs = xs, sr_ys = map s_weight df, sr_style = st,
              sr_color = col ''orange'', sr_label = ''Weight''\<rparr> \<or>
      sr = \<lparr>sr_panel = 2, sr_xs = xs, sr_ys = map s_temp df, sr_style = st,
              sr_color = Some ''green'', sr_label = ''Temperaure F''\<rparr> \<or>
      sr = \<lparr>sr_panel = 3, sr_xs = xs, sr_ys = map (\<lambda>s. of_int (s_pulse s)) df, sr_style = st,
              sr_color = Some ''red'', sr_label = ''Pulse rate''\<rparr>)"
  by (simp add: vitals_display_def Let_def)


lemma vitals_display_style:
  "sr \<in> set (c_series (vitals_display df b e)) \<Longrightarrow> sr_style sr = (if length df = 1 then Markers else Lines)"
  by (auto simp: vitals_display_series Let_def)


lemma materialize_length:
  "kept \<noteq> [] \<Longrightarrow> length (materialize kept) = nat (Max (set (map fst kept)) - Min (set (map fst kept)) + 1)"
  using arg_cong [OF materialize_days [of kept], of length] by simp

lemma Min_eq_Max_iff:
  fixes S :: "'a::linorder set"
  assumes "finite S" and "a \<in> S"
  shows "Min S = Max S \<longleftrightarrow> (\<forall>k\<in>S. k = a)"
proof
  assume eq: "Min S = Max S"
  have at_min: "k = Min S" if "k \<in> S" for k
  proof (rule antisym)
    show "k \<le> Min S" using Max_ge [OF assms(1) that] eq by simp
    show "Min S \<le> k" by (rule Min_le [OF assms(1) that])
  qed
  show "\<forall>k\<in>S. k = a" using at_min [OF assms(2)] at_min by simp
next
  assume "\<forall>k\<in>S. k = a"
  with assms(2) have "S = {a}" by blast
  then show "Min S = Max S" by simp
qed

section \<open>Properties of the chart\<close>

text \<open>
  C22. A window whose kept rows all fall on one day is drawn as markers, and any two
  different days, however far apart, give connected lines (through the zero-filled days
  between them): the frame has one slot exactly when the first and last kept day agree.
\<close>

theorem chart_single_day_markers:
  assumes "kept \<noteq> []" and "sr \<in> set (c_series (vitals_display (materialize kept) b e))"
  shows "sr_style sr = Markers \<longleftrightarrow> (\<forall>k\<in>fst ` set kept. k = fst (hd kept))"
proof -
  let ?S = "set (map fst kept)"
  have fin: "finite ?S" and mem: "fst (hd kept) \<in> ?S" using assms(1) by (auto simp: hd_in_set)
  have le: "Min ?S \<le> Max ?S" using Min_le [OF fin mem] Max_ge [OF fin mem] by linarith
  have "sr_style sr = Markers \<longleftrightarrow> nat (Max ?S - Min ?S + 1) = 1"
    using vitals_display_style [OF assms(2)] materialize_length [OF assms(1)] by simp
  also have "\<dots> \<longleftrightarrow> Min ?S = Max ?S" using le by linarith
  also have "\<dots> \<longleftrightarrow> (\<forall>k\<in>?S. k = fst (hd kept))" by (rule Min_eq_Max_iff [OF fin mem])
  finally show ?thesis by simp
qed


section \<open>Witnesses\<close>

theorem chart_single_day_markers_witness:
  "[(1::int, \<lparr>r_date = DT \<lparr>d_year = 2024, d_month = 1, d_day = 1\<rparr>, bp_sys = 120, bp_dia = 80, pulse_rate = 70, weight = 150, temp = 98, r_notes = ''a''\<rparr>)] \<noteq> [] \<and>
   \<lparr>sr_panel = 0, sr_xs = [1], sr_ys = [120], sr_style = Markers, sr_color = Some ''blue'', sr_label = ''Systolic''\<rparr> \<in> set (c_series (vitals_display (materialize [(1::int, \<lparr>r_date = DT \<lparr>d_year = 2024, d_month = 1, d_day = 1\<rparr>, bp_sys = 120, bp_dia = 80, pulse_rate = 70, weight = 150, temp = 98, r_notes = ''a''\<rparr>)]) ''01/01/2024'' ''01/01/2024'')) \<and>
   sr_style \<lparr>sr_panel = 0, sr_xs = [1], sr_ys = [120], sr_style = Markers, sr_color = Some ''blue'', sr_label = ''Systolic''\<rparr> = Markers"
proof -
  have n: "[(1::int, \<lparr>r_date = DT \<lparr>d_year = 2024, d_month = 1, d_day = 1\<rparr>, bp_sys = 120, bp_dia = 80, pulse_rate = 70, weight = 150, temp = 98, r_notes = ''a''\<rparr>)] \<noteq> []" by simp
  have m: "\<lparr>sr_panel = 0, sr_xs = [1], sr_ys = [120], sr_style = Markers, sr_color = Some ''blue'', sr_label = ''Systolic''\<rparr> \<in> set (c_series (vitals_display (materialize [(1::int, \<lparr>r_date = DT \<lparr>d_year = 2024, d_month = 1, d_day = 1\<rparr>, bp_sys = 120, bp_dia = 80, pulse_rate = 70, weight = 150, temp = 98, r_notes = ''a''\<rparr>)]) ''01/01/2024'' ''01/01/2024''))"
    by code_simp
  from chart_single_day_markers [OF n m] n m show ?thesis by simp
qed


end
