(* ===== verification/Materializer.thy ===== *)
theory Materializer
  imports Chart
begin

text \<open>
  \<open>csv_source.show_range\<close> (\<open>src/main.py\<close> lines 51--111): load the table, parse
  its dates, keep the rows between the two dates given, build the daily frame of
  \<open>Frame\<close>, print it or the no-entries message, and draw the chart of \<open>Chart\<close> when
  the user answers \<open>y\<close>.
\<close>

section \<open>The range view\<close>

text \<open>
  The whole of \<open>show_range(begin_date, end_date)\<close>. Its result is the resampled frame
  (whose last ten rows the table prints) and the chart drawn, if any. \<open>pd.to_datetime\<close>
  (line 65) and \<open>strptime\<close> (lines 66--67) raise \<open>ValueError\<close> on a date they
  cannot parse; \<open>asfreq\<close> raises it on a repeated day. A non-empty frame prints its
  header, reads the answer to the chart question, and draws the chart when the answer in
  lower case is \<open>y\<close> (lines 107--111), with the two dates as printed (lines 99--100).
\<close>

definition show_range :: "string \<Rightarrow> string \<Rightarrow> ('s store_scheme, slot list \<times> chart option) py" where
  "show_range begin_date end_date =
     bind_py get_data (\<lambda>df w.
       (case to_datetime_mdY (map r_date df) of
          Inl err \<Rightarrow> Inl (ValueError err)
        | Inr dates \<Rightarrow>
            (case (strptime_mdY begin_date, strptime_mdY end_date) of
               (Some b, Some e) \<Rightarrow>
                 (let kept = filter_range (date_ordinal b) (date_ordinal e) (zip (map date_ordinal dates) df)
                  in if \<not> distinct (map fst kept) then Inl (ValueError DuplicateLabels)
                     else
                       (let frame = materialize kept
                        in if frame = [] then Inr (([], None), print_line ''No entries found within given range.'' w)
                           else
                             (case read_line (print_line (''Here are the most recent 10 entries from ''
                                      @ strftime_mdY b @ '' to '' @ strftime_mdY e) w) of
                                Inl err \<Rightarrow> Inl err
                              | Inr (answer, w') \<Rightarrow>
                                  Inr ((frame,
                                        if py_lower answer = ''y''
                                        then Some (vitals_display frame (strftime_mdY b) (strftime_mdY e))
                                        else None), w'))))
             | _ \<Rightarrow> Inl (ValueError DateFormatError))))"

section \<open>Lemmas: the range view\<close>

lemma show_range_Inr:
  assumes "show_range begin_date end_date w = Inr ((frame, ch), w')"
  shows "\<exists>df s dates b e. get_data w = Inr (df, s) \<and> strptime_mdY begin_date = Some b \<and>
           strptime_mdY end_date = Some e \<and> to_datetime_mdY (map r_date df) = Inr dates \<and>
           frame = materialize (filter_range (date_ordinal b) (date_ordinal e) (zip (map date_ordinal dates) df)) \<and>
           (ch \<noteq> None \<longrightarrow> ch = Some (vitals_display frame (strftime_mdY b) (strftime_mdY e))) \<and>
           (frame = [] \<longrightarrow> ch = None)"
proof -
  from assms obtain df s where g: "get_data w = Inr (df, s)"
    by (cases "get_data w") (auto simp: show_range_def)
  from assms g obtain dates where d: "to_datetime_mdY (map r_date df) = Inr dates"
    by (cases "to_datetime_mdY (map r_date df)") (auto simp: show_range_def)
  from assms g d obtain b e where b: "strptime_mdY begin_date = Some b" and e: "strptime_mdY end_date = Some e"
    by (cases "strptime_mdY begin_date"; cases "strptime_mdY end_date") (auto simp: show_range_def)
  from assms g d b e show ?thesis
    by (auto simp: show_range_def Let_def split: if_splits sum.splits)
qed

lemma show_range_reads_answer:
  assumes "show_range begin_date end_date w = Inr ((frame, ch), w')" and "frame \<noteq> []"
  shows "\<exists>df s b e h answer. get_data w = Inr (df, s) \<and> strptime_mdY begin_date = Some b \<and>
           strptime_mdY end_date = Some e \<and> read_line (print_line h s) = Inr (answer, w') \<and>
           ch = (if py_lower answer = ''y'' then Some (vitals_display frame (strftime_mdY b) (strftime_mdY e)) else None)"
proof (cases "get_data w")
  case (Inl err)
  with assms(1) show ?thesis by (simp add: show_range_def)
next
  case (Inr p)
  obtain df s where p: "p = (df, s)" by (cases p)
  from assms Inr p show ?thesis
    unfolding show_range_def
    by (auto simp: Let_def simp del: print_line_def split: option.split_asm if_split_asm sum.split_asm prod.split_asm)
qed

section \<open>Properties of the range view\<close>

text \<open>
  C15. What \<open>show_range\<close> returns is a run of consecutive days, ascending, one slot per
  day, and every day lies within the requested window.
\<close>

theorem show_range_dense_window:
  assumes "show_range begin_date end_date w = Inr ((frame, ch), w')"
    and "strptime_mdY begin_date = Some b" and "strptime_mdY end_date = Some e"
  shows "(\<forall>s\<in>set frame. date_ordinal b \<le> s_day s \<and> s_day s \<le> date_ordinal e) \<and>
         (frame \<noteq> [] \<longrightarrow> map s_day frame = [s_day (hd frame)..s_day (last frame)])"
proof -
  from show_range_Inr [OF assms(1)] obtain df :: "frow list" and s dates b' e' where
    b': "strptime_mdY begin_date = Some b'" and e': "strptime_mdY end_date = Some e'"
    and fr': "frame = materialize (filter_range (date_ordinal b') (date_ordinal e') (zip (map date_ordinal dates) df))"
    by (elim exE conjE) blast
  from fr' b' e' assms(2,3) have
    fr: "frame = materialize (filter_range (date_ordinal b) (date_ordinal e) (zip (map date_ordinal dates) df))"
    by simp
  let ?kept = "filter_range (date_ordinal b) (date_ordinal e) (zip (map date_ordinal dates) df)"
  have "\<forall>s\<in>set frame. date_ordinal b \<le> s_day s \<and> s_day s \<le> date_ordinal e"
    unfolding fr by (intro ballI materialize_window [of ?kept] filter_range_days)
  moreover have "frame \<noteq> [] \<longrightarrow> map s_day frame = [s_day (hd frame)..s_day (last frame)]"
    unfolding fr by (intro impI materialize_span) (simp add: materialize_eq_Nil)
  ultimately show ?thesis ..
qed

text \<open>
  C18. A window that holds no stored date gives an empty frame and the message
  \<open>No entries found within given range.\<close>, and reads no further input.
\<close>

theorem show_range_empty_window:
  assumes "get_data w = Inr (df, s)" and "to_datetime_mdY (map r_date df) = Inr dates"
    and "strptime_mdY begin_date = Some b" and "strptime_mdY end_date = Some e"
    and "\<forall>dt\<in>set dates. date_ordinal dt < date_ordinal b \<or> date_ordinal e < date_ordinal dt"
  shows "show_range begin_date end_date w = Inr (([], None), print_line ''No entries found within given range.'' s)"
proof -
  have "filter_range (date_ordinal b) (date_ordinal e) (zip (map date_ordinal dates) df) = []"
    using assms(5) by (fastforce simp: filter_range_def filter_empty_conv dest!: set_zip_leftD)
  with assms(1-4) show ?thesis by (simp add: show_range_def)
qed

text \<open>
  C20. A stored date that \<open>get_date\<close> accepts but that lies outside the
  \<open>datetime64[ns]\<close> range (before 1677-09-22 or after 2262-04-11) makes every range view
  fail: \<open>read_csv\<close> leaves the column as text and \<open>pd.to_datetime\<close> raises
  \<open>OutOfBoundsDatetime\<close>, a \<open>ValueError\<close>, whatever window is asked for.
\<close>

theorem show_range_out_of_bounds:
  assumes "csv_file w = Some rows" and "list_all (\<lambda>r. is_integral (weight r)) rows"
    and "those (map (\<lambda>r. strptime_mdY (r_date r)) rows) = Some ds" and "\<not> list_all in_ns_range ds"
  shows "show_range begin_date end_date w = Inl (ValueError OutOfBoundsDatetime)"
proof -
  have th: "those (map strptime_mdY (map r_date rows)) = Some ds" using assms(3) by (simp add: comp_def)
  obtain df where rt: "read_table rows = Some df" using assms(2) by (simp add: read_table_def)
  have "map r_date df = map TXT (map r_date rows)"
    using read_table_dates [OF rt] parse_date_column_out_of_bounds [OF th assms(4)] by simp
  then have "to_datetime_mdY (map r_date df) = Inl OutOfBoundsDatetime"
    using to_datetime_out_of_bounds [OF th assms(4)] by simp
  then show ?thesis using get_data_file [OF assms(1) rt] by (simp add: show_range_def)
qed

text \<open>
  C21. When the range is not empty, \<open>show_range\<close> reads one more line, the answer to the
  chart question, and draws the chart of the frame, titled with the two dates as printed,
  exactly when that answer in lower case is \<open>y\<close>.
\<close>

theorem show_range_chart_on_yes:
  assumes "show_range begin_date end_date w = Inr ((frame, ch), w')" and "frame \<noteq> []"
  shows "\<exists>answer b e. inp w = answer # inp w' \<and> strptime_mdY begin_date = Some b \<and> strptime_mdY end_date = Some e \<and>
           ch = (if py_lower answer = ''y'' then Some (vitals_display frame (strftime_mdY b) (strftime_mdY e)) else None)"
proof -
  from show_range_reads_answer [OF assms] obtain df s b e h answer where
    g: "get_data w = Inr (df, s)" and bd: "strptime_mdY begin_date = Some b" and ed: "strptime_mdY end_date = Some e"
    and r: "read_line (print_line h s) = Inr (answer, w')"
    and c: "ch = (if py_lower answer = ''y'' then Some (vitals_display frame (strftime_mdY b) (strftime_mdY e)) else None)"
    by blast
  from read_line_Inr [OF r] get_data_Inr [OF g] have "inp w = answer # inp w'" by simp
  with bd ed c show ?thesis by blast
qed

section \<open>Witnesses\<close>

theorem show_range_dense_window_witness:
  "show_range ''01/01/2024'' ''01/31/2024'' \<lparr>inp = [''n''], out = [], csv_file = Some [\<lparr>r_date = ''01/03/2024'', bp_sys = 125, bp_dia = 75, pulse_rate = 71, weight = 151, temp = 99, r_notes = ''b''\<rparr>, \<lparr>r_date = ''01/01/2024'', bp_sys = 120, bp_dia = 80, pulse_rate = 70, weight = 150, temp = 98, r_notes = ''a''\<rparr>], writable = True\<rparr> = Inr (([\<lparr>s_day = 738886, s_sys = 120, s_dia = 80, s_pulse = 70, s_weight = 150, s_temp = 98, s_notes = ''a''\<rparr>, \<lparr>s_day = 738887, s_sys = 0, s_dia = 0, s_pulse = 0, s_weight = 0, s_temp = 0, s_notes = ''missing day''\<rparr>, \<lparr>s_day = 738888, s_sys = 125, s_dia = 75, s_pulse = 71, s_weight = 151, s_temp = 99, s_notes = ''b''\<rparr>], None), \<lparr>inp = [], out = [''Here are the most recent 10 entries from 01/01/2024 to 01/31/2024''], csv_file = Some [\<lparr>r_date = ''01/03/2024'', bp_sys = 125, bp_dia = 75, pulse_rate = 71, weight = 151, temp = 99, r_notes = ''b''\<rparr>, \<lparr>r_date = ''01/01/2024'', bp_sys = 120, bp_dia = 80, pulse_rate = 70, weight = 150, temp = 98, r_notes = ''a''\<rparr>], writable = True\<rparr>) \<and>
   strptime_mdY ''01/01/2024'' = Some \<lparr>d_year = 2024, d_month = 1, d_day = 1\<rparr> \<and>
   strptime_mdY ''01/31/2024'' = Some \<lparr>d_year = 2024, d_month = 1, d_day = 31\<rparr> \<and>
   map s_day [\<lparr>s_day = 738886, s_sys = 120, s_dia = 80, s_pulse = 70, s_weight = 150, s_temp = 98, s_notes = ''a''\<rparr>, \<lparr>s_day = 738887, s_sys = 0, s_dia = 0, s_pulse = 0, s_weight = 0, s_temp = 0, s_notes = ''missing day''\<rparr>, \<lparr>s_day = 738888, s_sys = 125, s_dia = 75, s_pulse = 71, s_weight = 151, s_temp = 99, s_notes = ''b''\<rparr>] = [738886..738888]"
proof -
  have sr: "show_range ''01/01/2024'' ''01/31/2024'' \<lparr>inp = [''n''], out = [], csv_file = Some [\<lparr>r_date = ''01/03/2024'', bp_sys = 125, bp_dia = 75, pulse_rate = 71, weight = 151, temp = 99, r_notes = ''b''\<rparr>, \<lparr>r_date = ''01/01/2024'', bp_sys = 120, bp_dia = 80, pulse_rate = 70, weight = 150, temp = 98, r_notes = ''a''\<rparr>], writable = True\<rparr> = Inr (([\<lparr>s_day = 738886, s_sys = 120, s_dia = 80, s_pulse = 70, s_weight = 150, s_temp = 98, s_notes = ''a''\<rparr>, \<lparr>s_day = 738887, s_sys = 0, s_dia = 0, s_pulse = 0, s_weight = 0, s_temp = 0, s_notes = ''missing day''\<rparr>, \<lparr>s_day = 738888, s_sys = 125, s_dia = 75, s_pulse = 71, s_weight = 151, s_temp = 99, s_notes = ''b''\<rparr>], None), \<lparr>inp = [], out = [''Here are the most recent 10 entries from 01/01/2024 to 01/31/2024''], csv_file = Some [\<lparr>r_date = ''01/03/2024'', bp_sys = 125, bp_dia = 75, pulse_rate = 71, weight = 151, temp = 99, r_notes = ''b''\<rparr>, \<lparr>r_date = ''01/01/2024'', bp_sys = 120, bp_dia = 80, pulse_rate = 70, weight = 150, temp = 98, r_notes = ''a''\<rparr>], writable = True\<rparr>)" by code_simp
  have b: "strptime_mdY ''01/01/2024'' = Some \<lparr>d_year = 2024, d_month = 1, d_day = 1\<rparr>" by code_simp
  have e: "strptime_mdY ''01/31/2024'' = Some \<lparr>d_year = 2024, d_month = 1, d_day = 31\<rparr>" by code_simp
  have "map s_day [\<lparr>s_day = 738886, s_sys = 120, s_dia = 80, s_pulse = 70, s_weight = 150, s_temp = 98, s_notes = ''a''\<rparr>, \<lparr>s_day = 738887, s_sys = 0, s_dia = 0, s_pulse = 0, s_weight = 0, s_temp = 0, s_notes = ''missing day''\<rparr>, \<lparr>s_day = 738888, s_sys = 125, s_dia = 75, s_pulse = 71, s_weight = 151, s_temp = 99, s_notes = ''b''\<rparr>] = [s_day (hd [\<lparr>s_day = 738886, s_sys = 120, s_dia = 80, s_pulse = 70, s_weight = 150, s_temp = 98, s_notes = ''a''\<rparr>, \<lparr>s_day = 738887, s_sys = 0, s_dia = 0, s_pulse = 0, s_weight = 0, s_temp = 0, s_notes = ''missing day''\<rparr>, \<lparr>s_day = 738888, s_sys = 125, s_dia = 75, s_pulse = 71, s_weight = 151, s_temp = 99, s_notes = ''b''\<rparr>])..s_day (last [\<lparr>s_day = 738886, s_sys = 120, s_dia = 80, s_pulse = 70, s_weight = 150, s_temp = 98, s_notes = ''a''\<rparr>, \<lparr>s_day = 738887, s_sys = 0, s_dia = 0, s_pulse = 0, s_weight = 0, s_temp = 0, s_notes = ''missing day''\<rparr>, \<lparr>s_day = 738888, s_sys = 125, s_dia = 75, s_pulse = 71, s_weight = 151, s_temp = 99, s_notes = ''b''\<rparr>])]"
    using show_range_dense_window [OF sr b e] by simp
  then show ?thesis using sr b e by simp
qed

theorem show_range_empty_window_witness:
  "get_data \<lparr>inp = [''n''], out = [], csv_file = Some [\<lparr>r_date = ''01/03/2024'', bp_sys = 125, bp_dia = 75, pulse_rate = 71, weight = 151, temp = 99, r_notes = ''b''\<rparr>, \<lparr>r_date = ''01/01/2024'', bp_sys = 120, bp_dia = 80, pulse_rate = 70, weight = 150, temp = 98, r_notes = ''a''\<rparr>], writable = True\<rparr> = Inr ([\<lparr>r_date = DT \<lparr>d_year = 2024, d_month = 1, d_day = 3\<rparr>, bp_sys = 125, bp_dia = 75, pulse_rate = 71, weight = 151, temp = 99, r_notes = ''b''\<rparr>, \<lparr>r_date = DT \<lparr>d_year = 2024, d_month = 1, d_day = 1\<rparr>, bp_sys = 120, bp_dia = 80, pulse_rate = 70, weight = 150, temp = 98, r_notes = ''a''\<rparr>], \<lparr>inp = [''n''], out = [], csv_file = Some [\<lparr>r_date = ''01/03/2024'', bp_sys = 125, bp_dia = 75, pulse_rate = 71, weight = 151, temp = 99, r_notes = ''b''\<rparr>, \<lparr>r_date = ''01/01/2024'', bp_sys = 120, bp_dia = 80, pulse_rate = 70, weight = 150, temp = 98, r_notes = ''a''\<rparr>], writable = True\<rparr>) \<and>
   to_datetime_mdY (map r_date [\<lparr>r_date = DT \<lparr>d_year = 2024, d_month = 1, d_day = 3\<rparr>, bp_sys = 125, bp_dia = 75, pulse_rate = 71, weight = 151, temp = 99, r_notes = ''b''\<rparr>, \<lparr>r_date = DT \<lparr>d_year = 2024, d_month = 1, d_day = 1\<rparr>, bp_sys = 120, bp_dia = 80, pulse_rate = 70, weight = 150, temp = 98, r_notes = ''a''\<rparr>])
     = Inr [\<lparr>d_year = 2024, d_month = 1, d_day = 3\<rparr>, \<lparr>d_year = 2024, d_month = 1, d_day = 1\<rparr>] \<and>
   show_range ''02/01/2024'' ''02/29/2024'' \<lparr>inp = [''n''], out = [], csv_file = Some [\<lparr>r_date = ''01/03/2024'', bp_sys = 125, bp_dia = 75, pulse_rate = 71, weight = 151, temp = 99, r_notes = ''b''\<rparr>, \<lparr>r_date = ''01/01/2024'', bp_sys = 120, bp_dia = 80, pulse_rate = 70, weight = 150, temp = 98, r_notes = ''a''\<rparr>], writable = True\<rparr>
     = Inr (([], None), print_line ''No entries found within given range.'' \<lparr>inp = [''n''], out = [], csv_file = Some [\<lparr>r_date = ''01/03/2024'', bp_sys = 125, bp_dia = 75, pulse_rate = 71, weight = 151, temp = 99, r_notes = ''b''\<rparr>, \<lparr>r_date = ''01/01/2024'', bp_sys = 120, bp_dia = 80, pulse_rate = 70, weight = 150, temp = 98, r_notes = ''a''\<rparr>], writable = True\<rparr>)"
proof -
  have g: "get_data \<lparr>inp = [''n''], out = [], csv_file = Some [\<lparr>r_date = ''01/03/2024'', bp_sys = 125, bp_dia = 75, pulse_rate = 71, weight = 151, temp = 99, r_notes = ''b''\<rparr>, \<lparr>r_date = ''01/01/2024'', bp_sys = 120, bp_dia = 80, pulse_rate = 70, weight = 150, temp = 98, r_notes = ''a''\<rparr>], writable = True\<rparr> = Inr ([\<lparr>r_date = DT \<lparr>d_year = 2024, d_month = 1, d_day = 3\<rparr>, bp_sys = 125, bp_dia = 75, pulse_rate = 71, weight = 151, temp = 99, r_notes = ''b''\<rparr>, \<lparr>r_date = DT \<lparr>d_year = 2024, d_month = 1, d_day = 1\<rparr>, bp_sys = 120, bp_dia = 80, pulse_rate = 70, weight = 150, temp = 98, r_notes = ''a''\<rparr>], \<lparr>inp = [''n''], out = [], csv_file = Some [\<lparr>r_date = ''01/03/2024'', bp_sys = 125, bp_dia = 75, pulse_rate = 71, weight = 151, temp = 99, r_notes = ''b''\<rparr>, \<lparr>r_date = ''01/01/2024'', bp_sys = 120, bp_dia = 80, pulse_rate = 70, weight = 150, temp = 98, r_notes = ''a''\<rparr>], writable = True\<rparr>)"
    by code_simp
  have d: "to_datetime_mdY (map r_date [\<lparr>r_date = DT \<lparr>d_year = 2024, d_month = 1, d_day = 3\<rparr>, bp_sys = 125, bp_dia = 75, pulse_rate = 71, weight = 151, temp = 99, r_notes = ''b''\<rparr>, \<lparr>r_date = DT \<lparr>d_year = 2024, d_month = 1, d_day = 1\<rparr>, bp_sys = 120, bp_dia = 80, pulse_rate = 70, weight = 150, temp = 98, r_notes = ''a''\<rparr>])
     = Inr [\<lparr>d_year = 2024, d_month = 1, d_day = 3\<rparr>, \<lparr>d_year = 2024, d_month = 1, d_day = 1\<rparr>]"
    by code_simp
  have b: "strptime_mdY ''02/01/2024'' = Some \<lparr>d_year = 2024, d_month = 2, d_day = 1\<rparr>" by code_simp
  have e: "strptime_mdY ''02/29/2024'' = Some \<lparr>d_year = 2024, d_month = 2, d_day = 29\<rparr>" by code_simp
  have o: "\<forall>dt\<in>set [\<lparr>d_year = 2024, d_month = 1, d_day = 3\<rparr>, \<lparr>d_year = 2024, d_month = 1, d_day = 1\<rparr>].
      date_ordinal dt < date_ordinal \<lparr>d_year = 2024, d_month = 2, d_day = 1\<rparr> \<or>
      date_ordinal \<lparr>d_year = 2024, d_month = 2, d_day = 29\<rparr> < date_ordinal dt"
    by code_simp
  show ?thesis using show_range_empty_window [OF g d b e o] g d by simp
qed

theorem show_range_chart_on_yes_witness:
  "show_range ''01/01/2024'' ''01/31/2024'' \<lparr>inp = [''Y''], out = [], csv_file = Some [\<lparr>r_date = ''01/03/2024'', bp_sys = 125, bp_dia = 75, pulse_rate = 71, weight = 151, temp = 99, r_notes = ''b''\<rparr>, \<lparr>r_date = ''01/01/2024'', bp_sys = 120, bp_dia = 80, pulse_rate = 70, weight = 150, temp = 98, r_notes = ''a''\<rparr>], writable = True\<rparr> =
     Inr (([\<lparr>s_day = 738886, s_sys = 120, s_dia = 80, s_pulse = 70, s_weight = 150, s_temp = 98, s_notes = ''a''\<rparr>, \<lparr>s_day = 738887, s_sys = 0, s_dia = 0, s_pulse = 0, s_weight = 0, s_temp = 0, s_notes = ''missing day''\<rparr>, \<lparr>s_day = 738888, s_sys = 125, s_dia = 75, s_pulse = 71, s_weight = 151, s_temp = 99, s_notes = ''b''\<rparr>], Some (vitals_display [\<lparr>s_day = 738886, s_sys = 120, s_dia = 80, s_pulse = 70, s_weight = 150, s_temp = 98, s_notes = ''a''\<rparr>, \<lparr>s_day = 738887, s_sys = 0, s_dia = 0, s_pulse = 0, s_weight = 0, s_temp = 0, s_notes = ''missing day''\<rparr>, \<lparr>s_day = 738888, s_sys = 125, s_dia = 75, s_pulse = 71, s_weight = 151, s_temp = 99, s_notes = ''b''\<rparr>] ''01/01/2024'' ''01/31/2024'')), \<lparr>inp = [], out = [''Here are the most recent 10 entries from 01/01/2024 to 01/31/2024''], csv_file = Some [\<lparr>r_date = ''01/03/2024'', bp_sys = 125, bp_dia = 75, pulse_rate = 71, weight = 151, temp = 99, r_notes = ''b''\<rparr>, \<lparr>r_date = ''01/01/2024'', bp_sys = 120, bp_dia = 80, pulse_rate = 70, weight = 150, temp = 98, r_notes = ''a''\<rparr>], writable = True\<rparr>) \<and> [\<lparr>s_day = 738886, s_sys = 120, s_dia = 80, s_pulse = 70, s_weight = 150, s_temp = 98, s_notes = ''a''\<rparr>, \<lparr>s_day = 738887, s_sys = 0, s_dia = 0, s_pulse = 0, s_weight = 0, s_temp = 0, s_notes = ''missing day''\<rparr>, \<lparr>s_day = 738888, s_sys = 125, s_dia = 75, s_pulse = 71, s_weight = 151, s_temp = 99, s_notes = ''b''\<rparr>] \<noteq> [] \<and>
   (\<exists>answer. inp \<lparr>inp = [''Y''], out = [], csv_file = Some [\<lparr>r_date = ''01/03/2024'', bp_sys = 125, bp_dia = 75, pulse_rate = 71, weight = 151, temp = 99, r_notes = ''b''\<rparr>, \<lparr>r_date = ''01/01/2024'', bp_sys = 120, bp_dia = 80, pulse_rate = 70, weight = 150, temp = 98, r_notes = ''a''\<rparr>], writable = True\<rparr> = answer # inp \<lparr>inp = [], out = [''Here are the most recent 10 entries from 01/01/2024 to 01/31/2024''], csv_file = Some [\<lparr>r_date = ''01/03/2024'', bp_sys = 125, bp_dia = 75, pulse_rate = 71, weight = 151, temp = 99, r_notes = ''b''\<rparr>, \<lparr>r_date = ''01/01/2024'', bp_sys = 120, bp_dia = 80, pulse_rate = 70, weight = 150, temp = 98, r_notes = ''a''\<rparr>], writable = True\<rparr> \<and> py_lower answer = ''y'')"
proof -
  have sr: "show_range ''01/01/2024'' ''01/31/2024'' \<lparr>inp = [''Y''], out = [], csv_file = Some [\<lparr>r_date = ''01/03/2024'', bp_sys = 125, bp_dia = 75, pulse_rate = 71, weight = 151, temp = 99, r_notes = ''b''\<rparr>, \<lparr>r_date = ''01/01/2024'', bp_sys = 120, bp_dia = 80, pulse_rate = 70, weight = 150, temp = 98, r_notes = ''a''\<rparr>], writable = True\<rparr> =
     Inr (([\<lparr>s_day = 738886, s_sys = 120, s_dia = 80, s_pulse = 70, s_weight = 150, s_temp = 98, s_notes = ''a''\<rparr>, \<lparr>s_day = 738887, s_sys = 0, s_dia = 0, s_pulse = 0, s_weight = 0, s_temp = 0, s_notes = ''missing day''\<rparr>, \<lparr>s_day = 738888, s_sys = 125, s_dia = 75, s_pulse = 71, s_weight = 151, s_temp = 99, s_notes = ''b''\<rparr>], Some (vitals_display [\<lparr>s_day = 738886, s_sys = 120, s_dia = 80, s_pulse = 70, s_weight = 150, s_temp = 98, s_notes = ''a''\<rparr>, \<lparr>s_day = 738887, s_sys = 0, s_dia = 0, s_pulse = 0, s_weight = 0, s_temp = 0, s_notes = ''missing day''\<rparr>, \<lparr>s_day = 738888, s_sys = 125, s_dia = 75, s_pulse = 71, s_weight = 151, s_temp = 99, s_notes = ''b''\<rparr>] ''01/01/2024'' ''01/31/2024'')), \<lparr>inp = [], out = [''Here are the most recent 10 entries from 01/01/2024 to 01/31/2024''], csv_file = Some [\<lparr>r_date = ''01/03/2024'', bp_sys = 125, bp_dia = 75, pulse_rate = 71, weight = 151, temp = 99, r_notes = ''b''\<rparr>, \<lparr>r_date = ''01/01/2024'', bp_sys = 120, bp_dia = 80, pulse_rate = 70, weight = 150, temp = 98, r_notes = ''a''\<rparr>], writable = True\<rparr>)" by code_simp
  have n: "[\<lparr>s_day = 738886, s_sys = 120, s_dia = 80, s_pulse = 70, s_weight = 150, s_temp = 98, s_notes = ''a''\<rparr>, \<lparr>s_day = 738887, s_sys = 0, s_dia = 0, s_pulse = 0, s_weight = 0, s_temp = 0, s_notes = ''missing day''\<rparr>, \<lparr>s_day = 738888, s_sys = 125, s_dia = 75, s_pulse = 71, s_weight = 151, s_temp = 99, s_notes = ''b''\<rparr>] \<noteq> []" by simp
  have l: "py_lower ''Y'' = ''y''" by code_simp
  from show_range_chart_on_yes [OF sr n] sr n l show ?thesis by auto
qed

theorem show_range_out_of_bounds_witness:
  "csv_file \<lparr>inp = [], out = [], csv_file = Some [with_date ''01/05/1500'' jan5_row], writable = True\<rparr>
     = Some [with_date ''01/05/1500'' jan5_row] \<and>
   list_all (\<lambda>r. is_integral (weight r)) [with_date ''01/05/1500'' jan5_row] \<and>
   those (map (\<lambda>r. strptime_mdY (r_date r)) [with_date ''01/05/1500'' jan5_row])
     = Some [\<lparr>d_year = 1500, d_month = 1, d_day = 5\<rparr>] \<and>
   \<not> list_all in_ns_range [\<lparr>d_year = 1500, d_month = 1, d_day = 5\<rparr>] \<and>
   show_range ''01/01/1500'' ''12/31/2024''
     \<lparr>inp = [], out = [], csv_file = Some [with_date ''01/05/1500'' jan5_row], writable = True\<rparr>
     = Inl (ValueError OutOfBoundsDatetime)"
proof -
  have f: "csv_file \<lparr>inp = [], out = [], csv_file = Some [with_date ''01/05/1500'' jan5_row], writable = True\<rparr>
     = Some [with_date ''01/05/1500'' jan5_row]" by simp
  have i: "list_all (\<lambda>r. is_integral (weight r)) [with_date ''01/05/1500'' jan5_row]"
    by (simp add: is_integral_def)
  have th: "those (map (\<lambda>r. strptime_mdY (r_date r)) [with_date ''01/05/1500'' jan5_row])
     = Some [\<lparr>d_year = 1500, d_month = 1, d_day = 5\<rparr>]" by code_simp
  have r: "\<not> list_all in_ns_range [\<lparr>d_year = 1500, d_month = 1, d_day = 5\<rparr>]" by code_simp
  show ?thesis using show_range_out_of_bounds [OF f i th r, of "''01/01/1500''" "''12/31/2024''"] f i th r
    by simp
qed

end
