(* ===== verification/Menu.thy ===== *)
theory Menu
  imports Entry Materializer
begin

text \<open>
  One round of the \<open>while True\<close> loop of \<open>main()\<close> (\<open>src/main.py\<close> lines 254--273):
  print the menu, read the choice, and run the entry (\<open>1\<close>), ask for two dates and show
  the range (\<open>2\<close>), leave (\<open>3\<close>), or report an invalid choice. A round ends by going
  round again or by leaving; an exception of a called function ends the program. The
  lemmas show that a completed round has read at least the choice line and keeps the data
  invariant of \<open>Entry\<close>.
\<close>

section \<open>The loop body\<close>

datatype round_end = Continue | Leave

text \<open>Lines 256--259 (the first line starts with a newline).\<close>

definition print_menu :: "'c console_scheme \<Rightarrow> 'c console_scheme" where
  "print_menu c =
     print_line ''3. Exit''
       (print_line ''2. View records in a date range.''
         (print_line ''1. Add new entry.''
           (print_line (CHR 0x0A # ''Please choose from the following options.'') c)))"

definition menu_text :: "string list" where
  "menu_text = [CHR 0x0A # ''Please choose from the following options.'', ''1. Add new entry.'',
                ''2. View records in a date range.'', ''3. Exit'']"

definition menu_round :: "date \<Rightarrow> nat \<Rightarrow> (string \<Rightarrow> pyfloat option) \<Rightarrow> ('s store_scheme, round_end) py" where
  "menu_round today depth py_float_of c =
     (case read_line (print_menu c) of
        Inl e \<Rightarrow> Inl e
      | Inr (choice, c1) \<Rightarrow>
          if choice = ''1'' then bind_py (new_entry today depth py_float_of) (\<lambda>_ c2. Inr (Continue, c2)) c1
          else if choice = ''2'' then
            bind_py (get_date True today) (\<lambda>begin_date.
            bind_py (get_date True today) (\<lambda>end_date.
            bind_py (show_range begin_date end_date) (\<lambda>_ c2. Inr (Continue, c2)))) c1
          else if choice = ''3'' then Inr (Leave, print_line ''Now leaving the program.'' c1)
          else Inr (Continue, print_line ''Invalid entry. Please select 1, 2 or 3'' c1))"

section \<open>Lemmas: the menu\<close>

lemma print_menu_eq: "print_menu c = c\<lparr>out := out c @ menu_text\<rparr>"
  by (simp add: print_menu_def menu_text_def print_line_def)

lemma inp_print_menu [simp]: "inp (print_menu c) = inp c"
  by (simp add: print_menu_eq)

lemma console_step_print_menu: "console_step c (print_menu c)"
  by (simp add: print_menu_def console_step_print_right)

lemma menu_round_Cons:
  "inp c = choice # rest \<Longrightarrow> menu_round today depth f c =
     (let c1 = (print_menu c)\<lparr>inp := rest\<rparr> in
      if choice = ''1'' then bind_py (new_entry today depth f) (\<lambda>_ c2. Inr (Continue, c2)) c1
      else if choice = ''2'' then
        bind_py (get_date True today) (\<lambda>begin_date.
        bind_py (get_date True today) (\<lambda>end_date.
        bind_py (show_range begin_date end_date) (\<lambda>_ c2. Inr (Continue, c2)))) c1
      else if choice = ''3'' then Inr (Leave, print_line ''Now leaving the program.'' c1)
      else Inr (Continue, print_line ''Invalid entry. Please select 1, 2 or 3'' c1))"
  by (simp add: menu_round_def Let_def)

lemma menu_round_Nil: "inp c = [] \<Longrightarrow> menu_round today depth f c = Inl EOFError"
  by (simp add: menu_round_def)

lemma show_range_ends:
  assumes "show_range b e w = Inr (fr, w')"
  shows "\<exists>df s. get_data w = Inr (df, s) \<and>
     (w' = print_line ''No entries found within given range.'' s \<or>
      (\<exists>h a. read_line (print_line h s) = Inr (a, w')))"
proof (cases "get_data w")
  case (Inl err)
  with assms show ?thesis by (simp add: show_range_def)
next
  case (Inr p)
  obtain df s where p: "p = (df, s)" by (cases p)
  from assms Inr p show ?thesis
    unfolding show_range_def
    by (auto simp: Let_def simp del: print_line_def split: option.split_asm if_split_asm sum.split_asm prod.split_asm)
qed

lemma show_range_state:
  assumes "show_range b e w = Inr (fr, w')"
  shows "\<exists>df s. get_data w = Inr (df, s) \<and> console_step s w'"
proof -
  from show_range_ends [OF assms] obtain df s where g: "get_data w = Inr (df, s)"
    and alt: "w' = print_line ''No entries found within given range.'' s \<or>
              (\<exists>h a. read_line (print_line h s) = Inr (a, w'))"
    by blast
  from alt have "console_step s w'"
  proof
    assume "w' = print_line ''No entries found within given range.'' s"
    then show ?thesis by simp
  next
    assume "\<exists>h a. read_line (print_line h s) = Inr (a, w')"
    then obtain h a where r: "read_line (print_line h s) = Inr (a, w')" by blast
    have "console_step s (print_line h s)" by simp
    also from r have "console_step (print_line h s) w'" by (rule console_step_read)
    finally show ?thesis .
  qed
  with g show ?thesis by blast
qed

lemma show_range_suffix: "show_range b e w = Inr (fr, w') \<Longrightarrow> suffix (inp w') (inp w)"
proof -
  assume "show_range b e w = Inr (fr, w')"
  from show_range_state [OF this] obtain df s where g: "get_data w = Inr (df, s)" and st: "console_step s w'"
    by blast
  from st get_data_Inr [OF g] show ?thesis by (simp add: console_step_def)
qed

lemma show_range_vitals_inv: "vitals_inv w \<Longrightarrow> show_range b e w = Inr (fr, w') \<Longrightarrow> vitals_inv w'"
proof -
  assume inv: "vitals_inv w" and "show_range b e w = Inr (fr, w')"
  from show_range_state [OF this(2)] obtain df s where g: "get_data w = Inr (df, s)" and st: "console_step s w'"
    by blast
  from get_data_vitals_inv [OF inv g] st show ?thesis by (simp add: vitals_inv_console_step)
qed

lemma vitals_inv_print_line [simp]: "vitals_inv (print_line m w) = vitals_inv w"
  by (simp add: vitals_inv_def print_line_def)

lemma vitals_inv_menu_input [simp]: "vitals_inv ((print_menu c)\<lparr>inp := rest\<rparr>) = vitals_inv c"
  by (simp add: vitals_inv_def print_menu_eq)

lemma menu_round_Inr_cases:
  assumes "menu_round today depth f c = Inr (r, c')"
  obtains (entry) rest u where "inp c = ''1'' # rest" and "r = Continue"
      and "new_entry today depth f ((print_menu c)\<lparr>inp := rest\<rparr>) = Inr (u, c')"
  | (range) rest b c2 e c3 fr where "inp c = ''2'' # rest" and "r = Continue"
      and "get_date True today ((print_menu c)\<lparr>inp := rest\<rparr>) = Inr (b, c2)"
      and "get_date True today c2 = Inr (e, c3)" and "show_range b e c3 = Inr (fr, c')"
  | (leave) rest where "inp c = ''3'' # rest" and "r = Leave"
      and "c' = print_line ''Now leaving the program.'' ((print_menu c)\<lparr>inp := rest\<rparr>)"
  | (invalid) ch rest where "inp c = ch # rest" and "ch \<noteq> ''1''" and "ch \<noteq> ''2''" and "ch \<noteq> ''3''"
      and "r = Continue" and "c' = print_line ''Invalid entry. Please select 1, 2 or 3'' ((print_menu c)\<lparr>inp := rest\<rparr>)"
proof (cases "inp c")
  case Nil
  with assms show ?thesis by (simp add: menu_round_Nil)
next
  case (Cons ch rest)
  note round = assms [unfolded menu_round_Cons [OF Cons] Let_def]
  show ?thesis
  proof (cases "ch = ''1''")
    case True
    with round Cons show ?thesis by (auto simp: bind_py_Inr_iff intro: entry)
  next
    case n1: False
    show ?thesis
    proof (cases "ch = ''2''")
      case True
      with round Cons show ?thesis by (auto simp: bind_py_Inr_iff intro: range)
    next
      case n2: False
      show ?thesis
      proof (cases "ch = ''3''")
        case True
        with round Cons show ?thesis by (auto intro: leave)
      next
        case False
        with n1 n2 round Cons show ?thesis by (auto intro: invalid)
      qed
    qed
  qed
qed

lemma menu_round_reads:
  assumes "menu_round today depth f c = Inr (r, c')"
  shows "\<exists>ch rest. inp c = ch # rest \<and> suffix (inp c') rest \<and> (r = Leave \<longleftrightarrow> ch = ''3'')"
  using assms
proof (cases rule: menu_round_Inr_cases)
  case (entry rest u)
  with new_entry_suffix [OF entry(3)] show ?thesis by simp
next
  case (range rest b c2 e c3 fr)
  have "suffix (inp c2) rest" using get_date_step [OF range(3)] by (simp add: console_step_def)
  moreover have "suffix (inp c3) (inp c2)" using get_date_step [OF range(4)] by (simp add: console_step_def)
  moreover have "suffix (inp c') (inp c3)" using range(5) by (rule show_range_suffix)
  ultimately show ?thesis using range(1,2) by (auto intro: suffix_order.trans)
qed simp_all

lemma menu_round_shorter: "menu_round today depth f c = Inr (r, c') \<Longrightarrow> length (inp c') < length (inp c)"
  by (auto dest!: menu_round_reads dest: suffix_length_le)

lemma menu_round_vitals_inv:
  assumes "vitals_inv c" and "menu_round today depth f c = Inr (r, c')"
  shows "vitals_inv c'"
  using assms(2)
proof (cases rule: menu_round_Inr_cases)
  case (entry rest u)
  from assms(1) have "vitals_inv ((print_menu c)\<lparr>inp := rest\<rparr>)" by simp
  then show ?thesis using entry(3) by (rule new_entry_vitals_inv)
next
  case (range rest b c2 e c3 fr)
  from assms(1) have "vitals_inv ((print_menu c)\<lparr>inp := rest\<rparr>)" by simp
  then have "vitals_inv c3"
    using get_date_step [OF range(3)] get_date_step [OF range(4)] by (simp add: vitals_inv_console_step)
  then show ?thesis using range(5) by (rule show_range_vitals_inv)
qed (use assms(1) in simp_all)

end
