(* ===== verification/App.thy ===== *)
theory App
  imports Menu
begin

text \<open>
  \<open>main()\<close> (\<open>src/main.py\<close> lines 246--273): the \<open>while True\<close> loop over
  \<open>Menu.menu_round\<close>, left by \<open>break\<close> after choice \<open>3\<close> or by an exception. The loop
  is a \<open>function\<close> whose termination rests on a round reading at least its choice line.
  The states between rounds are the relation \<open>menu_run\<close>; the data invariant of
  \<open>Entry\<close> holds in all of them, including the last one before an exception.
\<close>

section \<open>The main loop\<close>

function main_loop :: "date \<Rightarrow> nat \<Rightarrow> (string \<Rightarrow> pyfloat option) \<Rightarrow> ('s store_scheme, unit) py" where
  "main_loop today depth py_float_of c =
     (case menu_round today depth py_float_of c of
        Inl e \<Rightarrow> Inl e
      | Inr (Leave, c') \<Rightarrow> Inr ((), c')
      | Inr (Continue, c') \<Rightarrow> main_loop today depth py_float_of c')"
  by pat_completeness auto
termination
  by (relation "measure (\<lambda>(today, depth, f, c). length (inp c))") (auto dest: menu_round_shorter)

declare main_loop.simps [simp del]

text \<open>The states the loop passes through between rounds, from the state it starts in.\<close>

inductive menu_run ::
  "date \<Rightarrow> nat \<Rightarrow> (string \<Rightarrow> pyfloat option) \<Rightarrow> 's store_scheme \<Rightarrow> 's store_scheme \<Rightarrow> bool"
  for today depth py_float_of c0 where
  start: "menu_run today depth py_float_of c0 c0"
| round: "menu_run today depth py_float_of c0 c1 \<Longrightarrow> menu_round today depth py_float_of c1 = Inr (Continue, c2) \<Longrightarrow>
          menu_run today depth py_float_of c0 c2"

section \<open>Lemmas: runs of the loop\<close>

lemma menu_run_prepend:
  assumes "menu_run today depth f c2 c1" and "menu_round today depth f c = Inr (Continue, c2)"
  shows "menu_run today depth f c c1"
  using assms(1)
proof (induction rule: menu_run.induct)
  case start
  show ?case by (rule menu_run.round [OF menu_run.start assms(2)])
next
  case (round c1 c3)
  then show ?case by (blast intro: menu_run.round)
qed

lemma menu_run_suffix: "menu_run today depth f c c1 \<Longrightarrow> suffix (inp c1) (inp c)"
proof (induction rule: menu_run.induct)
  case start
  show ?case by simp
next
  case (round c1 c2)
  from menu_round_reads [OF round.hyps(2)] obtain ch rest where
    "inp c1 = ch # rest" and "suffix (inp c2) rest" by blast
  then have "suffix (inp c2) (inp c1)" by (simp add: suffix_ConsI)
  from this round.IH show ?case by (rule suffix_order.trans)
qed

lemma main_loop_Inr:
  "main_loop today depth f c = Inr (u, c') \<Longrightarrow>
     \<exists>c1. menu_run today depth f c c1 \<and> menu_round today depth f c1 = Inr (Leave, c')"
proof (induction today depth f c rule: main_loop.induct)
  case (1 today depth f c)
  show ?case
  proof (cases "menu_round today depth f c")
    case (Inl e)
    with "1.prems" show ?thesis by (simp add: main_loop.simps [of today depth f c])
  next
    case (Inr p)
    obtain r c2 where p: "p = (r, c2)" by (cases p)
    show ?thesis
    proof (cases r)
      case Continue
      with "1.prems" Inr p have "main_loop today depth f c2 = Inr (u, c')"
        by (simp add: main_loop.simps [of today depth f c])
      with "1.IH" [OF Inr [unfolded p Continue] refl] obtain c1 where
        "menu_run today depth f c2 c1" and "menu_round today depth f c1 = Inr (Leave, c')"
        by (auto simp: p Continue)
      with Inr p Continue show ?thesis by (blast intro: menu_run_prepend)
    next
      case Leave
      with "1.prems" Inr p show ?thesis
        by (auto simp: main_loop.simps [of today depth f c] intro: menu_run.start)
    qed
  qed
qed

lemma menu_run_vitals_inv:
  "menu_run today depth f c c' \<Longrightarrow> vitals_inv c \<Longrightarrow> vitals_inv c'"
proof (induction rule: menu_run.induct)
  case start
  then show ?case by blast
next
  case (round c1 c2)
  then show ?case by (blast intro: menu_round_vitals_inv)
qed

lemma menu_round_Leave:
  assumes "menu_round today depth f c = Inr (Leave, c')"
  shows "\<exists>rest. inp c = ''3'' # rest \<and> c' = print_line ''Now leaving the program.'' ((print_menu c)\<lparr>inp := rest\<rparr>)"
  using assms by (cases rule: menu_round_Inr_cases) simp_all

lemma main_loop_leave:
  assumes "main_loop today depth f c = Inr (u, c')"
  shows "\<exists>pre rest. inp c = pre @ ''3'' # rest \<and> inp c' = rest \<and> last (out c') = ''Now leaving the program.''"
proof -
  from main_loop_Inr [OF assms] obtain c1 where
    run: "menu_run today depth f c c1" and lv: "menu_round today depth f c1 = Inr (Leave, c')"
    by blast
  from menu_round_Leave [OF lv] obtain rest where
    i: "inp c1 = ''3'' # rest" and c': "c' = print_line ''Now leaving the program.'' ((print_menu c1)\<lparr>inp := rest\<rparr>)"
    by blast
  from menu_run_suffix [OF run] obtain pre where "inp c = pre @ inp c1" by (auto simp: suffix_def)
  with i c' show ?thesis by auto
qed

lemma get_data_fractional:
  "csv_file w = Some rows \<Longrightarrow> \<not> list_all (\<lambda>r. is_integral (weight r)) rows \<Longrightarrow>
     get_data w = Inl (ValueError DtypeCastError)"
  by (simp add: get_data_def read_table_def)

section \<open>Properties of the application\<close>

text \<open>
  C27. \<open>main()\<close> returns normally only by option 3: the input up to then contains a line
  \<open>3\<close>, nothing after it has been read, and the last line printed is
  \<open>Now leaving the program.\<close>
\<close>

theorem main_loop_exit:
  "main_loop today depth f c = Inr (u, c') \<Longrightarrow>
     \<exists>pre rest. inp c = pre @ ''3'' # rest \<and> inp c' = rest \<and> last (out c') = ''Now leaving the program.''"
  by (rule main_loop_leave)

text \<open>
  C28. Every state the loop reaches between rounds keeps the data invariant (every stored
  value within the validated ranges), including the last one before an exception ends the
  program.
\<close>

theorem menu_run_keeps_inv:
  "vitals_inv c \<Longrightarrow> menu_run today depth f c c' \<Longrightarrow> vitals_inv c'"
  by (rule menu_run_vitals_inv)

text \<open>
  C29. Once the file holds a fractional weight (which an entry appending a weight like
  150.5 writes), option 1 fails at once with the \<open>ValueError\<close> of the integer cast and
  option 2 cannot complete: the user can no longer add or view records.
\<close>

theorem fractional_weight_locks_out:
  assumes "csv_file c = Some rows" and "\<not> list_all (\<lambda>r. is_integral (weight r)) rows"
    and "inp c = ch # rest"
  shows "(ch = ''1'' \<longrightarrow> menu_round today depth f c = Inl (ValueError DtypeCastError)) \<and>
         (ch = ''2'' \<longrightarrow> (\<exists>e. menu_round today depth f c = Inl e))"
proof (intro conjI impI)
  let ?c1 = "(print_menu c)\<lparr>inp := rest\<rparr>"
  have f1: "csv_file ?c1 = Some rows" using assms(1) by (simp add: print_menu_eq)
  assume "ch = ''1''"
  with assms(3) get_data_fractional [OF f1 assms(2)] show "menu_round today depth f c = Inl (ValueError DtypeCastError)"
    by (simp add: menu_round_Cons new_entry_def)
next
  assume ch: "ch = ''2''"
  show "\<exists>e. menu_round today depth f c = Inl e"
  proof (cases "menu_round today depth f c")
    case (Inl e)
    then show ?thesis by blast
  next
    case (Inr p)
    then have "menu_round today depth f c = Inr (fst p, snd p)" by simp
    then show ?thesis
    proof (cases rule: menu_round_Inr_cases)
      case (range rest' b c2 e c3 fr)
      from range(1) assms(3) have "rest' = rest" by simp
      with assms(1) have "csv_file ((print_menu c)\<lparr>inp := rest'\<rparr>) = Some rows" by (simp add: print_menu_eq)
      then have "csv_file c3 = Some rows"
        using get_date_step [OF range(3)] get_date_step [OF range(4)] by (simp add: store_console_step)
      from show_range_state [OF range(5)] get_data_fractional [OF this assms(2)] show ?thesis by simp
    qed (use assms(3) ch in simp_all)
  qed
qed

text \<open>
  C30. Invalid choices are answered and the menu is shown again; choice 3 then ends the
  program: the output is one menu and one complaint per invalid line, a last menu and the
  leaving message, and nothing after the \<open>3\<close> is read.
\<close>

theorem main_loop_invalid_then_exit:
  assumes "list_all (\<lambda>l. l \<noteq> ''1'' \<and> l \<noteq> ''2'' \<and> l \<noteq> ''3'') bad" and "inp c = bad @ ''3'' # rest"
  shows "main_loop today depth f c =
           Inr ((), c\<lparr>inp := rest, out := out c @ concat (map (\<lambda>_. menu_text @ [''Invalid entry. Please select 1, 2 or 3'']) bad)
                                      @ menu_text @ [''Now leaving the program.'']\<rparr>)"
  using assms
proof (induction bad arbitrary: c)
  case Nil
  then show ?case
    by (simp add: main_loop.simps [of today depth f c] menu_round_Cons print_menu_eq print_line_def)
next
  case (Cons l bad)
  let ?c2 = "c\<lparr>inp := bad @ ''3'' # rest, out := out c @ menu_text @ [''Invalid entry. Please select 1, 2 or 3'']\<rparr>"
  from Cons.prems have "main_loop today depth f c = main_loop today depth f ?c2"
    by (simp add: main_loop.simps [of today depth f c] menu_round_Cons print_menu_eq print_line_def)
  also have "\<dots> = Inr ((), ?c2\<lparr>inp := rest, out := out ?c2 @ concat (map (\<lambda>_. menu_text @ [''Invalid entry. Please select 1, 2 or 3'']) bad)
                                      @ menu_text @ [''Now leaving the program.'']\<rparr>)"
    using Cons.prems by (intro Cons.IH) simp_all
  finally show ?case by simp
qed

section \<open>Witnesses\<close>

theorem main_loop_exit_witness:
  "main_loop \<lparr>d_year = 2024, d_month = 3, d_day = 9\<rparr> 5 py_float \<lparr>inp = [''x'', ''3'', ''y''], out = [], csv_file = Some [jan5_row], writable = True\<rparr> =
     Inr ((), \<lparr>inp = [''x'', ''3'', ''y''], out = [], csv_file = Some [jan5_row], writable = True\<rparr>\<lparr>inp := [''y''],
       out := menu_text @ [''Invalid entry. Please select 1, 2 or 3''] @ menu_text @ [''Now leaving the program.'']\<rparr>) \<and>
   (\<exists>pre rest. inp \<lparr>inp = [''x'', ''3'', ''y''], out = [], csv_file = Some [jan5_row], writable = True\<rparr> = pre @ ''3'' # rest \<and> rest = [''y''])"
proof -
  have r: "main_loop \<lparr>d_year = 2024, d_month = 3, d_day = 9\<rparr> 5 py_float \<lparr>inp = [''x'', ''3'', ''y''], out = [], csv_file = Some [jan5_row], writable = True\<rparr> =
     Inr ((), \<lparr>inp = [''x'', ''3'', ''y''], out = [], csv_file = Some [jan5_row], writable = True\<rparr>\<lparr>inp := [''y''],
       out := menu_text @ [''Invalid entry. Please select 1, 2 or 3''] @ menu_text @ [''Now leaving the program.'']\<rparr>)"
    by code_simp
  from main_loop_exit [OF r] r show ?thesis by auto
qed

theorem menu_run_keeps_inv_witness:
  "vitals_inv \<lparr>inp = [''1'', ''3/9/2024'', ''130/85'', ''72'', ''180'', ''98.6'', []], out = [], csv_file = Some [jan5_row], writable = True\<rparr> \<and>
   menu_run \<lparr>d_year = 2024, d_month = 3, d_day = 9\<rparr> 5 py_float \<lparr>inp = [''1'', ''3/9/2024'', ''130/85'', ''72'', ''180'', ''98.6'', []], out = [], csv_file = Some [jan5_row], writable = True\<rparr> \<lparr>inp = [], out = menu_text @ [''High BP. Possibly hypertension stage 1'', ''Added new record for 03/09/2024''], csv_file = Some [with_date ''2024-01-05 00:00:00'' jan5_row, \<lparr>r_date = ''03/09/2024'', bp_sys = 130, bp_dia = 85, pulse_rate = 72, weight = 180, temp = 493 / 5, r_notes = []\<rparr>], writable = True\<rparr> \<and> vitals_inv \<lparr>inp = [], out = menu_text @ [''High BP. Possibly hypertension stage 1'', ''Added new record for 03/09/2024''], csv_file = Some [with_date ''2024-01-05 00:00:00'' jan5_row, \<lparr>r_date = ''03/09/2024'', bp_sys = 130, bp_dia = 85, pulse_rate = 72, weight = 180, temp = 493 / 5, r_notes = []\<rparr>], writable = True\<rparr>"
proof -
  have i: "vitals_inv \<lparr>inp = [''1'', ''3/9/2024'', ''130/85'', ''72'', ''180'', ''98.6'', []], out = [], csv_file = Some [jan5_row], writable = True\<rparr>" by code_simp
  have r: "menu_round \<lparr>d_year = 2024, d_month = 3, d_day = 9\<rparr> 5 py_float \<lparr>inp = [''1'', ''3/9/2024'', ''130/85'', ''72'', ''180'', ''98.6'', []], out = [], csv_file = Some [jan5_row], writable = True\<rparr> = Inr (Continue, \<lparr>inp = [], out = menu_text @ [''High BP. Possibly hypertension stage 1'', ''Added new record for 03/09/2024''], csv_file = Some [with_date ''2024-01-05 00:00:00'' jan5_row, \<lparr>r_date = ''03/09/2024'', bp_sys = 130, bp_dia = 85, pulse_rate = 72, weight = 180, temp = 493 / 5, r_notes = []\<rparr>], writable = True\<rparr>)"
    by code_simp
  have m: "menu_run \<lparr>d_year = 2024, d_month = 3, d_day = 9\<rparr> 5 py_float \<lparr>inp = [''1'', ''3/9/2024'', ''130/85'', ''72'', ''180'', ''98.6'', []], out = [], csv_file = Some [jan5_row], writable = True\<rparr> \<lparr>inp = [], out = menu_text @ [''High BP. Possibly hypertension stage 1'', ''Added new record for 03/09/2024''], csv_file = Some [with_date ''2024-01-05 00:00:00'' jan5_row, \<lparr>r_date = ''03/09/2024'', bp_sys = 130, bp_dia = 85, pulse_rate = 72, weight = 180, temp = 493 / 5, r_notes = []\<rparr>], writable = True\<rparr>"
    by (rule menu_run.round [OF menu_run.start r])
  show ?thesis using menu_run_keeps_inv [OF i m] i m by simp
qed

theorem fractional_weight_locks_out_witness:
  "csv_file \<lparr>inp = [''1'', ''3/9/2024''], out = [], csv_file = Some [\<lparr>r_date = ''01/05/2024'', bp_sys = 120, bp_dia = 80, pulse_rate = 70, weight = 301 / 2, temp = 98, r_notes = ''ok''\<rparr>], writable = True\<rparr> = Some [\<lparr>r_date = ''01/05/2024'', bp_sys = 120, bp_dia = 80, pulse_rate = 70, weight = 301 / 2, temp = 98, r_notes = ''ok''\<rparr>] \<and> \<not> list_all (\<lambda>r. is_integral (weight r)) [\<lparr>r_date = ''01/05/2024'', bp_sys = 120, bp_dia = 80, pulse_rate = 70, weight = 301 / 2, temp = 98, r_notes = ''ok''\<rparr>] \<and>
   inp \<lparr>inp = [''1'', ''3/9/2024''], out = [], csv_file = Some [\<lparr>r_date = ''01/05/2024'', bp_sys = 120, bp_dia = 80, pulse_rate = 70, weight = 301 / 2, temp = 98, r_notes = ''ok''\<rparr>], writable = True\<rparr> = ''1'' # [''3/9/2024''] \<and>
   menu_round \<lparr>d_year = 2024, d_month = 3, d_day = 9\<rparr> 5 py_float \<lparr>inp = [''1'', ''3/9/2024''], out = [], csv_file = Some [\<lparr>r_date = ''01/05/2024'', bp_sys = 120, bp_dia = 80, pulse_rate = 70, weight = 301 / 2, temp = 98, r_notes = ''ok''\<rparr>], writable = True\<rparr> = Inl (ValueError DtypeCastError)"
proof -
  have f: "csv_file \<lparr>inp = [''1'', ''3/9/2024''], out = [], csv_file = Some [\<lparr>r_date = ''01/05/2024'', bp_sys = 120, bp_dia = 80, pulse_rate = 70, weight = 301 / 2, temp = 98, r_notes = ''ok''\<rparr>], writable = True\<rparr> = Some [\<lparr>r_date = ''01/05/2024'', bp_sys = 120, bp_dia = 80, pulse_rate = 70, weight = 301 / 2, temp = 98, r_notes = ''ok''\<rparr>]" by simp
  have n: "\<not> list_all (\<lambda>r. is_integral (weight r)) [\<lparr>r_date = ''01/05/2024'', bp_sys = 120, bp_dia = 80, pulse_rate = 70, weight = 301 / 2, temp = 98, r_notes = ''ok''\<rparr>]" by code_simp
  have i: "inp \<lparr>inp = [''1'', ''3/9/2024''], out = [], csv_file = Some [\<lparr>r_date = ''01/05/2024'', bp_sys = 120, bp_dia = 80, pulse_rate = 70, weight = 301 / 2, temp = 98, r_notes = ''ok''\<rparr>], writable = True\<rparr> = ''1'' # [''3/9/2024'']" by simp
  show ?thesis using fractional_weight_locks_out [OF f n i, of "\<lparr>d_year = 2024, d_month = 3, d_day = 9\<rparr>" 5 py_float] f n i
    by simp
qed

theorem main_loop_invalid_then_exit_witness:
  "list_all (\<lambda>l. l \<noteq> ''1'' \<and> l \<noteq> ''2'' \<and> l \<noteq> ''3'') [''x'', ''4''] \<and>
   inp \<lparr>inp = [''x'', ''4'', ''3'', ''z''], out = [], csv_file = Some [jan5_row], writable = True\<rparr> = [''x'', ''4''] @ ''3'' # [''z''] \<and>
   main_loop \<lparr>d_year = 2024, d_month = 3, d_day = 9\<rparr> 5 py_float \<lparr>inp = [''x'', ''4'', ''3'', ''z''], out = [], csv_file = Some [jan5_row], writable = True\<rparr> =
     Inr ((), \<lparr>inp = [''x'', ''4'', ''3'', ''z''], out = [], csv_file = Some [jan5_row], writable = True\<rparr>\<lparr>inp := [''z''], out := menu_text @ [''Invalid entry. Please select 1, 2 or 3''] @
       menu_text @ [''Invalid entry. Please select 1, 2 or 3''] @ menu_text @ [''Now leaving the program.'']\<rparr>)"
proof -
  have b: "list_all (\<lambda>l. l \<noteq> ''1'' \<and> l \<noteq> ''2'' \<and> l \<noteq> ''3'') [''x'', ''4'']" by simp
  have i: "inp \<lparr>inp = [''x'', ''4'', ''3'', ''z''], out = [], csv_file = Some [jan5_row], writable = True\<rparr> = [''x'', ''4''] @ ''3'' # [''z'']" by simp
  show ?thesis using main_loop_invalid_then_exit [OF b i, of "\<lparr>d_year = 2024, d_month = 3, d_day = 9\<rparr>" 5 py_float] b i
    by simp
qed

end
