(* ===== verification/Spec2Isabelle.thy ===== *)
theory Spec2Isabelle
  imports App
begin

text \<open>
  \<^bold>\<open>A verification model of VitalSignsTracker.\<close>

  The program (\<open>src/main.py\<close>, \<open>src/AddData.py\<close>) records daily vital signs
  (blood pressure, pulse, weight, temperature, notes) in \<open>vitals.csv\<close> and shows a
  date range of them. Its parts, and the theories that model them:

  \<^item> \<open>Prelude\<close>: the Python errors that can escape (\<open>EOFError\<close>,
    \<open>RecursionError\<close>, \<open>PermissionError\<close>, \<open>ValueError\<close> with its causes), the
    string functions the code calls (\<open>split\<close>, \<open>isnumeric\<close>, \<open>strip\<close>,
    \<open>upper\<close>, \<open>int\<close>, \<open>str\<close>) on ASCII strings, element-wise conversion that
    stops at the first error, and the console: a record of the lines still to be typed and
    the lines printed, threaded through every function as explicit state. A function of
    the program is a function from that state to an error or a result and the next state.
  \<^item> \<open>Dates\<close>: the \<open>mm/dd/yyyy\<close> text of \<open>datetime.strptime\<close> and
    \<open>strftime\<close>. The parser follows CPython's \<open>_strptime\<close> patterns for \<open>%m\<close>,
    \<open>%d\<close>, \<open>%Y\<close>; the day count follows \<open>datetime\<close>'s \<open>_ymd2ord\<close> and is
    shown to order dates as Python compares them.
  \<^item> \<open>Validator\<close> (\<open>src/AddData.py\<close>): \<open>get_date\<close>, \<open>get_bp\<close>,
    \<open>validate_numeric_input\<close> and its three wrappers, \<open>get_notes\<close>. Each is one
    definition with the source's branches in the source's order. The \<open>while True\<close>
    loops are functions terminating on the number of lines left (running out is
    \<open>EOFError\<close>). \<open>get_bp\<close> recurses on a bad line, so its model carries the
    number of stack frames left; \<open>bp_loop\<close> is the loop the spec (section 9) asks
    for. Shown: \<open>get_bp\<close> returns the first acceptable pair (C1); with frames to spare
    it equals the loop (C2); enough rejected lines exhaust the stack (C3); the crisis
    branch of the classification is dead (C4); \<open>get_date\<close> returns canonical dates
    (C5); the numeric prompt returns values within its bounds for any float parser (C6);
    without an acceptable line \<open>get_bp\<close> ends in \<open>EOFError\<close> (C7); the normal
    class is exactly both values below their thresholds (C8); a diastolic value from 80 to
    90 is reported as stage 1 whatever the systolic value (C9).
  \<^item> \<open>Store\<close> (\<open>csv_source.get_data\<close>, \<open>add_or_update_record\<close>): the state is
    extended with the file \<open>vitals.csv\<close> (absent, or its rows of text) and whether it
    can be written. A row is a record \<open>'d vrow\<close> whose date column has type \<open>'d\<close>:
    text in the file, a \<open>dcell\<close> (a datetime \<open>DT\<close> or a text \<open>TXT\<close>) once
    loaded. \<open>get_data\<close> is \<open>read_csv\<close> with the dtypes of \<open>DATA_DICT\<close> (an
    integer column holding a fraction fails the cast), the default missing-value strings
    (such notes read back empty) and \<open>parse_dates=["date"]\<close> (\<open>parse_date_column\<close>:
    the format is guessed from the first text among \<open>%m/%d/%Y\<close>, \<open>%Y-%m-%d\<close> and
    \<open>%Y-%m-%d %H:%M:%S\<close>; the column becomes datetimes only when every text parses
    with it to a date of the \<open>datetime64[ns]\<close> range, otherwise it stays text).
    \<open>to_csv\<close> writes a column of datetimes as \<open>YYYY-MM-DD\<close> and a datetime in a
    mixed column as \<open>str(Timestamp)\<close>. \<open>to_datetime_mdY\<close> is line 65's
    \<open>pd.to_datetime(..., format="%m/%d/%Y")\<close>. \<open>add_or_update_record\<close> looks for
    the entered text among the loaded cells (line 134), updates or appends, then writes.
    Shown: on a parsed file every entry is appended, even for a date already on file (C10);
    an entry appended to a non-empty parsed file leaves a date column that can no longer
    be converted (C11); a failed write leaves the file unchanged (C12); an appended
    fractional weight makes the next load fail (C13); the update branch, reached only on a
    column left as text, also prints the \<open>Added new record\<close> line (C14).
  \<^item> \<open>Frame\<close> (lines 69--90 of \<open>csv_source.show_range\<close>): the rows inside the
    window, resampled to one slot per calendar day between the first and the last kept
    row with zero fill, and all-zero slots marked \<open>missing day\<close>. Days are
    \<open>Dates.date_ordinal\<close> numbers. Shown: every kept row is in the frame (C16); every
    other day is a zero slot marked missing (C17); a stored reading is never shown as
    missing (C19).
  \<^item> \<open>Chart\<close> (\<open>vitals_display\<close>): the chart as data: title, axis labels, and five
    series (panel, points, style, colour, final label). Shown: one day is drawn as
    markers, two days as lines (C22); a missing day is plotted at zero (C23).
  \<^item> \<open>Materializer\<close> (\<open>csv_source.show_range\<close>): load, convert the date column,
    build the frame, print it or the no-entries message, ask the chart question and return
    the frame with the chart drawn, if any. Shown: the frame is a run of consecutive days
    inside the window (C15); an empty window prints the no-entries message (C18); a stored
    date outside the \<open>datetime64[ns]\<close> range makes every view raise (C20); the chart
    is drawn exactly when the answer is \<open>y\<close> (C21).
  \<^item> \<open>Entry\<close> (\<open>new_entry\<close>): load the table, then the six prompts in the source's
    order, then the upsert. It also defines the data invariant \<open>vitals_inv\<close>: every
    stored value lies within the prompts' ranges. Shown: with every answer valid at once
    an entry reads exactly six lines and upserts them (C24); a completed entry keeps the
    invariant (C25).
  \<^item> \<open>Menu\<close> and \<open>App\<close> (\<open>main\<close>): \<open>menu_round\<close> is one round of the
    \<open>while True\<close> loop (menu, choice, entry, range view, exit or complaint);
    \<open>main_loop\<close> iterates it and is total, because a round reads its choice line and
    never adds input. The states between rounds form the inductive relation
    \<open>menu_run\<close>. Shown: \<open>main\<close> returns only after a \<open>3\<close> (C27); every state
    between rounds keeps the invariant (C28); a stored fractional weight makes options 1
    and 2 fail for good (C29); invalid choices are answered and the menu repeats (C30).
  \<^item> This theory: an entry on a non-empty file whose dates were parsed makes every later
    range view raise a \<open>ValueError\<close> (C26). With the file created by the program, the
    first entry is written as \<open>mm/dd/yyyy\<close> text, the next load parses it, and the second
    entry mixes the two forms: from then on option 2 always fails.

  An exception loses the state, so claims about the file after an error are stated on the
  states before the failing round (\<open>menu_run\<close>).

  Library semantics: pandas 2.x and numpy as the code calls them. A datetime never equals
  a text (numpy's \<open>in\<close> on a \<open>datetime64\<close> array and \<open>Timestamp.__eq__\<close> on a
  string both give false); \<open>read_csv\<close> runs the date conversion with errors ignored;
  \<open>datetime64[ns]\<close> holds midnight dates from 1677-09-22 to 2262-04-11.

  Bounds chosen: none of the loops needs fuel, since each consumes a line per round. The
  stack budget of \<open>get_bp\<close> is a parameter: the theorems hold for every budget
  (CPython's default limit of 1000 frames, less the frames of \<open>main\<close> and
  \<open>new_entry\<close> below it). Today's date is a parameter of the entry and the menu.

  Not modelled: the text of the prompts given to \<open>input()\<close> and of the printed
  table (\<open>to_string\<close>); matplotlib's rendering of the chart (tick locators, rotation,
  layout, the window of \<open>plt.show()\<close>), since the chart is modelled by what is drawn
  from the data; Unicode input (Python's Unicode digits and spaces); the rounding of
  decimal input to binary floats; digit grouping with \<open>_\<close> in \<open>float()\<close>; date
  texts other than the three forms this program writes (without a guessed format pandas
  falls back to \<open>dateutil\<close>, which accepts more; the model tries the three forms) and
  times other than midnight.
\<close>

section \<open>Properties across components\<close>

text \<open>
  C26. An entry completed on a non-empty file whose dates pandas parsed breaks the range
  view for good: whatever window is asked for next, \<open>show_range\<close> raises a
  \<open>ValueError\<close>, of the date conversion when the weight is a whole number, of the
  integer cast of the weight otherwise.
\<close>

theorem entry_breaks_view:
  assumes "valid_date today" and "get_data w = Inr (df, s)" and "df \<noteq> []"
    and "list_all is_dt (map r_date df)" and "writable w" and "new_entry today n f w = Inr (u, w')"
  shows "show_range b e w' = Inl (ValueError DateFormatError) \<or>
         show_range b e w' = Inl (ValueError DtypeCastError)"
proof -
  obtain df1 w1 date w2 sb db p wt t nt w7 where
    g: "get_data w = Inr (df1, w1)" and gd: "get_date True today w1 = Inr (date, w2)"
    and st: "console_step w1 w7" and up: "add_or_update_record date sb db p wt t nt w7 = Inr (u, w')"
    using new_entry_steps [OF assms(6)] by blast
  from g assms(2) have df1: "df1 = df" and w1: "w1 = s" by simp_all
  from get_date_valid_result [OF assms(1) gd] obtain dt where v: "valid_date dt" and d: "date = strftime_mdY dt"
    by blast
  have g7: "get_data w7 = Inr (df, w7)" using get_data_console_step [OF assms(2,3)] st w1 by simp
  have wr7: "writable w7" using store_console_step [OF st] get_data_Inr [OF assms(2)] assms(5) w1 by simp
  show ?thesis
  proof (cases "is_integral wt")
    case True
    from append_mixes_date_column [OF g7 assms(3,4) wr7 v True] obtain w'' df' where
      a: "add_or_update_record (strftime_mdY dt) sb db p wt t nt w7 = Inr ((), w'')"
      and g': "get_data w'' = Inr (df', w'')" and c: "to_datetime_mdY (map r_date df') = Inl DateFormatError"
      by blast
    from a up d have "w'' = w'" by simp
    with g' c show ?thesis by (simp add: show_range_def)
  next
    case False
    from assms(4) have "TXT date \<notin> set (map r_date df)" by (auto simp: list_all_iff) (metis is_dt_simps(2))
    from append_fractional_load_fails [OF g7 this wr7 False] obtain w'' where
      a: "add_or_update_record date sb db p wt t nt w7 = Inr ((), w'')"
      and g': "get_data w'' = Inl (ValueError DtypeCastError)" by blast
    from a up have "w'' = w'" by simp
    with g' show ?thesis by (simp add: show_range_def)
  qed
qed

section \<open>Witnesses\<close>

theorem entry_breaks_view_witness:
  "valid_date \<lparr>d_year = 2024, d_month = 3, d_day = 9\<rparr> \<and>
   get_data \<lparr>inp = [[], ''Y'', ''130/85'', ''72'', ''180'', ''98.6'', ''felt fine''], out = [], csv_file = Some [jan5_row], writable = True\<rparr>
     = Inr ([jan5_loaded], \<lparr>inp = [[], ''Y'', ''130/85'', ''72'', ''180'', ''98.6'', ''felt fine''], out = [], csv_file = Some [jan5_row], writable = True\<rparr>) \<and>
   [jan5_loaded] \<noteq> [] \<and> list_all is_dt (map r_date [jan5_loaded]) \<and>
   writable \<lparr>inp = [[], ''Y'', ''130/85'', ''72'', ''180'', ''98.6'', ''felt fine''], out = [], csv_file = Some [jan5_row], writable = True\<rparr> \<and>
   new_entry \<lparr>d_year = 2024, d_month = 3, d_day = 9\<rparr> 5 py_float \<lparr>inp = [[], ''Y'', ''130/85'', ''72'', ''180'', ''98.6'', ''felt fine''], out = [], csv_file = Some [jan5_row], writable = True\<rparr>
     = Inr ((), \<lparr>inp = [], out = [''High BP. Possibly hypertension stage 1'', ''Added new record for 03/09/2024''],
                 csv_file = Some [with_date ''2024-01-05 00:00:00'' jan5_row, \<lparr>r_date = ''03/09/2024'', bp_sys = 130, bp_dia = 85, pulse_rate = 72, weight = 180, temp = 493 / 5, r_notes = ''felt fine''\<rparr>],
                 writable = True\<rparr>) \<and>
   show_range ''01/01/2024'' ''12/31/2024''
     \<lparr>inp = [], out = [''High BP. Possibly hypertension stage 1'', ''Added new record for 03/09/2024''],
      csv_file = Some [with_date ''2024-01-05 00:00:00'' jan5_row, \<lparr>r_date = ''03/09/2024'', bp_sys = 130, bp_dia = 85, pulse_rate = 72, weight = 180, temp = 493 / 5, r_notes = ''felt fine''\<rparr>],
      writable = True\<rparr> = Inl (ValueError DateFormatError)"
proof -
  have v: "valid_date \<lparr>d_year = 2024, d_month = 3, d_day = 9\<rparr>" by code_simp
  have g: "get_data \<lparr>inp = [[], ''Y'', ''130/85'', ''72'', ''180'', ''98.6'', ''felt fine''], out = [], csv_file = Some [jan5_row], writable = True\<rparr>
     = Inr ([jan5_loaded], \<lparr>inp = [[], ''Y'', ''130/85'', ''72'', ''180'', ''98.6'', ''felt fine''], out = [], csv_file = Some [jan5_row], writable = True\<rparr>)"
    by code_simp
  have ne: "[jan5_loaded] \<noteq> []" by simp
  have d: "list_all is_dt (map r_date [jan5_loaded])" by simp
  have wr: "writable \<lparr>inp = [[], ''Y'', ''130/85'', ''72'', ''180'', ''98.6'', ''felt fine''], out = [], csv_file = Some [jan5_row], writable = True\<rparr>"
    by simp
  have r: "new_entry \<lparr>d_year = 2024, d_month = 3, d_day = 9\<rparr> 5 py_float \<lparr>inp = [[], ''Y'', ''130/85'', ''72'', ''180'', ''98.6'', ''felt fine''], out = [], csv_file = Some [jan5_row], writable = True\<rparr>
     = Inr ((), \<lparr>inp = [], out = [''High BP. Possibly hypertension stage 1'', ''Added new record for 03/09/2024''],
                 csv_file = Some [with_date ''2024-01-05 00:00:00'' jan5_row, \<lparr>r_date = ''03/09/2024'', bp_sys = 130, bp_dia = 85, pulse_rate = 72, weight = 180, temp = 493 / 5, r_notes = ''felt fine''\<rparr>],
                 writable = True\<rparr>)"
    by code_simp
  have nd: "show_range ''01/01/2024'' ''12/31/2024''
     \<lparr>inp = [], out = [''High BP. Possibly hypertension stage 1'', ''Added new record for 03/09/2024''],
      csv_file = Some [with_date ''2024-01-05 00:00:00'' jan5_row, \<lparr>r_date = ''03/09/2024'', bp_sys = 130, bp_dia = 85, pulse_rate = 72, weight = 180, temp = 493 / 5, r_notes = ''felt fine''\<rparr>],
      writable = True\<rparr> \<noteq> Inl (ValueError DtypeCastError)" by code_simp
  from entry_breaks_view [OF v g ne d wr r, of "''01/01/2024''" "''12/31/2024''"] nd v g ne d wr r
  show ?thesis by simp
qed

end
